theory Spec2Isabelle
  imports Main
begin

section \<open>Types imported from @seriphxyz/core\<close>

text \<open>
  The hooks of \<^verbatim>\<open>src/index.ts\<close> mirror state snapshots of controllers that live in
  the package @seriphxyz/core. The snapshot types are TypeScript interfaces; their
  fields are the ones the \<^verbatim>\<open>useState\<close> initialisers of the hooks spell out. TypeScript
  types are structural, so the fields \<^verbatim>\<open>status\<close> and \<^verbatim>\<open>error\<close> shared by all
  nine snapshots form a base record that the others extend.
\<close>

datatype ControllerStatus = status_idle | status_loading | status_success | status_error

type_synonym Error = string

text \<open>Payload items the hooks never inspect.\<close>

typedecl Comment
typedecl Announcement
typedecl PollWithResults

type_synonym FeedbackType = string

record BaseState =
  status :: ControllerStatus
  error :: "Error option"

record SubscribeState = BaseState +
  message :: "string option"

type_synonym FormState = SubscribeState
type_synonym FeedbackState = SubscribeState

record WaitlistState = SubscribeState +
  position :: "int option"

record ReactionsState = BaseState +
  counts :: "string \<rightharpoonup> int"
  userReactions :: "string list"

record CommentsState = BaseState +
  comments :: "Comment list"

text \<open>
  \<^verbatim>\<open>UseViewsReturn\<close> (without its two callbacks) has the fields \<^verbatim>\<open>views\<close>,
  \<^verbatim>\<open>uniqueVisitors\<close>, \<^verbatim>\<open>status\<close>, \<^verbatim>\<open>error\<close>; \<^verbatim>\<open>ViewCountsState\<close> has these and
  \<^verbatim>\<open>pageId\<close>. Likewise \<^verbatim>\<open>AnnouncementsState\<close> is \<^verbatim>\<open>UseAnnouncementsReturn\<close> plus
  \<^verbatim>\<open>dismissed\<close>, and \<^verbatim>\<open>UsePollReturn\<close> is \<^verbatim>\<open>PollState\<close> plus \<^verbatim>\<open>hasVoted\<close>.
\<close>

record UseViewsReturn = BaseState +
  views :: int
  uniqueVisitors :: int

record ViewCountsState = UseViewsReturn +
  pageId :: string

record PollState = BaseState +
  poll :: "PollWithResults option"

record UsePollReturn = PollState +
  hasVoted :: bool

record UseAnnouncementsReturn = BaseState +
  announcements :: "Announcement list"

record AnnouncementsState = UseAnnouncementsReturn +
  dismissed :: "int set"

section \<open>Hook options\<close>

text \<open>
  \<^verbatim>\<open>OptionalSiteKey<SeriphConfig>\<close>: the hooks read \<^verbatim>\<open>options.siteKey\<close> and
  \<^verbatim>\<open>options.endpoint\<close>, both possibly \<^verbatim>\<open>undefined\<close>. An optional boolean
  (\<^verbatim>\<open>autoFetch?: boolean\<close>) is a \<open>bool option\<close>.
\<close>

record SeriphOptions =
  siteKey :: "string option"
  endpoint :: "string option"

type_synonym UseSubscribeOptions = SeriphOptions
type_synonym UseWaitlistOptions = SeriphOptions
type_synonym UseFeedbackOptions = SeriphOptions

record UseFormOptions = SeriphOptions +
  formSlug :: string

record UseAnnouncementsOptions = SeriphOptions +
  autoFetch :: "bool option"

record UseReactionsOptions = UseAnnouncementsOptions +
  contentId :: string

type_synonym UseCommentsOptions = UseReactionsOptions

record UsePollOptions = UseAnnouncementsOptions +
  slug :: string

record UseViewsOptions = SeriphOptions +
  pageId :: string
  autoRecord :: "bool option"

record PostCommentOptions =
  authorEmail :: "string option"
  parentId :: "string option"

record JoinOptions =
  name :: "string option"
  source :: "string option"

record FeedbackOptions =
  email :: "string option"
  pageUrl :: "string option"

section \<open>Controllers as seen from the hooks\<close>

text \<open>
  A controller is an object of @seriphxyz/core. The hooks construct it, register a
  listener, call its methods and read two synchronous queries. A controller is
  identified by the order of its construction; what the hooks do to controllers
  is recorded, in order, in a trace.
\<close>

type_synonym cid = nat

datatype ControllerClass =
    SubscribeController
  | FormController
  | ReactionsController
  | CommentsController
  | WaitlistController
  | ViewCountsController
  | FeedbackController
  | PollController
  | AnnouncementsController

text \<open>A method of a controller class together with the arguments of one call.\<close>

datatype call =
    SubscribeController_submit string
  | SubscribeController_reset
  | FormController_submit "string \<rightharpoonup> string"
  | FormController_reset
  | ReactionsController_add string
  | ReactionsController_remove string
  | ReactionsController_fetch
  | CommentsController_post string string "PostCommentOptions option"
  | CommentsController_fetch
  | WaitlistController_join string "JoinOptions option"
  | WaitlistController_reset
  | ViewCountsController_record
  | ViewCountsController_fetch
  | FeedbackController_submit FeedbackType string "FeedbackOptions option"
  | FeedbackController_reset
  | PollController_vote "string list"
  | PollController_fetch
  | AnnouncementsController_dismiss int
  | AnnouncementsController_fetch

datatype 'cfg event =
    Construct cid ControllerClass 'cfg "string option"
  | Subscribe cid
  | Unsubscribe cid
  | Invoke cid call

text \<open>
  The storage React keeps for one instance of a hook, together with the part of
  the outside world the instance touches:
  \<^item> \<open>controllerRef\<close> is \<^verbatim>\<open>useRef<Controller | null>(null)\<close>;
  \<^item> \<open>state\<close> is the first component of \<^verbatim>\<open>useState(init)\<close>;
  \<^item> \<open>effect_deps\<close> is the dependency array of the effect as last committed
    (\<open>None\<close> before the first commit);
  \<^item> \<open>effect_cleanup\<close> is the function the last effect returned: the deregistration
    function of a controller, named by that controller;
  \<^item> \<open>unmounted\<close> says that React has unmounted the instance;
  \<^item> \<open>listeners\<close> lists the controllers that hold \<^verbatim>\<open>setState\<close> of this instance as
    a registered listener;
  \<^item> \<open>next_cid\<close> names the next controller to be constructed;
  \<^item> \<open>trace\<close> is the record of constructions, registrations and calls.
\<close>

record ('cfg, 's) bridge =
  controllerRef :: "cid option"
  state :: 's
  effect_deps :: "string option list option"
  effect_cleanup :: "cid option"
  unmounted :: bool
  listeners :: "cid list"
  next_cid :: cid
  trace :: "'cfg event list"

definition mount :: "'s \<Rightarrow> ('cfg, 's) bridge" where
  "mount init =
     \<lparr>controllerRef = None, state = init, effect_deps = None, effect_cleanup = None,
      unmounted = False, listeners = [], next_cid = 0, trace = []\<rparr>"

text \<open>\<^verbatim>\<open>new XController(config)\<close> or \<^verbatim>\<open>new XController(config, id)\<close>.\<close>

definition new_controller ::
  "ControllerClass \<Rightarrow> 'cfg \<Rightarrow> string option \<Rightarrow> ('cfg, 's) bridge \<Rightarrow> cid \<times> ('cfg, 's) bridge" where
  "new_controller k config ident b =
     (next_cid b,
      b\<lparr>next_cid := Suc (next_cid b),
        trace := trace b @ [Construct (next_cid b) k config ident]\<rparr>)"

text \<open>
  Modelled from the spec: the controller's \<^verbatim>\<open>subscribe(listener) -> unsubscribe\<close>
  is not in this repository. The spec (sections 4.1 and 6) says that it registers a
  listener that receives the full state snapshot on every change, and that it
  returns a deregistration function. The listener the hooks pass is always
  \<^verbatim>\<open>setState\<close>; the deregistration function returned is named by its controller.
\<close>

definition controller_subscribe :: "cid \<Rightarrow> ('cfg, 's) bridge \<Rightarrow> cid \<times> ('cfg, 's) bridge" where
  "controller_subscribe controller b =
     (controller,
      b\<lparr>listeners := listeners b @ [controller],
        trace := trace b @ [Subscribe controller]\<rparr>)"

text \<open>Modelled from the spec: calling the deregistration function removes the listener.\<close>

definition controller_unsubscribe :: "cid \<Rightarrow> ('cfg, 's) bridge \<Rightarrow> ('cfg, 's) bridge" where
  "controller_unsubscribe controller b =
     b\<lparr>listeners := removeAll controller (listeners b),
       trace := trace b @ [Unsubscribe controller]\<rparr>"

text \<open>
  Modelled from the spec: a controller that emits a snapshot passes it to its
  registered listeners. The listener is \<^verbatim>\<open>setState\<close>, which replaces the state.
\<close>

definition emit :: "cid \<Rightarrow> 's \<Rightarrow> ('cfg, 's) bridge \<Rightarrow> ('cfg, 's) bridge" where
  "emit controller snapshot b =
     (if controller \<in> set (listeners b) then b\<lparr>state := snapshot\<rparr> else b)"

text \<open>
  A method call on a controller. The operation it starts is named by the position
  of the call in the trace.
\<close>

definition controller_call :: "cid \<Rightarrow> call \<Rightarrow> ('cfg, 's) bridge \<Rightarrow> nat \<times> ('cfg, 's) bridge" where
  "controller_call controller k b =
     (length (trace b), b\<lparr>trace := trace b @ [Invoke controller k]\<rparr>)"

section \<open>React: effects, unmounting, asynchronous callbacks\<close>

definition run_cleanup :: "('cfg, 's) bridge \<Rightarrow> ('cfg, 's) bridge" where
  "run_cleanup b =
     (case effect_cleanup b of
        None \<Rightarrow> b
      | Some unsubscribe \<Rightarrow> (controller_unsubscribe unsubscribe b)\<lparr>effect_cleanup := None\<rparr>)"

text \<open>
  \<^verbatim>\<open>useEffect(effect, deps)\<close> at commit: nothing happens when every dependency is
  the one of the previous commit; otherwise the previous cleanup runs first, then
  the effect, whose return value is the next cleanup.
\<close>

definition useEffect ::
  "(('cfg, 's) bridge \<Rightarrow> cid \<times> ('cfg, 's) bridge) \<Rightarrow> string option list \<Rightarrow>
   ('cfg, 's) bridge \<Rightarrow> ('cfg, 's) bridge" where
  "useEffect effect deps b =
     (if effect_deps b = Some deps then b
      else (case effect (run_cleanup b) of
              (unsubscribe, b') \<Rightarrow>
                b'\<lparr>effect_cleanup := Some unsubscribe, effect_deps := Some deps\<rparr>))"

definition unmount :: "('cfg, 's) bridge \<Rightarrow> ('cfg, 's) bridge" where
  "unmount b = (run_cleanup b)\<lparr>unmounted := True\<rparr>"

text \<open>
  The promise an \<^verbatim>\<open>async\<close> callback returns. Its body is a single
  \<^verbatim>\<open>await controllerRef.current?.method(args)\<close>: with no controller there is nothing
  to wait for; otherwise the promise follows the operation the call started.
  The \<^verbatim>\<open>reset\<close> callbacks are synchronous (\<^verbatim>\<open>controllerRef.current?.reset()\<close>);
  for them the same value stands for the outcome of the call itself: returning
  for a fulfilment, throwing for a rejection.
\<close>

datatype completion = Immediate | Awaits nat

datatype 'v settlement = Pending | Fulfilled 'v | Rejected Error

text \<open>
  How the callback's promise settles, given how the controller's operations have
  settled so far: the value of a fulfilled operation is dropped (the callbacks
  return \<^verbatim>\<open>Promise<void>\<close>), a rejection is passed on as it is.
\<close>

definition settled :: "(nat \<Rightarrow> 'v settlement) \<Rightarrow> completion \<Rightarrow> unit settlement" where
  "settled operations k =
     (case k of
        Immediate \<Rightarrow> Fulfilled ()
      | Awaits p \<Rightarrow>
          (case operations p of
             Pending \<Rightarrow> Pending
           | Fulfilled v \<Rightarrow> Fulfilled ()
           | Rejected e \<Rightarrow> Rejected e))"

text \<open>\<^verbatim>\<open>controllerRef.current?.method(args)\<close>.\<close>

definition forward :: "call \<Rightarrow> ('cfg, 's) bridge \<Rightarrow> completion \<times> ('cfg, 's) bridge" where
  "forward k b =
     (case controllerRef b of
        None \<Rightarrow> (Immediate, b)
      | Some controller \<Rightarrow>
          (case controller_call controller k b of (p, b') \<Rightarrow> (Awaits p, b')))"

section \<open>The nine hooks\<close>

text \<open>
  Each hook is given by its \<^verbatim>\<open>useState\<close> initialiser, the body of its effect, the
  dependency array of the effect, the data it returns at a render and its
  callbacks. \<open>resolveConfig\<close> is a function of @seriphxyz/core and is a parameter.
  The callbacks are created once (\<^verbatim>\<open>useCallback(..., [])\<close>) and read
  \<^verbatim>\<open>controllerRef.current\<close> when they are called.
\<close>

subsection \<open>useSubscribe\<close>

definition useSubscribe_init :: SubscribeState where
  "useSubscribe_init = \<lparr>status = status_idle, error = None, message = None\<rparr>"

definition useSubscribe_effect ::
  "(UseSubscribeOptions \<Rightarrow> 'cfg) \<Rightarrow> UseSubscribeOptions \<Rightarrow>
   ('cfg, SubscribeState) bridge \<Rightarrow> cid \<times> ('cfg, SubscribeState) bridge" where
  "useSubscribe_effect resolveConfig options b =
     (let config = resolveConfig options in
      case new_controller SubscribeController config None b of
        (controller, b1) \<Rightarrow>
          controller_subscribe controller (b1\<lparr>controllerRef := Some controller\<rparr>))"

definition useSubscribe_deps :: "UseSubscribeOptions \<Rightarrow> string option list" where
  "useSubscribe_deps options = [siteKey options, endpoint options]"

definition useSubscribe_commit ::
  "(UseSubscribeOptions \<Rightarrow> 'cfg) \<Rightarrow> UseSubscribeOptions \<Rightarrow>
   ('cfg, SubscribeState) bridge \<Rightarrow> ('cfg, SubscribeState) bridge" where
  "useSubscribe_commit resolveConfig options =
     useEffect (useSubscribe_effect resolveConfig options) (useSubscribe_deps options)"

definition useSubscribe_subscribe ::
  "string \<Rightarrow> ('cfg, SubscribeState) bridge \<Rightarrow> completion \<times> ('cfg, SubscribeState) bridge" where
  "useSubscribe_subscribe email_arg = forward (SubscribeController_submit email_arg)"

definition useSubscribe_reset ::
  "('cfg, SubscribeState) bridge \<Rightarrow> completion \<times> ('cfg, SubscribeState) bridge" where
  "useSubscribe_reset = forward SubscribeController_reset"

text \<open>\<^verbatim>\<open>return { ...state, subscribe, reset }\<close>: the data returned is the state.\<close>

definition useSubscribe_return :: "('cfg, SubscribeState) bridge \<Rightarrow> SubscribeState" where
  "useSubscribe_return b = state b"

subsection \<open>useForm\<close>

definition useForm_init :: FormState where
  "useForm_init = \<lparr>status = status_idle, error = None, message = None\<rparr>"

definition useForm_effect ::
  "(UseFormOptions \<Rightarrow> 'cfg) \<Rightarrow> UseFormOptions \<Rightarrow>
   ('cfg, FormState) bridge \<Rightarrow> cid \<times> ('cfg, FormState) bridge" where
  "useForm_effect resolveConfig options b =
     (let config = resolveConfig options in
      case new_controller FormController config (Some (formSlug options)) b of
        (controller, b1) \<Rightarrow>
          controller_subscribe controller (b1\<lparr>controllerRef := Some controller\<rparr>))"

definition useForm_deps :: "UseFormOptions \<Rightarrow> string option list" where
  "useForm_deps options = [siteKey options, endpoint options, Some (formSlug options)]"

definition useForm_commit ::
  "(UseFormOptions \<Rightarrow> 'cfg) \<Rightarrow> UseFormOptions \<Rightarrow>
   ('cfg, FormState) bridge \<Rightarrow> ('cfg, FormState) bridge" where
  "useForm_commit resolveConfig options =
     useEffect (useForm_effect resolveConfig options) (useForm_deps options)"

definition useForm_submit ::
  "(string \<rightharpoonup> string) \<Rightarrow> ('cfg, FormState) bridge \<Rightarrow> completion \<times> ('cfg, FormState) bridge" where
  "useForm_submit data = forward (FormController_submit data)"

definition useForm_reset ::
  "('cfg, FormState) bridge \<Rightarrow> completion \<times> ('cfg, FormState) bridge" where
  "useForm_reset = forward FormController_reset"

definition useForm_return :: "('cfg, FormState) bridge \<Rightarrow> FormState" where
  "useForm_return b = state b"

subsection \<open>useReactions\<close>

definition useReactions_init :: ReactionsState where
  "useReactions_init =
     \<lparr>status = status_idle, error = None, counts = Map.empty, userReactions = []\<rparr>"

definition useReactions_effect ::
  "(UseReactionsOptions \<Rightarrow> 'cfg) \<Rightarrow> UseReactionsOptions \<Rightarrow>
   ('cfg, ReactionsState) bridge \<Rightarrow> cid \<times> ('cfg, ReactionsState) bridge" where
  "useReactions_effect resolveConfig options b =
     (let config = resolveConfig options in
      case new_controller ReactionsController config (Some (contentId options)) b of
        (controller, b1) \<Rightarrow>
          (case controller_subscribe controller (b1\<lparr>controllerRef := Some controller\<rparr>) of
             (unsubscribe, b2) \<Rightarrow>
               (unsubscribe,
                if autoFetch options \<noteq> Some False
                then snd (controller_call controller ReactionsController_fetch b2)
                else b2)))"

definition useReactions_deps :: "UseReactionsOptions \<Rightarrow> string option list" where
  "useReactions_deps options = [siteKey options, endpoint options, Some (contentId options)]"

definition useReactions_commit ::
  "(UseReactionsOptions \<Rightarrow> 'cfg) \<Rightarrow> UseReactionsOptions \<Rightarrow>
   ('cfg, ReactionsState) bridge \<Rightarrow> ('cfg, ReactionsState) bridge" where
  "useReactions_commit resolveConfig options =
     useEffect (useReactions_effect resolveConfig options) (useReactions_deps options)"

definition useReactions_addReaction ::
  "string \<Rightarrow> ('cfg, ReactionsState) bridge \<Rightarrow> completion \<times> ('cfg, ReactionsState) bridge" where
  "useReactions_addReaction type = forward (ReactionsController_add type)"

definition useReactions_removeReaction ::
  "string \<Rightarrow> ('cfg, ReactionsState) bridge \<Rightarrow> completion \<times> ('cfg, ReactionsState) bridge" where
  "useReactions_removeReaction type = forward (ReactionsController_remove type)"

definition useReactions_refresh ::
  "('cfg, ReactionsState) bridge \<Rightarrow> completion \<times> ('cfg, ReactionsState) bridge" where
  "useReactions_refresh = forward ReactionsController_fetch"

definition useReactions_return :: "('cfg, ReactionsState) bridge \<Rightarrow> ReactionsState" where
  "useReactions_return b = state b"

subsection \<open>useComments\<close>

definition useComments_init :: CommentsState where
  "useComments_init = \<lparr>status = status_idle, error = None, comments = []\<rparr>"

definition useComments_effect ::
  "(UseCommentsOptions \<Rightarrow> 'cfg) \<Rightarrow> UseCommentsOptions \<Rightarrow>
   ('cfg, CommentsState) bridge \<Rightarrow> cid \<times> ('cfg, CommentsState) bridge" where
  "useComments_effect resolveConfig options b =
     (let config = resolveConfig options in
      case new_controller CommentsController config (Some (contentId options)) b of
        (controller, b1) \<Rightarrow>
          (case controller_subscribe controller (b1\<lparr>controllerRef := Some controller\<rparr>) of
             (unsubscribe, b2) \<Rightarrow>
               (unsubscribe,
                if autoFetch options \<noteq> Some False
                then snd (controller_call controller CommentsController_fetch b2)
                else b2)))"

definition useComments_deps :: "UseCommentsOptions \<Rightarrow> string option list" where
  "useComments_deps options = [siteKey options, endpoint options, Some (contentId options)]"

definition useComments_commit ::
  "(UseCommentsOptions \<Rightarrow> 'cfg) \<Rightarrow> UseCommentsOptions \<Rightarrow>
   ('cfg, CommentsState) bridge \<Rightarrow> ('cfg, CommentsState) bridge" where
  "useComments_commit resolveConfig options =
     useEffect (useComments_effect resolveConfig options) (useComments_deps options)"

definition useComments_postComment ::
  "string \<Rightarrow> string \<Rightarrow> PostCommentOptions option \<Rightarrow>
   ('cfg, CommentsState) bridge \<Rightarrow> completion \<times> ('cfg, CommentsState) bridge" where
  "useComments_postComment author content options =
     forward (CommentsController_post author content options)"

definition useComments_refresh ::
  "('cfg, CommentsState) bridge \<Rightarrow> completion \<times> ('cfg, CommentsState) bridge" where
  "useComments_refresh = forward CommentsController_fetch"

definition useComments_return :: "('cfg, CommentsState) bridge \<Rightarrow> CommentsState" where
  "useComments_return b = state b"

subsection \<open>useWaitlist\<close>

definition useWaitlist_init :: WaitlistState where
  "useWaitlist_init =
     \<lparr>status = status_idle, error = None, message = None, position = None\<rparr>"

definition useWaitlist_effect ::
  "(UseWaitlistOptions \<Rightarrow> 'cfg) \<Rightarrow> UseWaitlistOptions \<Rightarrow>
   ('cfg, WaitlistState) bridge \<Rightarrow> cid \<times> ('cfg, WaitlistState) bridge" where
  "useWaitlist_effect resolveConfig options b =
     (let config = resolveConfig options in
      case new_controller WaitlistController config None b of
        (controller, b1) \<Rightarrow>
          controller_subscribe controller (b1\<lparr>controllerRef := Some controller\<rparr>))"

definition useWaitlist_deps :: "UseWaitlistOptions \<Rightarrow> string option list" where
  "useWaitlist_deps options = [siteKey options, endpoint options]"

definition useWaitlist_commit ::
  "(UseWaitlistOptions \<Rightarrow> 'cfg) \<Rightarrow> UseWaitlistOptions \<Rightarrow>
   ('cfg, WaitlistState) bridge \<Rightarrow> ('cfg, WaitlistState) bridge" where
  "useWaitlist_commit resolveConfig options =
     useEffect (useWaitlist_effect resolveConfig options) (useWaitlist_deps options)"

definition useWaitlist_join ::
  "string \<Rightarrow> JoinOptions option \<Rightarrow>
   ('cfg, WaitlistState) bridge \<Rightarrow> completion \<times> ('cfg, WaitlistState) bridge" where
  "useWaitlist_join email_arg opts = forward (WaitlistController_join email_arg opts)"

definition useWaitlist_reset ::
  "('cfg, WaitlistState) bridge \<Rightarrow> completion \<times> ('cfg, WaitlistState) bridge" where
  "useWaitlist_reset = forward WaitlistController_reset"

definition useWaitlist_return :: "('cfg, WaitlistState) bridge \<Rightarrow> WaitlistState" where
  "useWaitlist_return b = state b"

subsection \<open>useViews\<close>

text \<open>The initial state takes \<^verbatim>\<open>pageId\<close> from the options of the first render.\<close>

definition useViews_init :: "UseViewsOptions \<Rightarrow> ViewCountsState" where
  "useViews_init options =
     \<lparr>status = status_idle, error = None, views = 0, uniqueVisitors = 0,
      ViewCountsState.pageId = pageId options\<rparr>"

definition useViews_effect ::
  "(UseViewsOptions \<Rightarrow> 'cfg) \<Rightarrow> UseViewsOptions \<Rightarrow>
   ('cfg, ViewCountsState) bridge \<Rightarrow> cid \<times> ('cfg, ViewCountsState) bridge" where
  "useViews_effect resolveConfig options b =
     (let config = resolveConfig options in
      case new_controller ViewCountsController config (Some (pageId options)) b of
        (controller, b1) \<Rightarrow>
          (case controller_subscribe controller (b1\<lparr>controllerRef := Some controller\<rparr>) of
             (unsubscribe, b2) \<Rightarrow>
               (unsubscribe,
                if autoRecord options \<noteq> Some False
                then snd (controller_call controller ViewCountsController_record b2)
                else b2)))"

definition useViews_deps :: "UseViewsOptions \<Rightarrow> string option list" where
  "useViews_deps options = [siteKey options, endpoint options, Some (pageId options)]"

definition useViews_commit ::
  "(UseViewsOptions \<Rightarrow> 'cfg) \<Rightarrow> UseViewsOptions \<Rightarrow>
   ('cfg, ViewCountsState) bridge \<Rightarrow> ('cfg, ViewCountsState) bridge" where
  "useViews_commit resolveConfig options =
     useEffect (useViews_effect resolveConfig options) (useViews_deps options)"

definition useViews_record ::
  "('cfg, ViewCountsState) bridge \<Rightarrow> completion \<times> ('cfg, ViewCountsState) bridge" where
  "useViews_record = forward ViewCountsController_record"

definition useViews_refresh ::
  "('cfg, ViewCountsState) bridge \<Rightarrow> completion \<times> ('cfg, ViewCountsState) bridge" where
  "useViews_refresh = forward ViewCountsController_fetch"

text \<open>
  \<^verbatim>\<open>return { views: state.views, uniqueVisitors: state.uniqueVisitors,
  status: state.status, error: state.error, record, refresh }\<close>
\<close>

definition useViews_return :: "('cfg, ViewCountsState) bridge \<Rightarrow> UseViewsReturn" where
  "useViews_return b =
     \<lparr>status = status (state b), error = error (state b),
      views = views (state b), uniqueVisitors = uniqueVisitors (state b)\<rparr>"

subsection \<open>useFeedback\<close>

definition useFeedback_init :: FeedbackState where
  "useFeedback_init = \<lparr>status = status_idle, error = None, message = None\<rparr>"

definition useFeedback_effect ::
  "(UseFeedbackOptions \<Rightarrow> 'cfg) \<Rightarrow> UseFeedbackOptions \<Rightarrow>
   ('cfg, FeedbackState) bridge \<Rightarrow> cid \<times> ('cfg, FeedbackState) bridge" where
  "useFeedback_effect resolveConfig options b =
     (let config = resolveConfig options in
      case new_controller FeedbackController config None b of
        (controller, b1) \<Rightarrow>
          controller_subscribe controller (b1\<lparr>controllerRef := Some controller\<rparr>))"

definition useFeedback_deps :: "UseFeedbackOptions \<Rightarrow> string option list" where
  "useFeedback_deps options = [siteKey options, endpoint options]"

definition useFeedback_commit ::
  "(UseFeedbackOptions \<Rightarrow> 'cfg) \<Rightarrow> UseFeedbackOptions \<Rightarrow>
   ('cfg, FeedbackState) bridge \<Rightarrow> ('cfg, FeedbackState) bridge" where
  "useFeedback_commit resolveConfig options =
     useEffect (useFeedback_effect resolveConfig options) (useFeedback_deps options)"

definition useFeedback_submit ::
  "FeedbackType \<Rightarrow> string \<Rightarrow> FeedbackOptions option \<Rightarrow>
   ('cfg, FeedbackState) bridge \<Rightarrow> completion \<times> ('cfg, FeedbackState) bridge" where
  "useFeedback_submit type content opts = forward (FeedbackController_submit type content opts)"

definition useFeedback_reset ::
  "('cfg, FeedbackState) bridge \<Rightarrow> completion \<times> ('cfg, FeedbackState) bridge" where
  "useFeedback_reset = forward FeedbackController_reset"

definition useFeedback_return :: "('cfg, FeedbackState) bridge \<Rightarrow> FeedbackState" where
  "useFeedback_return b = state b"

subsection \<open>usePoll\<close>

definition usePoll_init :: PollState where
  "usePoll_init = \<lparr>status = status_idle, error = None, poll = None\<rparr>"

definition usePoll_effect ::
  "(UsePollOptions \<Rightarrow> 'cfg) \<Rightarrow> UsePollOptions \<Rightarrow>
   ('cfg, PollState) bridge \<Rightarrow> cid \<times> ('cfg, PollState) bridge" where
  "usePoll_effect resolveConfig options b =
     (let config = resolveConfig options in
      case new_controller PollController config (Some (slug options)) b of
        (controller, b1) \<Rightarrow>
          (case controller_subscribe controller (b1\<lparr>controllerRef := Some controller\<rparr>) of
             (unsubscribe, b2) \<Rightarrow>
               (unsubscribe,
                if autoFetch options \<noteq> Some False
                then snd (controller_call controller PollController_fetch b2)
                else b2)))"

definition usePoll_deps :: "UsePollOptions \<Rightarrow> string option list" where
  "usePoll_deps options = [siteKey options, endpoint options, Some (slug options)]"

definition usePoll_commit ::
  "(UsePollOptions \<Rightarrow> 'cfg) \<Rightarrow> UsePollOptions \<Rightarrow>
   ('cfg, PollState) bridge \<Rightarrow> ('cfg, PollState) bridge" where
  "usePoll_commit resolveConfig options =
     useEffect (usePoll_effect resolveConfig options) (usePoll_deps options)"

definition usePoll_vote ::
  "string list \<Rightarrow> ('cfg, PollState) bridge \<Rightarrow> completion \<times> ('cfg, PollState) bridge" where
  "usePoll_vote selectedOptions = forward (PollController_vote selectedOptions)"

definition usePoll_refresh ::
  "('cfg, PollState) bridge \<Rightarrow> completion \<times> ('cfg, PollState) bridge" where
  "usePoll_refresh = forward PollController_fetch"

text \<open>
  \<^verbatim>\<open>const hasVoted = controllerRef.current?.hasVoted() ?? false;
  return { ...state, vote, hasVoted, refresh }\<close>.
  \<open>PollController_hasVoted c\<close> is what \<^verbatim>\<open>hasVoted()\<close> of controller \<open>c\<close> answers
  at the moment of the render.
\<close>

definition usePoll_return :: "(cid \<Rightarrow> bool) \<Rightarrow> ('cfg, PollState) bridge \<Rightarrow> UsePollReturn" where
  "usePoll_return PollController_hasVoted b =
     \<lparr>status = status (state b), error = error (state b), poll = poll (state b),
      hasVoted = (case controllerRef b of
                    None \<Rightarrow> False
                  | Some controller \<Rightarrow> PollController_hasVoted controller)\<rparr>"

subsection \<open>useAnnouncements\<close>

definition useAnnouncements_init :: AnnouncementsState where
  "useAnnouncements_init =
     \<lparr>status = status_idle, error = None, announcements = [], dismissed = {}\<rparr>"

definition useAnnouncements_effect ::
  "(UseAnnouncementsOptions \<Rightarrow> 'cfg) \<Rightarrow> UseAnnouncementsOptions \<Rightarrow>
   ('cfg, AnnouncementsState) bridge \<Rightarrow> cid \<times> ('cfg, AnnouncementsState) bridge" where
  "useAnnouncements_effect resolveConfig options b =
     (let config = resolveConfig options in
      case new_controller AnnouncementsController config None b of
        (controller, b1) \<Rightarrow>
          (case controller_subscribe controller (b1\<lparr>controllerRef := Some controller\<rparr>) of
             (unsubscribe, b2) \<Rightarrow>
               (unsubscribe,
                if autoFetch options \<noteq> Some False
                then snd (controller_call controller AnnouncementsController_fetch b2)
                else b2)))"

definition useAnnouncements_deps :: "UseAnnouncementsOptions \<Rightarrow> string option list" where
  "useAnnouncements_deps options = [siteKey options, endpoint options]"

definition useAnnouncements_commit ::
  "(UseAnnouncementsOptions \<Rightarrow> 'cfg) \<Rightarrow> UseAnnouncementsOptions \<Rightarrow>
   ('cfg, AnnouncementsState) bridge \<Rightarrow> ('cfg, AnnouncementsState) bridge" where
  "useAnnouncements_commit resolveConfig options =
     useEffect (useAnnouncements_effect resolveConfig options) (useAnnouncements_deps options)"

definition useAnnouncements_dismiss ::
  "int \<Rightarrow> ('cfg, AnnouncementsState) bridge \<Rightarrow> completion \<times> ('cfg, AnnouncementsState) bridge" where
  "useAnnouncements_dismiss announcementId = forward (AnnouncementsController_dismiss announcementId)"

definition useAnnouncements_refresh ::
  "('cfg, AnnouncementsState) bridge \<Rightarrow> completion \<times> ('cfg, AnnouncementsState) bridge" where
  "useAnnouncements_refresh = forward AnnouncementsController_fetch"

text \<open>
  \<^verbatim>\<open>const visibleAnnouncements = controllerRef.current?.getVisibleAnnouncements() ?? [];
  return { announcements: visibleAnnouncements, status: state.status, error: state.error,
  dismiss, refresh }\<close>.
  \<open>getVisibleAnnouncements c\<close> is what the query of controller \<open>c\<close> answers at the
  moment of the render.
\<close>

definition useAnnouncements_return ::
  "(cid \<Rightarrow> Announcement list) \<Rightarrow> ('cfg, AnnouncementsState) bridge \<Rightarrow> UseAnnouncementsReturn" where
  "useAnnouncements_return getVisibleAnnouncements b =
     \<lparr>status = status (state b), error = error (state b),
      announcements = (case controllerRef b of
                         None \<Rightarrow> []
                       | Some controller \<Rightarrow> getVisibleAnnouncements controller)\<rparr>"

section \<open>The life of a hook instance\<close>

text \<open>
  What can happen to an instance: React renders it with some options and commits
  the effect; React unmounts it; a controller emits a snapshot; the consumer
  calls one of the callbacks, which forwards a controller call. React never
  renders an unmounted instance; callbacks and controllers outlive it.
\<close>

datatype ('o, 's) input =
    Render 'o
  | Unmount
  | Emit cid 's
  | Act call

definition step ::
  "('o \<Rightarrow> ('cfg, 's) bridge \<Rightarrow> ('cfg, 's) bridge) \<Rightarrow> ('o, 's) input \<Rightarrow>
   ('cfg, 's) bridge \<Rightarrow> ('cfg, 's) bridge" where
  "step commit i b =
     (case i of
        Render options \<Rightarrow> (if unmounted b then b else commit options b)
      | Unmount \<Rightarrow> (if unmounted b then b else unmount b)
      | Emit controller snapshot \<Rightarrow> emit controller snapshot b
      | Act k \<Rightarrow> snd (forward k b))"

definition run ::
  "('o \<Rightarrow> ('cfg, 's) bridge \<Rightarrow> ('cfg, 's) bridge) \<Rightarrow> ('o, 's) input list \<Rightarrow>
   ('cfg, 's) bridge \<Rightarrow> ('cfg, 's) bridge" where
  "run commit inputs b = foldl (\<lambda>b' i. step commit i b') b inputs"

text \<open>The instance of each hook after a sequence of inputs, from its first render.\<close>

definition useSubscribe_instance ::
  "(UseSubscribeOptions \<Rightarrow> 'cfg) \<Rightarrow> (UseSubscribeOptions, SubscribeState) input list \<Rightarrow>
   ('cfg, SubscribeState) bridge" where
  "useSubscribe_instance resolveConfig inputs =
     run (useSubscribe_commit resolveConfig) inputs (mount useSubscribe_init)"

definition useForm_instance ::
  "(UseFormOptions \<Rightarrow> 'cfg) \<Rightarrow> (UseFormOptions, FormState) input list \<Rightarrow>
   ('cfg, FormState) bridge" where
  "useForm_instance resolveConfig inputs =
     run (useForm_commit resolveConfig) inputs (mount useForm_init)"

definition useReactions_instance ::
  "(UseReactionsOptions \<Rightarrow> 'cfg) \<Rightarrow> (UseReactionsOptions, ReactionsState) input list \<Rightarrow>
   ('cfg, ReactionsState) bridge" where
  "useReactions_instance resolveConfig inputs =
     run (useReactions_commit resolveConfig) inputs (mount useReactions_init)"

definition useComments_instance ::
  "(UseCommentsOptions \<Rightarrow> 'cfg) \<Rightarrow> (UseCommentsOptions, CommentsState) input list \<Rightarrow>
   ('cfg, CommentsState) bridge" where
  "useComments_instance resolveConfig inputs =
     run (useComments_commit resolveConfig) inputs (mount useComments_init)"

definition useWaitlist_instance ::
  "(UseWaitlistOptions \<Rightarrow> 'cfg) \<Rightarrow> (UseWaitlistOptions, WaitlistState) input list \<Rightarrow>
   ('cfg, WaitlistState) bridge" where
  "useWaitlist_instance resolveConfig inputs =
     run (useWaitlist_commit resolveConfig) inputs (mount useWaitlist_init)"

definition useViews_instance ::
  "(UseViewsOptions \<Rightarrow> 'cfg) \<Rightarrow> UseViewsOptions \<Rightarrow>
   (UseViewsOptions, ViewCountsState) input list \<Rightarrow> ('cfg, ViewCountsState) bridge" where
  "useViews_instance resolveConfig first_options inputs =
     run (useViews_commit resolveConfig) inputs (mount (useViews_init first_options))"

definition useFeedback_instance ::
  "(UseFeedbackOptions \<Rightarrow> 'cfg) \<Rightarrow> (UseFeedbackOptions, FeedbackState) input list \<Rightarrow>
   ('cfg, FeedbackState) bridge" where
  "useFeedback_instance resolveConfig inputs =
     run (useFeedback_commit resolveConfig) inputs (mount useFeedback_init)"

definition usePoll_instance ::
  "(UsePollOptions \<Rightarrow> 'cfg) \<Rightarrow> (UsePollOptions, PollState) input list \<Rightarrow>
   ('cfg, PollState) bridge" where
  "usePoll_instance resolveConfig inputs =
     run (usePoll_commit resolveConfig) inputs (mount usePoll_init)"

definition useAnnouncements_instance ::
  "(UseAnnouncementsOptions \<Rightarrow> 'cfg) \<Rightarrow>
   (UseAnnouncementsOptions, AnnouncementsState) input list \<Rightarrow>
   ('cfg, AnnouncementsState) bridge" where
  "useAnnouncements_instance resolveConfig inputs =
     run (useAnnouncements_commit resolveConfig) inputs (mount useAnnouncements_init)"

text \<open>
  A call of usePoll or useAnnouncements as a whole. The body of the hook computes
  the data it returns from the instance as it is at the render, when the
  reference still holds what the earlier commits have left in it
  (\<^verbatim>\<open>const hasVoted = controllerRef.current?.hasVoted() ?? false\<close> is evaluated
  before the effect of this render runs); React commits the effect after the
  body has returned. The consumer holds the data of the latest call until the
  next call.
\<close>

definition usePoll ::
  "(UsePollOptions \<Rightarrow> 'cfg) \<Rightarrow> (cid \<Rightarrow> bool) \<Rightarrow> UsePollOptions \<Rightarrow>
   ('cfg, PollState) bridge \<Rightarrow> UsePollReturn \<times> ('cfg, PollState) bridge" where
  "usePoll resolveConfig PollController_hasVoted options b =
     (usePoll_return PollController_hasVoted b,
      step (usePoll_commit resolveConfig) (Render options) b)"

definition useAnnouncements ::
  "(UseAnnouncementsOptions \<Rightarrow> 'cfg) \<Rightarrow> (cid \<Rightarrow> Announcement list) \<Rightarrow>
   UseAnnouncementsOptions \<Rightarrow> ('cfg, AnnouncementsState) bridge \<Rightarrow>
   UseAnnouncementsReturn \<times> ('cfg, AnnouncementsState) bridge" where
  "useAnnouncements resolveConfig getVisibleAnnouncements options b =
     (useAnnouncements_return getVisibleAnnouncements b,
      step (useAnnouncements_commit resolveConfig) (Render options) b)"

text \<open>An input that is not a call of the consumer.\<close>

fun automatic :: "('o, 's) input \<Rightarrow> bool" where
  "automatic (Act k) = False"
| "automatic i = True"

section \<open>Proof support: the common shape of the nine effects\<close>

text \<open>
  All nine effects construct a controller, store it in the reference, register
  \<^verbatim>\<open>setState\<close> and, for some, start one read. The shape is stated once; each
  effect is then shown to be an instance of it.
\<close>

definition bridge_effect ::
  "ControllerClass \<Rightarrow> 'cfg \<Rightarrow> string option \<Rightarrow> call option \<Rightarrow>
   ('cfg, 's) bridge \<Rightarrow> cid \<times> ('cfg, 's) bridge" where
  "bridge_effect k config ident auto b =
     (next_cid b,
      b\<lparr>controllerRef := Some (next_cid b),
        listeners := listeners b @ [next_cid b],
        next_cid := Suc (next_cid b),
        trace := trace b @ [Construct (next_cid b) k config ident, Subscribe (next_cid b)] @
                 (case auto of None \<Rightarrow> [] | Some r \<Rightarrow> [Invoke (next_cid b) r])\<rparr>)"

definition is_bridge :: "('o \<Rightarrow> ('cfg, 's) bridge \<Rightarrow> ('cfg, 's) bridge) \<Rightarrow> bool" where
  "is_bridge commit \<longleftrightarrow>
     (\<forall>options. \<exists>k config ident auto deps.
        commit options = useEffect (bridge_effect k config ident auto) deps)"

fun event_cid :: "'cfg event \<Rightarrow> cid" where
  "event_cid (Construct c k config ident) = c"
| "event_cid (Subscribe c) = c"
| "event_cid (Unsubscribe c) = c"
| "event_cid (Invoke c k) = c"

definition bridge_inv :: "('cfg, 's) bridge \<Rightarrow> bool" where
  "bridge_inv b \<longleftrightarrow>
     (\<forall>e \<in> set (trace b). event_cid e < next_cid b) \<and>
     (\<forall>c. controllerRef b = Some c \<longrightarrow> c < next_cid b) \<and>
     (\<forall>c. Subscribe c \<in> set (trace b) \<longrightarrow>
            Unsubscribe c \<in> set (trace b) \<or> c \<in> set (listeners b)) \<and>
     (case effect_cleanup b of
        Some c \<Rightarrow>
          controllerRef b = Some c \<and> listeners b = [c] \<and> \<not> unmounted b \<and>
          effect_deps b \<noteq> None \<and> Subscribe c \<in> set (trace b) \<and>
          Unsubscribe c \<notin> set (trace b)
      | None \<Rightarrow>
          listeners b = [] \<and>
          (unmounted b \<or> (effect_deps b = None \<and> controllerRef b = None)))"

text \<open>
  A controller is alive in an instance when the hook has registered its listener
  on it and has not called the deregistration function since.
\<close>

definition alive :: "cid \<Rightarrow> ('cfg, 's) bridge \<Rightarrow> bool" where
  "alive c b \<longleftrightarrow> Subscribe c \<in> set (trace b) \<and> Unsubscribe c \<notin> set (trace b)"

section \<open>Lemmas on the common shape\<close>

lemmas effect_defs =
  bridge_effect_def new_controller_def controller_subscribe_def controller_call_def Let_def

lemma useSubscribe_effect_shape:
  "useSubscribe_effect resolveConfig options b =
     bridge_effect SubscribeController (resolveConfig options) None
       None b"
  by (simp add: useSubscribe_effect_def effect_defs)

lemma useSubscribe_commit_shape:
  "useSubscribe_commit resolveConfig options =
     useEffect (bridge_effect SubscribeController (resolveConfig options) None
       None) (useSubscribe_deps options)"
  by (simp add: useSubscribe_commit_def useSubscribe_effect_shape [abs_def])

lemma useSubscribe_commit_bridge: "is_bridge (useSubscribe_commit resolveConfig)"
  unfolding is_bridge_def useSubscribe_commit_shape by blast

lemma useForm_effect_shape:
  "useForm_effect resolveConfig options b =
     bridge_effect FormController (resolveConfig options) (Some (formSlug options))
       None b"
  by (simp add: useForm_effect_def effect_defs)

lemma useForm_commit_shape:
  "useForm_commit resolveConfig options =
     useEffect (bridge_effect FormController (resolveConfig options) (Some (formSlug options))
       None) (useForm_deps options)"
  by (simp add: useForm_commit_def useForm_effect_shape [abs_def])

lemma useForm_commit_bridge: "is_bridge (useForm_commit resolveConfig)"
  unfolding is_bridge_def useForm_commit_shape by blast

lemma useReactions_effect_shape:
  "useReactions_effect resolveConfig options b =
     bridge_effect ReactionsController (resolveConfig options) (Some (contentId options))
       (if autoFetch options \<noteq> Some False then Some ReactionsController_fetch else None) b"
  by (simp add: useReactions_effect_def effect_defs)

lemma useReactions_commit_shape:
  "useReactions_commit resolveConfig options =
     useEffect (bridge_effect ReactionsController (resolveConfig options) (Some (contentId options))
       (if autoFetch options \<noteq> Some False then Some ReactionsController_fetch else None)) (useReactions_deps options)"
  by (simp add: useReactions_commit_def useReactions_effect_shape [abs_def])

lemma useReactions_commit_bridge: "is_bridge (useReactions_commit resolveConfig)"
  unfolding is_bridge_def useReactions_commit_shape by blast

lemma useComments_effect_shape:
  "useComments_effect resolveConfig options b =
     bridge_effect CommentsController (resolveConfig options) (Some (contentId options))
       (if autoFetch options \<noteq> Some False then Some CommentsController_fetch else None) b"
  by (simp add: useComments_effect_def effect_defs)

lemma useComments_commit_shape:
  "useComments_commit resolveConfig options =
     useEffect (bridge_effect CommentsController (resolveConfig options) (Some (contentId options))
       (if autoFetch options \<noteq> Some False then Some CommentsController_fetch else None)) (useComments_deps options)"
  by (simp add: useComments_commit_def useComments_effect_shape [abs_def])

lemma useComments_commit_bridge: "is_bridge (useComments_commit resolveConfig)"
  unfolding is_bridge_def useComments_commit_shape by blast

lemma useWaitlist_effect_shape:
  "useWaitlist_effect resolveConfig options b =
     bridge_effect WaitlistController (resolveConfig options) None
       None b"
  by (simp add: useWaitlist_effect_def effect_defs)

lemma useWaitlist_commit_shape:
  "useWaitlist_commit resolveConfig options =
     useEffect (bridge_effect WaitlistController (resolveConfig options) None
       None) (useWaitlist_deps options)"
  by (simp add: useWaitlist_commit_def useWaitlist_effect_shape [abs_def])

lemma useWaitlist_commit_bridge: "is_bridge (useWaitlist_commit resolveConfig)"
  unfolding is_bridge_def useWaitlist_commit_shape by blast

lemma useViews_effect_shape:
  "useViews_effect resolveConfig options b =
     bridge_effect ViewCountsController (resolveConfig options) (Some (pageId options))
       (if autoRecord options \<noteq> Some False then Some ViewCountsController_record else None) b"
  by (simp add: useViews_effect_def effect_defs)

lemma useViews_commit_shape:
  "useViews_commit resolveConfig options =
     useEffect (bridge_effect ViewCountsController (resolveConfig options) (Some (pageId options))
       (if autoRecord options \<noteq> Some False then Some ViewCountsController_record else None)) (useViews_deps options)"
  by (simp add: useViews_commit_def useViews_effect_shape [abs_def])

lemma useViews_commit_bridge: "is_bridge (useViews_commit resolveConfig)"
  unfolding is_bridge_def useViews_commit_shape by blast

lemma useFeedback_effect_shape:
  "useFeedback_effect resolveConfig options b =
     bridge_effect FeedbackController (resolveConfig options) None
       None b"
  by (simp add: useFeedback_effect_def effect_defs)

lemma useFeedback_commit_shape:
  "useFeedback_commit resolveConfig options =
     useEffect (bridge_effect FeedbackController (resolveConfig options) None
       None) (useFeedback_deps options)"
  by (simp add: useFeedback_commit_def useFeedback_effect_shape [abs_def])

lemma useFeedback_commit_bridge: "is_bridge (useFeedback_commit resolveConfig)"
  unfolding is_bridge_def useFeedback_commit_shape by blast

lemma usePoll_effect_shape:
  "usePoll_effect resolveConfig options b =
     bridge_effect PollController (resolveConfig options) (Some (slug options))
       (if autoFetch options \<noteq> Some False then Some PollController_fetch else None) b"
  by (simp add: usePoll_effect_def effect_defs)

lemma usePoll_commit_shape:
  "usePoll_commit resolveConfig options =
     useEffect (bridge_effect PollController (resolveConfig options) (Some (slug options))
       (if autoFetch options \<noteq> Some False then Some PollController_fetch else None)) (usePoll_deps options)"
  by (simp add: usePoll_commit_def usePoll_effect_shape [abs_def])

lemma usePoll_commit_bridge: "is_bridge (usePoll_commit resolveConfig)"
  unfolding is_bridge_def usePoll_commit_shape by blast

lemma useAnnouncements_effect_shape:
  "useAnnouncements_effect resolveConfig options b =
     bridge_effect AnnouncementsController (resolveConfig options) None
       (if autoFetch options \<noteq> Some False then Some AnnouncementsController_fetch else None) b"
  by (simp add: useAnnouncements_effect_def effect_defs)

lemma useAnnouncements_commit_shape:
  "useAnnouncements_commit resolveConfig options =
     useEffect (bridge_effect AnnouncementsController (resolveConfig options) None
       (if autoFetch options \<noteq> Some False then Some AnnouncementsController_fetch else None)) (useAnnouncements_deps options)"
  by (simp add: useAnnouncements_commit_def useAnnouncements_effect_shape [abs_def])

lemma useAnnouncements_commit_bridge: "is_bridge (useAnnouncements_commit resolveConfig)"
  unfolding is_bridge_def useAnnouncements_commit_shape by blast

subsection \<open>Runs\<close>

lemma run_Nil: "run commit [] b = b"
  by (simp add: run_def)

lemma run_Cons: "run commit (i # inputs) b = run commit inputs (step commit i b)"
  by (simp add: run_def)

lemma run_snoc: "run commit (inputs @ [i]) b = step commit i (run commit inputs b)"
  by (simp add: run_def)

subsection \<open>The invariant of an instance\<close>

lemma bridge_inv_mount: "bridge_inv (mount init)"
  by (simp add: bridge_inv_def mount_def)

lemma bridge_inv_useEffect:
  "bridge_inv b \<Longrightarrow> \<not> unmounted b \<Longrightarrow>
   bridge_inv (useEffect (bridge_effect k config ident auto) deps b)"
  by (auto simp: bridge_inv_def useEffect_def bridge_effect_def run_cleanup_def
      controller_unsubscribe_def split: option.splits)

lemma bridge_inv_unmount: "bridge_inv b \<Longrightarrow> bridge_inv (unmount b)"
  by (auto simp: bridge_inv_def unmount_def run_cleanup_def controller_unsubscribe_def
      split: option.splits)

lemma bridge_inv_emit: "bridge_inv b \<Longrightarrow> bridge_inv (emit c s b)"
  by (auto simp: bridge_inv_def emit_def split: option.splits)

lemma bridge_inv_forward: "bridge_inv b \<Longrightarrow> bridge_inv (snd (forward k b))"
  by (auto simp: bridge_inv_def forward_def controller_call_def split: option.splits)

lemma bridge_inv_step:
  assumes "is_bridge commit" and "bridge_inv b"
  shows "bridge_inv (step commit i b)"
proof (cases i)
  case (Render options)
  from assms(1) obtain k config ident auto deps
    where "commit options = useEffect (bridge_effect k config ident auto) deps"
    unfolding is_bridge_def by blast
  with assms(2) Render show ?thesis
    by (simp add: step_def bridge_inv_useEffect)
next
  case Unmount
  with assms(2) show ?thesis by (simp add: step_def bridge_inv_unmount)
next
  case (Emit c s)
  with assms(2) show ?thesis by (simp add: step_def bridge_inv_emit)
next
  case (Act k)
  with assms(2) show ?thesis by (simp add: step_def bridge_inv_forward)
qed

lemma bridge_inv_run:
  "is_bridge commit \<Longrightarrow> bridge_inv b \<Longrightarrow> bridge_inv (run commit inputs b)"
  by (induction inputs arbitrary: b) (simp_all add: run_Nil run_Cons bridge_inv_step)

lemma alive_controller:
  assumes "bridge_inv b" and "alive c b"
  shows "effect_cleanup b = Some c" and "controllerRef b = Some c"
    and "listeners b = [c]" and "\<not> unmounted b" and "c < next_cid b"
    and "effect_deps b \<noteq> None"
  using assms by (auto simp: bridge_inv_def alive_def split: option.splits)

lemma discarded_controller:
  "bridge_inv b \<Longrightarrow> Unsubscribe c \<in> set (trace b) \<Longrightarrow> c \<notin> set (listeners b)"
  by (auto simp: bridge_inv_def split: option.splits)

lemma committed_controller:
  assumes "bridge_inv b" and "\<not> unmounted b" and "effect_deps b = Some deps"
  shows "\<exists>c. effect_cleanup b = Some c \<and> controllerRef b = Some c \<and> alive c b"
  using assms by (auto simp: bridge_inv_def alive_def split: option.splits)

lemma first_render:
  assumes "bridge_inv b" and "\<not> unmounted b" and "listeners b = []"
  shows "controllerRef b = None"
  using assms by (auto simp: bridge_inv_def split: option.splits)

lemma useSubscribe_instance_inv: "bridge_inv (useSubscribe_instance resolveConfig inputs)"
  by (simp add: useSubscribe_instance_def bridge_inv_run useSubscribe_commit_bridge bridge_inv_mount)

lemma useSubscribe_instance_snoc:
  "useSubscribe_instance resolveConfig (inputs @ [i]) =
     step (useSubscribe_commit resolveConfig) i (useSubscribe_instance resolveConfig inputs)"
  by (simp add: useSubscribe_instance_def run_snoc)

lemma useForm_instance_inv: "bridge_inv (useForm_instance resolveConfig inputs)"
  by (simp add: useForm_instance_def bridge_inv_run useForm_commit_bridge bridge_inv_mount)

lemma useForm_instance_snoc:
  "useForm_instance resolveConfig (inputs @ [i]) =
     step (useForm_commit resolveConfig) i (useForm_instance resolveConfig inputs)"
  by (simp add: useForm_instance_def run_snoc)

lemma useReactions_instance_inv: "bridge_inv (useReactions_instance resolveConfig inputs)"
  by (simp add: useReactions_instance_def bridge_inv_run useReactions_commit_bridge bridge_inv_mount)

lemma useReactions_instance_snoc:
  "useReactions_instance resolveConfig (inputs @ [i]) =
     step (useReactions_commit resolveConfig) i (useReactions_instance resolveConfig inputs)"
  by (simp add: useReactions_instance_def run_snoc)

lemma useComments_instance_inv: "bridge_inv (useComments_instance resolveConfig inputs)"
  by (simp add: useComments_instance_def bridge_inv_run useComments_commit_bridge bridge_inv_mount)

lemma useComments_instance_snoc:
  "useComments_instance resolveConfig (inputs @ [i]) =
     step (useComments_commit resolveConfig) i (useComments_instance resolveConfig inputs)"
  by (simp add: useComments_instance_def run_snoc)

lemma useWaitlist_instance_inv: "bridge_inv (useWaitlist_instance resolveConfig inputs)"
  by (simp add: useWaitlist_instance_def bridge_inv_run useWaitlist_commit_bridge bridge_inv_mount)

lemma useWaitlist_instance_snoc:
  "useWaitlist_instance resolveConfig (inputs @ [i]) =
     step (useWaitlist_commit resolveConfig) i (useWaitlist_instance resolveConfig inputs)"
  by (simp add: useWaitlist_instance_def run_snoc)

lemma useViews_instance_inv: "bridge_inv (useViews_instance resolveConfig first_options inputs)"
  by (simp add: useViews_instance_def bridge_inv_run useViews_commit_bridge bridge_inv_mount)

lemma useViews_instance_snoc:
  "useViews_instance resolveConfig first_options (inputs @ [i]) =
     step (useViews_commit resolveConfig) i (useViews_instance resolveConfig first_options inputs)"
  by (simp add: useViews_instance_def run_snoc)

lemma useFeedback_instance_inv: "bridge_inv (useFeedback_instance resolveConfig inputs)"
  by (simp add: useFeedback_instance_def bridge_inv_run useFeedback_commit_bridge bridge_inv_mount)

lemma useFeedback_instance_snoc:
  "useFeedback_instance resolveConfig (inputs @ [i]) =
     step (useFeedback_commit resolveConfig) i (useFeedback_instance resolveConfig inputs)"
  by (simp add: useFeedback_instance_def run_snoc)

lemma usePoll_instance_inv: "bridge_inv (usePoll_instance resolveConfig inputs)"
  by (simp add: usePoll_instance_def bridge_inv_run usePoll_commit_bridge bridge_inv_mount)

lemma usePoll_instance_snoc:
  "usePoll_instance resolveConfig (inputs @ [i]) =
     step (usePoll_commit resolveConfig) i (usePoll_instance resolveConfig inputs)"
  by (simp add: usePoll_instance_def run_snoc)

lemma useAnnouncements_instance_inv: "bridge_inv (useAnnouncements_instance resolveConfig inputs)"
  by (simp add: useAnnouncements_instance_def bridge_inv_run useAnnouncements_commit_bridge bridge_inv_mount)

lemma useAnnouncements_instance_snoc:
  "useAnnouncements_instance resolveConfig (inputs @ [i]) =
     step (useAnnouncements_commit resolveConfig) i (useAnnouncements_instance resolveConfig inputs)"
  by (simp add: useAnnouncements_instance_def run_snoc)


section \<open>The state before any notification\<close>

lemmas init_defs =
  useSubscribe_init_def useForm_init_def useReactions_init_def useComments_init_def
  useWaitlist_init_def useViews_init_def useFeedback_init_def usePoll_init_def
  useAnnouncements_init_def

lemmas instance_defs =
  useSubscribe_instance_def useForm_instance_def useReactions_instance_def
  useComments_instance_def useWaitlist_instance_def useViews_instance_def
  useFeedback_instance_def usePoll_instance_def useAnnouncements_instance_def

lemmas return_defs =
  useSubscribe_return_def useForm_return_def useReactions_return_def
  useComments_return_def useWaitlist_return_def useViews_return_def
  useFeedback_return_def usePoll_return_def useAnnouncements_return_def

lemmas callback_defs =
  useSubscribe_subscribe_def useSubscribe_reset_def useForm_submit_def useForm_reset_def
  useReactions_addReaction_def useReactions_removeReaction_def useReactions_refresh_def
  useComments_postComment_def useComments_refresh_def useWaitlist_join_def
  useWaitlist_reset_def useViews_record_def useViews_refresh_def useFeedback_submit_def
  useFeedback_reset_def usePoll_vote_def usePoll_refresh_def useAnnouncements_dismiss_def
  useAnnouncements_refresh_def

text \<open>
  Claim C9. At the first render of each of the nine hooks, before any notification
  of a controller has been received, the data returned has status \<^verbatim>\<open>idle\<close>, error
  \<^verbatim>\<open>null\<close> and an empty payload: message and position \<^verbatim>\<open>null\<close>, counts the empty
  record, comments, announcements and userReactions empty, poll \<^verbatim>\<open>null\<close>, views and
  uniqueVisitors zero (and hasVoted false).
\<close>

theorem initial_return_idle_and_empty:
  "useSubscribe_return (useSubscribe_instance rc_subscribe []) =
     \<lparr>status = status_idle, error = None, message = None\<rparr> \<and>
   useForm_return (useForm_instance rc_form []) =
     \<lparr>status = status_idle, error = None, message = None\<rparr> \<and>
   useReactions_return (useReactions_instance rc_reactions []) =
     \<lparr>status = status_idle, error = None, counts = Map.empty, userReactions = []\<rparr> \<and>
   useComments_return (useComments_instance rc_comments []) =
     \<lparr>status = status_idle, error = None, comments = []\<rparr> \<and>
   useWaitlist_return (useWaitlist_instance rc_waitlist []) =
     \<lparr>status = status_idle, error = None, message = None, position = None\<rparr> \<and>
   useViews_return (useViews_instance rc_views first_options []) =
     \<lparr>status = status_idle, error = None, views = 0, uniqueVisitors = 0\<rparr> \<and>
   useFeedback_return (useFeedback_instance rc_feedback []) =
     \<lparr>status = status_idle, error = None, message = None\<rparr> \<and>
   usePoll_return PollController_hasVoted (usePoll_instance rc_poll []) =
     \<lparr>status = status_idle, error = None, poll = None, hasVoted = False\<rparr> \<and>
   useAnnouncements_return getVisibleAnnouncements (useAnnouncements_instance rc_announcements []) =
     \<lparr>status = status_idle, error = None, announcements = []\<rparr>"
  by (simp add: instance_defs return_defs init_defs run_Nil mount_def)

section \<open>Callbacks without a controller\<close>

lemma forward_no_controller: "controllerRef b = None \<Longrightarrow> forward k b = (Immediate, b)"
  by (simp add: forward_def)

text \<open>
  Claim C10. While the controller reference is \<^verbatim>\<open>null\<close>, every callback of every
  hook (the action-forwarding ones and the resets) returns without calling a
  controller and leaves the instance as it was; the promise of an asynchronous
  callback is fulfilled, nothing is raised; \<^verbatim>\<open>hasVoted\<close> of usePoll is false and the
  \<^verbatim>\<open>announcements\<close> of useAnnouncements are the empty list.
\<close>

theorem callbacks_without_controller:
  assumes "controllerRef b_subscribe = None" and "controllerRef b_form = None"
    and "controllerRef b_reactions = None" and "controllerRef b_comments = None"
    and "controllerRef b_waitlist = None" and "controllerRef b_views = None"
    and "controllerRef b_feedback = None" and "controllerRef b_poll = None"
    and "controllerRef b_announcements = None"
  shows
    "useSubscribe_subscribe email_arg b_subscribe = (Immediate, b_subscribe) \<and>
     useSubscribe_reset b_subscribe = (Immediate, b_subscribe) \<and>
     useForm_submit data b_form = (Immediate, b_form) \<and>
     useForm_reset b_form = (Immediate, b_form) \<and>
     useReactions_addReaction type1 b_reactions = (Immediate, b_reactions) \<and>
     useReactions_removeReaction type2 b_reactions = (Immediate, b_reactions) \<and>
     useReactions_refresh b_reactions = (Immediate, b_reactions) \<and>
     useComments_postComment author content post_options b_comments = (Immediate, b_comments) \<and>
     useComments_refresh b_comments = (Immediate, b_comments) \<and>
     useWaitlist_join email_arg2 join_options b_waitlist = (Immediate, b_waitlist) \<and>
     useWaitlist_reset b_waitlist = (Immediate, b_waitlist) \<and>
     useViews_record b_views = (Immediate, b_views) \<and>
     useViews_refresh b_views = (Immediate, b_views) \<and>
     useFeedback_submit feedback_type feedback_content feedback_options b_feedback =
       (Immediate, b_feedback) \<and>
     useFeedback_reset b_feedback = (Immediate, b_feedback) \<and>
     usePoll_vote selectedOptions b_poll = (Immediate, b_poll) \<and>
     usePoll_refresh b_poll = (Immediate, b_poll) \<and>
     useAnnouncements_dismiss announcementId b_announcements = (Immediate, b_announcements) \<and>
     useAnnouncements_refresh b_announcements = (Immediate, b_announcements) \<and>
     settled operations Immediate = Fulfilled () \<and>
     hasVoted (usePoll_return PollController_hasVoted b_poll) = False \<and>
     announcements (useAnnouncements_return getVisibleAnnouncements b_announcements) = []"
  using assms
  by (simp add: callback_defs forward_no_controller settled_def usePoll_return_def
      useAnnouncements_return_def)

theorem callbacks_without_controller_witness:
  "controllerRef (useSubscribe_instance (\<lambda>options. ()) []) = None \<and>
   controllerRef (useForm_instance (\<lambda>options. ()) []) = None \<and>
   controllerRef (useReactions_instance (\<lambda>options. ()) []) = None \<and>
   controllerRef (useComments_instance (\<lambda>options. ()) []) = None \<and>
   controllerRef (useWaitlist_instance (\<lambda>options. ()) []) = None \<and>
   controllerRef
     (useViews_instance (\<lambda>options. ())
        \<lparr>siteKey = Some ''key'', endpoint = None, pageId = ''/blog'', autoRecord = None\<rparr> []) = None \<and>
   controllerRef (useFeedback_instance (\<lambda>options. ()) []) = None \<and>
   controllerRef (usePoll_instance (\<lambda>options. ()) []) = None \<and>
   controllerRef (useAnnouncements_instance (\<lambda>options. ()) []) = None \<and>
   useSubscribe_subscribe ''user@example.com'' (useSubscribe_instance (\<lambda>options. ()) []) =
     (Immediate, useSubscribe_instance (\<lambda>options. ()) []) \<and>
   useWaitlist_reset (useWaitlist_instance (\<lambda>options. ()) []) =
     (Immediate, useWaitlist_instance (\<lambda>options. ()) []) \<and>
   usePoll_vote [''a''] (usePoll_instance (\<lambda>options. ()) []) =
     (Immediate, usePoll_instance (\<lambda>options. ()) []) \<and>
   settled (\<lambda>p. Pending :: unit settlement) Immediate = Fulfilled () \<and>
   hasVoted (usePoll_return (\<lambda>c. True) (usePoll_instance (\<lambda>options. ()) [])) = False \<and>
   announcements
     (useAnnouncements_return (\<lambda>c. []) (useAnnouncements_instance (\<lambda>options. ()) [])) = []"
proof -
  have h1: "controllerRef (useSubscribe_instance (\<lambda>options. ()) []) = None"
    and h2: "controllerRef (useForm_instance (\<lambda>options. ()) []) = None"
    and h3: "controllerRef (useReactions_instance (\<lambda>options. ()) []) = None"
    and h4: "controllerRef (useComments_instance (\<lambda>options. ()) []) = None"
    and h5: "controllerRef (useWaitlist_instance (\<lambda>options. ()) []) = None"
    and h6: "controllerRef
      (useViews_instance (\<lambda>options. ())
         \<lparr>siteKey = Some ''key'', endpoint = None, pageId = ''/blog'', autoRecord = None\<rparr> []) = None"
    and h7: "controllerRef (useFeedback_instance (\<lambda>options. ()) []) = None"
    and h8: "controllerRef (usePoll_instance (\<lambda>options. ()) []) = None"
    and h9: "controllerRef (useAnnouncements_instance (\<lambda>options. ()) []) = None"
    by (simp_all add: instance_defs run_Nil mount_def)
  from callbacks_without_controller [OF h1 h2 h3 h4 h5 h6 h7 h8 h9,
      of "''user@example.com''" _ _ _ _ _ _ _ _ _ _ _ "[''a'']" _
         "\<lambda>p. Pending :: unit settlement" "\<lambda>c. True" "\<lambda>c. []"]
  show ?thesis
    using h1 h2 h3 h4 h5 h6 h7 h8 h9 by simp
qed

section \<open>Callbacks with a controller\<close>

lemma forward_controller:
  "controllerRef b = Some c \<Longrightarrow>
   forward k b = (Awaits (length (trace b)), b\<lparr>trace := trace b @ [Invoke c k]\<rparr>)"
  by (simp add: forward_def controller_call_def)

lemma settled_Awaits_Fulfilled:
  "(settled operations (Awaits p) = Fulfilled ()) = (\<exists>v. operations p = Fulfilled v)"
  by (cases "operations p") (simp_all add: settled_def)

text \<open>
  Claim C4. Given a constructed controller (the reference holds it), each
  action-forwarding callback (subscribe, submit, addReaction, removeReaction,
  postComment, join, record, vote, dismiss, refresh) makes exactly one call: the
  corresponding method of that controller with the arguments it was given,
  unchanged, and nothing else happens to the instance. The promise it returns
  follows the operation this call started, so it is fulfilled exactly when that
  operation has been fulfilled.
\<close>

theorem callbacks_forward_arguments:
  assumes "controllerRef b_subscribe = Some c_subscribe"
    and "controllerRef b_form = Some c_form"
    and "controllerRef b_reactions = Some c_reactions"
    and "controllerRef b_comments = Some c_comments"
    and "controllerRef b_waitlist = Some c_waitlist"
    and "controllerRef b_views = Some c_views"
    and "controllerRef b_feedback = Some c_feedback"
    and "controllerRef b_poll = Some c_poll"
    and "controllerRef b_announcements = Some c_announcements"
  shows
    "useSubscribe_subscribe email_arg b_subscribe =
       (Awaits (length (trace b_subscribe)),
        b_subscribe\<lparr>trace := trace b_subscribe @ [Invoke c_subscribe (SubscribeController_submit email_arg)]\<rparr>) \<and>
     useForm_submit data b_form =
       (Awaits (length (trace b_form)),
        b_form\<lparr>trace := trace b_form @ [Invoke c_form (FormController_submit data)]\<rparr>) \<and>
     useReactions_addReaction type1 b_reactions =
       (Awaits (length (trace b_reactions)),
        b_reactions\<lparr>trace := trace b_reactions @ [Invoke c_reactions (ReactionsController_add type1)]\<rparr>) \<and>
     useReactions_removeReaction type2 b_reactions =
       (Awaits (length (trace b_reactions)),
        b_reactions\<lparr>trace := trace b_reactions @ [Invoke c_reactions (ReactionsController_remove type2)]\<rparr>) \<and>
     useReactions_refresh b_reactions =
       (Awaits (length (trace b_reactions)),
        b_reactions\<lparr>trace := trace b_reactions @ [Invoke c_reactions (ReactionsController_fetch)]\<rparr>) \<and>
     useComments_postComment author content post_options b_comments =
       (Awaits (length (trace b_comments)),
        b_comments\<lparr>trace := trace b_comments @ [Invoke c_comments (CommentsController_post author content post_options)]\<rparr>) \<and>
     useComments_refresh b_comments =
       (Awaits (length (trace b_comments)),
        b_comments\<lparr>trace := trace b_comments @ [Invoke c_comments (CommentsController_fetch)]\<rparr>) \<and>
     useWaitlist_join email_arg2 join_options b_waitlist =
       (Awaits (length (trace b_waitlist)),
        b_waitlist\<lparr>trace := trace b_waitlist @ [Invoke c_waitlist (WaitlistController_join email_arg2 join_options)]\<rparr>) \<and>
     useViews_record b_views =
       (Awaits (length (trace b_views)),
        b_views\<lparr>trace := trace b_views @ [Invoke c_views (ViewCountsController_record)]\<rparr>) \<and>
     useViews_refresh b_views =
       (Awaits (length (trace b_views)),
        b_views\<lparr>trace := trace b_views @ [Invoke c_views (ViewCountsController_fetch)]\<rparr>) \<and>
     useFeedback_submit feedback_type feedback_content feedback_options b_feedback =
       (Awaits (length (trace b_feedback)),
        b_feedback\<lparr>trace := trace b_feedback @ [Invoke c_feedback (FeedbackController_submit feedback_type feedback_content feedback_options)]\<rparr>) \<and>
     usePoll_vote selectedOptions b_poll =
       (Awaits (length (trace b_poll)),
        b_poll\<lparr>trace := trace b_poll @ [Invoke c_poll (PollController_vote selectedOptions)]\<rparr>) \<and>
     usePoll_refresh b_poll =
       (Awaits (length (trace b_poll)),
        b_poll\<lparr>trace := trace b_poll @ [Invoke c_poll (PollController_fetch)]\<rparr>) \<and>
     useAnnouncements_dismiss announcementId b_announcements =
       (Awaits (length (trace b_announcements)),
        b_announcements\<lparr>trace := trace b_announcements @ [Invoke c_announcements (AnnouncementsController_dismiss announcementId)]\<rparr>) \<and>
     useAnnouncements_refresh b_announcements =
       (Awaits (length (trace b_announcements)),
        b_announcements\<lparr>trace := trace b_announcements @ [Invoke c_announcements (AnnouncementsController_fetch)]\<rparr>) \<and>
     (settled operations (Awaits p) = Fulfilled ()) =
       (\<exists>v. operations p = Fulfilled v)"
  using assms
  by (simp add: callback_defs forward_controller settled_Awaits_Fulfilled)

subsection \<open>Evaluating concrete instances\<close>

lemmas deps_defs =
  useSubscribe_deps_def useForm_deps_def useReactions_deps_def useComments_deps_def
  useWaitlist_deps_def useViews_deps_def useFeedback_deps_def usePoll_deps_def
  useAnnouncements_deps_def

lemmas commit_shapes =
  useSubscribe_commit_shape useForm_commit_shape useReactions_commit_shape
  useComments_commit_shape useWaitlist_commit_shape useViews_commit_shape
  useFeedback_commit_shape usePoll_commit_shape useAnnouncements_commit_shape

lemmas eval_defs =
  instance_defs run_Cons run_Nil step_def commit_shapes deps_defs init_defs useEffect_def
  bridge_effect_def run_cleanup_def unmount_def controller_unsubscribe_def emit_def
  forward_def controller_call_def mount_def

theorem callbacks_forward_arguments_witness:
  "controllerRef (useSubscribe_instance (\<lambda>options. ()) [Render \<lparr>siteKey = Some ''key'', endpoint = None\<rparr>]) = Some 0 \<and>
   controllerRef (useForm_instance (\<lambda>options. ()) [Render \<lparr>siteKey = Some ''key'', endpoint = None, formSlug = ''contact''\<rparr>]) = Some 0 \<and>
   controllerRef (useReactions_instance (\<lambda>options. ()) [Render \<lparr>siteKey = Some ''key'', endpoint = None, autoFetch = None, contentId = ''my-post''\<rparr>]) = Some 0 \<and>
   controllerRef (useComments_instance (\<lambda>options. ()) [Render \<lparr>siteKey = Some ''key'', endpoint = None, autoFetch = Some True, contentId = ''my-post''\<rparr>]) = Some 0 \<and>
   controllerRef (useWaitlist_instance (\<lambda>options. ()) [Render \<lparr>siteKey = Some ''key'', endpoint = None\<rparr>]) = Some 0 \<and>
   controllerRef (useViews_instance (\<lambda>options. ()) \<lparr>siteKey = Some ''key'', endpoint = None, pageId = ''/blog'', autoRecord = None\<rparr> [Render \<lparr>siteKey = Some ''key'', endpoint = None, pageId = ''/blog'', autoRecord = None\<rparr>]) = Some 0 \<and>
   controllerRef (useFeedback_instance (\<lambda>options. ()) [Render \<lparr>siteKey = Some ''key'', endpoint = None\<rparr>]) = Some 0 \<and>
   controllerRef (usePoll_instance (\<lambda>options. ()) [Render \<lparr>siteKey = Some ''key'', endpoint = None, autoFetch = Some False, slug = ''favorite''\<rparr>]) = Some 0 \<and>
   controllerRef (useAnnouncements_instance (\<lambda>options. ()) [Render \<lparr>siteKey = Some ''key'', endpoint = None, autoFetch = None\<rparr>]) = Some 0 \<and>
   fst (useSubscribe_subscribe ''user@example.com'' (useSubscribe_instance (\<lambda>options. ()) [Render \<lparr>siteKey = Some ''key'', endpoint = None\<rparr>])) = Awaits 2 \<and>
   trace (snd (useSubscribe_subscribe ''user@example.com'' (useSubscribe_instance (\<lambda>options. ()) [Render \<lparr>siteKey = Some ''key'', endpoint = None\<rparr>]))) =
     [Construct 0 SubscribeController () None, Subscribe 0,
      Invoke 0 (SubscribeController_submit ''user@example.com'')] \<and>
   trace (snd (useComments_postComment ''Anonymous'' ''Great post!'' None (useComments_instance (\<lambda>options. ()) [Render \<lparr>siteKey = Some ''key'', endpoint = None, autoFetch = Some True, contentId = ''my-post''\<rparr>]))) =
     [Construct 0 CommentsController () (Some ''my-post''), Subscribe 0,
      Invoke 0 CommentsController_fetch,
      Invoke 0 (CommentsController_post ''Anonymous'' ''Great post!'' None)] \<and>
   (settled (\<lambda>p. if p = 2 then Rejected ''offline'' else Fulfilled (0::nat)) (Awaits 2) = Fulfilled ()) =
     (\<exists>v. (if (2::nat) = 2 then Rejected ''offline'' else Fulfilled (0::nat)) = Fulfilled v)"
proof -
  have h1: "controllerRef (useSubscribe_instance (\<lambda>options. ()) [Render \<lparr>siteKey = Some ''key'', endpoint = None\<rparr>]) = Some 0"
    and h2: "controllerRef (useForm_instance (\<lambda>options. ()) [Render \<lparr>siteKey = Some ''key'', endpoint = None, formSlug = ''contact''\<rparr>]) = Some 0"
    and h3: "controllerRef (useReactions_instance (\<lambda>options. ()) [Render \<lparr>siteKey = Some ''key'', endpoint = None, autoFetch = None, contentId = ''my-post''\<rparr>]) = Some 0"
    and h4: "controllerRef (useComments_instance (\<lambda>options. ()) [Render \<lparr>siteKey = Some ''key'', endpoint = None, autoFetch = Some True, contentId = ''my-post''\<rparr>]) = Some 0"
    and h5: "controllerRef (useWaitlist_instance (\<lambda>options. ()) [Render \<lparr>siteKey = Some ''key'', endpoint = None\<rparr>]) = Some 0"
    and h6: "controllerRef (useViews_instance (\<lambda>options. ()) \<lparr>siteKey = Some ''key'', endpoint = None, pageId = ''/blog'', autoRecord = None\<rparr> [Render \<lparr>siteKey = Some ''key'', endpoint = None, pageId = ''/blog'', autoRecord = None\<rparr>]) = Some 0"
    and h7: "controllerRef (useFeedback_instance (\<lambda>options. ()) [Render \<lparr>siteKey = Some ''key'', endpoint = None\<rparr>]) = Some 0"
    and h8: "controllerRef (usePoll_instance (\<lambda>options. ()) [Render \<lparr>siteKey = Some ''key'', endpoint = None, autoFetch = Some False, slug = ''favorite''\<rparr>]) = Some 0"
    and h9: "controllerRef (useAnnouncements_instance (\<lambda>options. ()) [Render \<lparr>siteKey = Some ''key'', endpoint = None, autoFetch = None\<rparr>]) = Some 0"
    by (simp_all add: eval_defs)
  from callbacks_forward_arguments [OF h1 h2 h3 h4 h5 h6 h7 h8 h9,
      where email_arg = "''user@example.com''" and author = "''Anonymous''"
        and content = "''Great post!''" and post_options = None and p = 2
        and operations = "\<lambda>p. if p = 2 then Rejected ''offline'' else Fulfilled (0::nat)"]
  show ?thesis
    using h1 h2 h3 h4 h5 h6 h7 h8 h9 by (simp add: eval_defs)
qed

section \<open>Errors and the mirrored state\<close>

lemma forward_state: "state (snd (forward k b)) = state b"
  by (simp add: forward_def controller_call_def split: option.splits)

lemma forward_settled:
  "settled operations (fst (forward k b)) =
     (case controllerRef b of
        None \<Rightarrow> Fulfilled ()
      | Some c \<Rightarrow> map_settlement (\<lambda>v. ()) (operations (length (trace b))))"
proof (cases "controllerRef b")
  case None
  then show ?thesis by (simp add: forward_def settled_def)
next
  case (Some c)
  then show ?thesis
    by (cases "operations (length (trace b))")
       (simp_all add: forward_def controller_call_def settled_def)
qed

lemma state_useEffect: "state (useEffect (bridge_effect k config ident auto) deps b) = state b"
  by (simp add: useEffect_def bridge_effect_def run_cleanup_def controller_unsubscribe_def
      split: option.splits)

lemma state_step:
  assumes "is_bridge commit"
  shows "state (step commit i b) =
     (case i of
        Emit c s \<Rightarrow> (if c \<in> set (listeners b) then s else state b)
      | _ \<Rightarrow> state b)"
proof (cases i)
  case (Render options)
  from assms obtain k config ident auto deps
    where "commit options = useEffect (bridge_effect k config ident auto) deps"
    unfolding is_bridge_def by blast
  with Render show ?thesis by (simp add: step_def state_useEffect)
next
  case Unmount
  then show ?thesis
    by (simp add: step_def unmount_def run_cleanup_def controller_unsubscribe_def
        split: option.splits)
next
  case (Emit c s)
  then show ?thesis by (simp add: step_def emit_def)
next
  case (Act k)
  then show ?thesis by (simp add: step_def forward_state)
qed

text \<open>
  Claim C8. The hooks never catch or reinterpret a controller error. The promise
  of every callback settles as the controller operation it started does: a
  rejection is passed on with the same error, a fulfilment loses only its value,
  and without a controller the promise is fulfilled. No callback touches the
  mirrored state. For every hook the only input that changes the mirrored state
  is a snapshot emitted by a controller whose listener is registered, and the
  state then is that snapshot: an error value or error status reaches the state
  only inside such a snapshot.
\<close>

theorem errors_only_through_notifications:
  "settled operations (fst (useSubscribe_subscribe email_arg b_subscribe)) =
     (case controllerRef b_subscribe of
        None \<Rightarrow> Fulfilled ()
      | Some c \<Rightarrow> map_settlement (\<lambda>v. ()) (operations (length (trace b_subscribe)))) \<and>
   state (snd (useSubscribe_subscribe email_arg b_subscribe)) = state b_subscribe \<and>
   settled operations (fst (useForm_submit data b_form)) =
     (case controllerRef b_form of
        None \<Rightarrow> Fulfilled ()
      | Some c \<Rightarrow> map_settlement (\<lambda>v. ()) (operations (length (trace b_form)))) \<and>
   state (snd (useForm_submit data b_form)) = state b_form \<and>
   settled operations (fst (useReactions_addReaction type1 b_reactions)) =
     (case controllerRef b_reactions of
        None \<Rightarrow> Fulfilled ()
      | Some c \<Rightarrow> map_settlement (\<lambda>v. ()) (operations (length (trace b_reactions)))) \<and>
   state (snd (useReactions_addReaction type1 b_reactions)) = state b_reactions \<and>
   settled operations (fst (useReactions_removeReaction type2 b_reactions)) =
     (case controllerRef b_reactions of
        None \<Rightarrow> Fulfilled ()
      | Some c \<Rightarrow> map_settlement (\<lambda>v. ()) (operations (length (trace b_reactions)))) \<and>
   state (snd (useReactions_removeReaction type2 b_reactions)) = state b_reactions \<and>
   settled operations (fst (useReactions_refresh b_reactions)) =
     (case controllerRef b_reactions of
        None \<Rightarrow> Fulfilled ()
      | Some c \<Rightarrow> map_settlement (\<lambda>v. ()) (operations (length (trace b_reactions)))) \<and>
   state (snd (useReactions_refresh b_reactions)) = state b_reactions \<and>
   settled operations (fst (useComments_postComment author content post_options b_comments)) =
     (case controllerRef b_comments of
        None \<Rightarrow> Fulfilled ()
      | Some c \<Rightarrow> map_settlement (\<lambda>v. ()) (operations (length (trace b_comments)))) \<and>
   state (snd (useComments_postComment author content post_options b_comments)) = state b_comments \<and>
   settled operations (fst (useComments_refresh b_comments)) =
     (case controllerRef b_comments of
        None \<Rightarrow> Fulfilled ()
      | Some c \<Rightarrow> map_settlement (\<lambda>v. ()) (operations (length (trace b_comments)))) \<and>
   state (snd (useComments_refresh b_comments)) = state b_comments \<and>
   settled operations (fst (useWaitlist_join email_arg2 join_options b_waitlist)) =
     (case controllerRef b_waitlist of
        None \<Rightarrow> Fulfilled ()
      | Some c \<Rightarrow> map_settlement (\<lambda>v. ()) (operations (length (trace b_waitlist)))) \<and>
   state (snd (useWaitlist_join email_arg2 join_options b_waitlist)) = state b_waitlist \<and>
   settled operations (fst (useViews_record b_views)) =
     (case controllerRef b_views of
        None \<Rightarrow> Fulfilled ()
      | Some c \<Rightarrow> map_settlement (\<lambda>v. ()) (operations (length (trace b_views)))) \<and>
   state (snd (useViews_record b_views)) = state b_views \<and>
   settled operations (fst (useViews_refresh b_views)) =
     (case controllerRef b_views of
        None \<Rightarrow> Fulfilled ()
      | Some c \<Rightarrow> map_settlement (\<lambda>v. ()) (operations (length (trace b_views)))) \<and>
   state (snd (useViews_refresh b_views)) = state b_views \<and>
   settled operations (fst (useFeedback_submit feedback_type feedback_content feedback_options b_feedback)) =
     (case controllerRef b_feedback of
        None \<Rightarrow> Fulfilled ()
      | Some c \<Rightarrow> map_settlement (\<lambda>v. ()) (operations (length (trace b_feedback)))) \<and>
   state (snd (useFeedback_submit feedback_type feedback_content feedback_options b_feedback)) = state b_feedback \<and>
   settled operations (fst (usePoll_vote selectedOptions b_poll)) =
     (case controllerRef b_poll of
        None \<Rightarrow> Fulfilled ()
      | Some c \<Rightarrow> map_settlement (\<lambda>v. ()) (operations (length (trace b_poll)))) \<and>
   state (snd (usePoll_vote selectedOptions b_poll)) = state b_poll \<and>
   settled operations (fst (usePoll_refresh b_poll)) =
     (case controllerRef b_poll of
        None \<Rightarrow> Fulfilled ()
      | Some c \<Rightarrow> map_settlement (\<lambda>v. ()) (operations (length (trace b_poll)))) \<and>
   state (snd (usePoll_refresh b_poll)) = state b_poll \<and>
   settled operations (fst (useAnnouncements_dismiss announcementId b_announcements)) =
     (case controllerRef b_announcements of
        None \<Rightarrow> Fulfilled ()
      | Some c \<Rightarrow> map_settlement (\<lambda>v. ()) (operations (length (trace b_announcements)))) \<and>
   state (snd (useAnnouncements_dismiss announcementId b_announcements)) = state b_announcements \<and>
   settled operations (fst (useAnnouncements_refresh b_announcements)) =
     (case controllerRef b_announcements of
        None \<Rightarrow> Fulfilled ()
      | Some c \<Rightarrow> map_settlement (\<lambda>v. ()) (operations (length (trace b_announcements)))) \<and>
   state (snd (useAnnouncements_refresh b_announcements)) = state b_announcements \<and>
   settled operations (fst (useSubscribe_reset b_subscribe)) =
     (case controllerRef b_subscribe of
        None \<Rightarrow> Fulfilled ()
      | Some c \<Rightarrow> map_settlement (\<lambda>v. ()) (operations (length (trace b_subscribe)))) \<and>
   state (snd (useSubscribe_reset b_subscribe)) = state b_subscribe \<and>
   settled operations (fst (useForm_reset b_form)) =
     (case controllerRef b_form of
        None \<Rightarrow> Fulfilled ()
      | Some c \<Rightarrow> map_settlement (\<lambda>v. ()) (operations (length (trace b_form)))) \<and>
   state (snd (useForm_reset b_form)) = state b_form \<and>
   settled operations (fst (useWaitlist_reset b_waitlist)) =
     (case controllerRef b_waitlist of
        None \<Rightarrow> Fulfilled ()
      | Some c \<Rightarrow> map_settlement (\<lambda>v. ()) (operations (length (trace b_waitlist)))) \<and>
   state (snd (useWaitlist_reset b_waitlist)) = state b_waitlist \<and>
   settled operations (fst (useFeedback_reset b_feedback)) =
     (case controllerRef b_feedback of
        None \<Rightarrow> Fulfilled ()
      | Some c \<Rightarrow> map_settlement (\<lambda>v. ()) (operations (length (trace b_feedback)))) \<and>
   state (snd (useFeedback_reset b_feedback)) = state b_feedback \<and>
   state (step (useSubscribe_commit rc_subscribe) i_subscribe b_subscribe) =
     (case i_subscribe of
        Emit c s \<Rightarrow> (if c \<in> set (listeners b_subscribe) then s else state b_subscribe)
      | _ \<Rightarrow> state b_subscribe) \<and>
   state (step (useForm_commit rc_form) i_form b_form) =
     (case i_form of
        Emit c s \<Rightarrow> (if c \<in> set (listeners b_form) then s else state b_form)
      | _ \<Rightarrow> state b_form) \<and>
   state (step (useReactions_commit rc_reactions) i_reactions b_reactions) =
     (case i_reactions of
        Emit c s \<Rightarrow> (if c \<in> set (listeners b_reactions) then s else state b_reactions)
      | _ \<Rightarrow> state b_reactions) \<and>
   state (step (useComments_commit rc_comments) i_comments b_comments) =
     (case i_comments of
        Emit c s \<Rightarrow> (if c \<in> set (listeners b_comments) then s else state b_comments)
      | _ \<Rightarrow> state b_comments) \<and>
   state (step (useWaitlist_commit rc_waitlist) i_waitlist b_waitlist) =
     (case i_waitlist of
        Emit c s \<Rightarrow> (if c \<in> set (listeners b_waitlist) then s else state b_waitlist)
      | _ \<Rightarrow> state b_waitlist) \<and>
   state (step (useViews_commit rc_views) i_views b_views) =
     (case i_views of
        Emit c s \<Rightarrow> (if c \<in> set (listeners b_views) then s else state b_views)
      | _ \<Rightarrow> state b_views) \<and>
   state (step (useFeedback_commit rc_feedback) i_feedback b_feedback) =
     (case i_feedback of
        Emit c s \<Rightarrow> (if c \<in> set (listeners b_feedback) then s else state b_feedback)
      | _ \<Rightarrow> state b_feedback) \<and>
   state (step (usePoll_commit rc_poll) i_poll b_poll) =
     (case i_poll of
        Emit c s \<Rightarrow> (if c \<in> set (listeners b_poll) then s else state b_poll)
      | _ \<Rightarrow> state b_poll) \<and>
   state (step (useAnnouncements_commit rc_announcements) i_announcements b_announcements) =
     (case i_announcements of
        Emit c s \<Rightarrow> (if c \<in> set (listeners b_announcements) then s else state b_announcements)
      | _ \<Rightarrow> state b_announcements)"
  by (simp add: callback_defs forward_settled forward_state state_step
      useSubscribe_commit_bridge useForm_commit_bridge useReactions_commit_bridge
      useComments_commit_bridge useWaitlist_commit_bridge useViews_commit_bridge
      useFeedback_commit_bridge usePoll_commit_bridge useAnnouncements_commit_bridge)

section \<open>Snapshots emitted by a controller\<close>

lemma emit_alive:
  assumes "bridge_inv b" and "alive c b"
  shows "state (step commit (Emit c s) b) = s"
proof -
  from assms have "listeners b = [c]"
    by (rule alive_controller)
  then show ?thesis by (simp add: step_def emit_def)
qed

lemma emit_discarded:
  assumes "bridge_inv b" and "Unsubscribe c \<in> set (trace b)"
  shows "step commit (Emit c s) b = b"
  using discarded_controller [OF assms] by (simp add: step_def emit_def)

text \<open>
  Claim C1. For each of the nine hooks: when a controller is alive (constructed,
  listener registered, not yet torn down) and emits a snapshot, the data the hook
  returns at the next render carries the snapshot unchanged. useSubscribe, useForm,
  useReactions, useComments, useWaitlist and useFeedback return the snapshot as it
  is, usePoll returns its three fields (next to \<^verbatim>\<open>hasVoted\<close>), and every state
  field that useViews (views, uniqueVisitors, status, error) and useAnnouncements
  (status, error) return equals the field of the snapshot.
\<close>

theorem emitted_snapshot_is_returned:
  assumes "alive c_subscribe (useSubscribe_instance rc_subscribe inputs_subscribe)"
    and "alive c_form (useForm_instance rc_form inputs_form)"
    and "alive c_reactions (useReactions_instance rc_reactions inputs_reactions)"
    and "alive c_comments (useComments_instance rc_comments inputs_comments)"
    and "alive c_waitlist (useWaitlist_instance rc_waitlist inputs_waitlist)"
    and "alive c_views (useViews_instance rc_views first_options inputs_views)"
    and "alive c_feedback (useFeedback_instance rc_feedback inputs_feedback)"
    and "alive c_poll (usePoll_instance rc_poll inputs_poll)"
    and "alive c_announcements (useAnnouncements_instance rc_announcements inputs_announcements)"
  shows
    "useSubscribe_return (useSubscribe_instance rc_subscribe (inputs_subscribe @ [Emit c_subscribe snapshot_subscribe])) = snapshot_subscribe \<and>
     useForm_return (useForm_instance rc_form (inputs_form @ [Emit c_form snapshot_form])) = snapshot_form \<and>
     useReactions_return (useReactions_instance rc_reactions (inputs_reactions @ [Emit c_reactions snapshot_reactions])) = snapshot_reactions \<and>
     useComments_return (useComments_instance rc_comments (inputs_comments @ [Emit c_comments snapshot_comments])) = snapshot_comments \<and>
     useWaitlist_return (useWaitlist_instance rc_waitlist (inputs_waitlist @ [Emit c_waitlist snapshot_waitlist])) = snapshot_waitlist \<and>
     views (useViews_return (useViews_instance rc_views first_options (inputs_views @ [Emit c_views snapshot_views]))) = views snapshot_views \<and>
     uniqueVisitors (useViews_return (useViews_instance rc_views first_options (inputs_views @ [Emit c_views snapshot_views]))) = uniqueVisitors snapshot_views \<and>
     status (useViews_return (useViews_instance rc_views first_options (inputs_views @ [Emit c_views snapshot_views]))) = status snapshot_views \<and>
     error (useViews_return (useViews_instance rc_views first_options (inputs_views @ [Emit c_views snapshot_views]))) = error snapshot_views \<and>
     useFeedback_return (useFeedback_instance rc_feedback (inputs_feedback @ [Emit c_feedback snapshot_feedback])) = snapshot_feedback \<and>
     status (usePoll_return PollController_hasVoted (usePoll_instance rc_poll (inputs_poll @ [Emit c_poll snapshot_poll]))) = status snapshot_poll \<and>
     error (usePoll_return PollController_hasVoted (usePoll_instance rc_poll (inputs_poll @ [Emit c_poll snapshot_poll]))) = error snapshot_poll \<and>
     poll (usePoll_return PollController_hasVoted (usePoll_instance rc_poll (inputs_poll @ [Emit c_poll snapshot_poll]))) = poll snapshot_poll \<and>
     status (useAnnouncements_return getVisibleAnnouncements (useAnnouncements_instance rc_announcements (inputs_announcements @ [Emit c_announcements snapshot_announcements]))) = status snapshot_announcements \<and>
     error (useAnnouncements_return getVisibleAnnouncements (useAnnouncements_instance rc_announcements (inputs_announcements @ [Emit c_announcements snapshot_announcements]))) = error snapshot_announcements"
  using assms
  by (simp add: return_defs emit_alive
      useSubscribe_instance_snoc useSubscribe_instance_inv
      useForm_instance_snoc useForm_instance_inv
      useReactions_instance_snoc useReactions_instance_inv
      useComments_instance_snoc useComments_instance_inv
      useWaitlist_instance_snoc useWaitlist_instance_inv
      useViews_instance_snoc useViews_instance_inv
      useFeedback_instance_snoc useFeedback_instance_inv
      usePoll_instance_snoc usePoll_instance_inv
      useAnnouncements_instance_snoc useAnnouncements_instance_inv)

theorem emitted_snapshot_is_returned_witness:
  "alive 0 (useSubscribe_instance (\<lambda>options. ()) [Render \<lparr>siteKey = Some ''key'', endpoint = None\<rparr>]) \<and>
   alive 0 (useForm_instance (\<lambda>options. ()) [Render \<lparr>siteKey = Some ''key'', endpoint = None, formSlug = ''contact''\<rparr>]) \<and>
   alive 0 (useReactions_instance (\<lambda>options. ()) [Render \<lparr>siteKey = Some ''key'', endpoint = None, autoFetch = None, contentId = ''my-post''\<rparr>]) \<and>
   alive 0 (useComments_instance (\<lambda>options. ()) [Render \<lparr>siteKey = Some ''key'', endpoint = None, autoFetch = Some True, contentId = ''my-post''\<rparr>]) \<and>
   alive 0 (useWaitlist_instance (\<lambda>options. ()) [Render \<lparr>siteKey = Some ''key'', endpoint = None\<rparr>]) \<and>
   alive 0 (useViews_instance (\<lambda>options. ()) \<lparr>siteKey = Some ''key'', endpoint = None, pageId = ''/blog'', autoRecord = None\<rparr> [Render \<lparr>siteKey = Some ''key'', endpoint = None, pageId = ''/blog'', autoRecord = None\<rparr>]) \<and>
   alive 0 (useFeedback_instance (\<lambda>options. ()) [Render \<lparr>siteKey = Some ''key'', endpoint = None\<rparr>]) \<and>
   alive 0 (usePoll_instance (\<lambda>options. ()) [Render \<lparr>siteKey = Some ''key'', endpoint = None, autoFetch = Some False, slug = ''favorite''\<rparr>]) \<and>
   alive 0 (useAnnouncements_instance (\<lambda>options. ()) [Render \<lparr>siteKey = Some ''key'', endpoint = None, autoFetch = None\<rparr>]) \<and>
   useSubscribe_return (useSubscribe_instance (\<lambda>options. ()) ([Render \<lparr>siteKey = Some ''key'', endpoint = None\<rparr>] @ [Emit 0 \<lparr>status = status_error, error = Some ''network'', message = None\<rparr>])) = \<lparr>status = status_error, error = Some ''network'', message = None\<rparr> \<and>
   useForm_return (useForm_instance (\<lambda>options. ()) ([Render \<lparr>siteKey = Some ''key'', endpoint = None, formSlug = ''contact''\<rparr>] @ [Emit 0 \<lparr>status = status_success, error = None, message = Some ''sent''\<rparr>])) = \<lparr>status = status_success, error = None, message = Some ''sent''\<rparr> \<and>
   useReactions_return (useReactions_instance (\<lambda>options. ()) ([Render \<lparr>siteKey = Some ''key'', endpoint = None, autoFetch = None, contentId = ''my-post''\<rparr>] @ [Emit 0 \<lparr>status = status_success, error = None, counts = [''like'' \<mapsto> 3], userReactions = [''like'']\<rparr>])) = \<lparr>status = status_success, error = None, counts = [''like'' \<mapsto> 3], userReactions = [''like'']\<rparr> \<and>
   useComments_return (useComments_instance (\<lambda>options. ()) ([Render \<lparr>siteKey = Some ''key'', endpoint = None, autoFetch = Some True, contentId = ''my-post''\<rparr>] @ [Emit 0 \<lparr>status = status_loading, error = None, comments = []\<rparr>])) = \<lparr>status = status_loading, error = None, comments = []\<rparr> \<and>
   useWaitlist_return (useWaitlist_instance (\<lambda>options. ()) ([Render \<lparr>siteKey = Some ''key'', endpoint = None\<rparr>] @ [Emit 0 \<lparr>status = status_success, error = None, message = Some ''joined'', position = Some 7\<rparr>])) = \<lparr>status = status_success, error = None, message = Some ''joined'', position = Some 7\<rparr> \<and>
   views (useViews_return (useViews_instance (\<lambda>options. ()) \<lparr>siteKey = Some ''key'', endpoint = None, pageId = ''/blog'', autoRecord = None\<rparr> ([Render \<lparr>siteKey = Some ''key'', endpoint = None, pageId = ''/blog'', autoRecord = None\<rparr>] @ [Emit 0 \<lparr>status = status_success, error = None, views = 10, uniqueVisitors = 4, ViewCountsState.pageId = ''/blog''\<rparr>]))) = views \<lparr>status = status_success, error = None, views = 10, uniqueVisitors = 4, ViewCountsState.pageId = ''/blog''\<rparr> \<and>
   uniqueVisitors (useViews_return (useViews_instance (\<lambda>options. ()) \<lparr>siteKey = Some ''key'', endpoint = None, pageId = ''/blog'', autoRecord = None\<rparr> ([Render \<lparr>siteKey = Some ''key'', endpoint = None, pageId = ''/blog'', autoRecord = None\<rparr>] @ [Emit 0 \<lparr>status = status_success, error = None, views = 10, uniqueVisitors = 4, ViewCountsState.pageId = ''/blog''\<rparr>]))) = uniqueVisitors \<lparr>status = status_success, error = None, views = 10, uniqueVisitors = 4, ViewCountsState.pageId = ''/blog''\<rparr> \<and>
   status (useViews_return (useViews_instance (\<lambda>options. ()) \<lparr>siteKey = Some ''key'', endpoint = None, pageId = ''/blog'', autoRecord = None\<rparr> ([Render \<lparr>siteKey = Some ''key'', endpoint = None, pageId = ''/blog'', autoRecord = None\<rparr>] @ [Emit 0 \<lparr>status = status_success, error = None, views = 10, uniqueVisitors = 4, ViewCountsState.pageId = ''/blog''\<rparr>]))) = status \<lparr>status = status_success, error = None, views = 10, uniqueVisitors = 4, ViewCountsState.pageId = ''/blog''\<rparr> \<and>
   error (useViews_return (useViews_instance (\<lambda>options. ()) \<lparr>siteKey = Some ''key'', endpoint = None, pageId = ''/blog'', autoRecord = None\<rparr> ([Render \<lparr>siteKey = Some ''key'', endpoint = None, pageId = ''/blog'', autoRecord = None\<rparr>] @ [Emit 0 \<lparr>status = status_success, error = None, views = 10, uniqueVisitors = 4, ViewCountsState.pageId = ''/blog''\<rparr>]))) = error \<lparr>status = status_success, error = None, views = 10, uniqueVisitors = 4, ViewCountsState.pageId = ''/blog''\<rparr> \<and>
   useFeedback_return (useFeedback_instance (\<lambda>options. ()) ([Render \<lparr>siteKey = Some ''key'', endpoint = None\<rparr>] @ [Emit 0 \<lparr>status = status_error, error = Some ''rejected'', message = None\<rparr>])) = \<lparr>status = status_error, error = Some ''rejected'', message = None\<rparr> \<and>
   status (usePoll_return (\<lambda>c. True) (usePoll_instance (\<lambda>options. ()) ([Render \<lparr>siteKey = Some ''key'', endpoint = None, autoFetch = Some False, slug = ''favorite''\<rparr>] @ [Emit 0 \<lparr>status = status_error, error = Some ''not found'', poll = None\<rparr>]))) = status \<lparr>status = status_error, error = Some ''not found'', poll = None\<rparr> \<and>
   error (usePoll_return (\<lambda>c. True) (usePoll_instance (\<lambda>options. ()) ([Render \<lparr>siteKey = Some ''key'', endpoint = None, autoFetch = Some False, slug = ''favorite''\<rparr>] @ [Emit 0 \<lparr>status = status_error, error = Some ''not found'', poll = None\<rparr>]))) = error \<lparr>status = status_error, error = Some ''not found'', poll = None\<rparr> \<and>
   poll (usePoll_return (\<lambda>c. True) (usePoll_instance (\<lambda>options. ()) ([Render \<lparr>siteKey = Some ''key'', endpoint = None, autoFetch = Some False, slug = ''favorite''\<rparr>] @ [Emit 0 \<lparr>status = status_error, error = Some ''not found'', poll = None\<rparr>]))) = poll \<lparr>status = status_error, error = Some ''not found'', poll = None\<rparr> \<and>
   status (useAnnouncements_return (\<lambda>c. []) (useAnnouncements_instance (\<lambda>options. ()) ([Render \<lparr>siteKey = Some ''key'', endpoint = None, autoFetch = None\<rparr>] @ [Emit 0 \<lparr>status = status_success, error = None, announcements = [], dismissed = {3}\<rparr>]))) = status \<lparr>status = status_success, error = None, announcements = [], dismissed = {3}\<rparr> \<and>
   error (useAnnouncements_return (\<lambda>c. []) (useAnnouncements_instance (\<lambda>options. ()) ([Render \<lparr>siteKey = Some ''key'', endpoint = None, autoFetch = None\<rparr>] @ [Emit 0 \<lparr>status = status_success, error = None, announcements = [], dismissed = {3}\<rparr>]))) = error \<lparr>status = status_success, error = None, announcements = [], dismissed = {3}\<rparr>"
proof -
  have h1: "alive 0 (useSubscribe_instance (\<lambda>options. ()) [Render \<lparr>siteKey = Some ''key'', endpoint = None\<rparr>])"
    and h2: "alive 0 (useForm_instance (\<lambda>options. ()) [Render \<lparr>siteKey = Some ''key'', endpoint = None, formSlug = ''contact''\<rparr>])"
    and h3: "alive 0 (useReactions_instance (\<lambda>options. ()) [Render \<lparr>siteKey = Some ''key'', endpoint = None, autoFetch = None, contentId = ''my-post''\<rparr>])"
    and h4: "alive 0 (useComments_instance (\<lambda>options. ()) [Render \<lparr>siteKey = Some ''key'', endpoint = None, autoFetch = Some True, contentId = ''my-post''\<rparr>])"
    and h5: "alive 0 (useWaitlist_instance (\<lambda>options. ()) [Render \<lparr>siteKey = Some ''key'', endpoint = None\<rparr>])"
    and h6: "alive 0 (useViews_instance (\<lambda>options. ()) \<lparr>siteKey = Some ''key'', endpoint = None, pageId = ''/blog'', autoRecord = None\<rparr> [Render \<lparr>siteKey = Some ''key'', endpoint = None, pageId = ''/blog'', autoRecord = None\<rparr>])"
    and h7: "alive 0 (useFeedback_instance (\<lambda>options. ()) [Render \<lparr>siteKey = Some ''key'', endpoint = None\<rparr>])"
    and h8: "alive 0 (usePoll_instance (\<lambda>options. ()) [Render \<lparr>siteKey = Some ''key'', endpoint = None, autoFetch = Some False, slug = ''favorite''\<rparr>])"
    and h9: "alive 0 (useAnnouncements_instance (\<lambda>options. ()) [Render \<lparr>siteKey = Some ''key'', endpoint = None, autoFetch = None\<rparr>])"
    by (simp_all add: alive_def eval_defs)
  from emitted_snapshot_is_returned [OF h1 h2 h3 h4 h5 h6 h7 h8 h9,
      where snapshot_subscribe = "\<lparr>status = status_error, error = Some ''network'', message = None\<rparr>"
        and snapshot_form = "\<lparr>status = status_success, error = None, message = Some ''sent''\<rparr>"
        and snapshot_reactions = "\<lparr>status = status_success, error = None, counts = [''like'' \<mapsto> 3], userReactions = [''like'']\<rparr>"
        and snapshot_comments = "\<lparr>status = status_loading, error = None, comments = []\<rparr>"
        and snapshot_waitlist = "\<lparr>status = status_success, error = None, message = Some ''joined'', position = Some 7\<rparr>"
        and snapshot_views = "\<lparr>status = status_success, error = None, views = 10, uniqueVisitors = 4, ViewCountsState.pageId = ''/blog''\<rparr>"
        and snapshot_feedback = "\<lparr>status = status_error, error = Some ''rejected'', message = None\<rparr>"
        and snapshot_poll = "\<lparr>status = status_error, error = Some ''not found'', poll = None\<rparr>"
        and snapshot_announcements = "\<lparr>status = status_success, error = None, announcements = [], dismissed = {3}\<rparr>"
        and PollController_hasVoted = "\<lambda>c. True" and getVisibleAnnouncements = "\<lambda>c. []"]
  show ?thesis
    using h1 h2 h3 h4 h5 h6 h7 h8 h9 by simp
qed

text \<open>
  Claim C2. For each of the nine hooks: once the deregistration function of a
  controller has been called (at an unmount or at a change of configuration), a
  snapshot that controller emits at any later time leaves the instance as it is,
  so neither the mirrored state nor the data returned changes.
\<close>

theorem no_update_after_teardown:
  assumes "Unsubscribe c_subscribe \<in> set (trace (useSubscribe_instance rc_subscribe inputs_subscribe))"
    and "Unsubscribe c_form \<in> set (trace (useForm_instance rc_form inputs_form))"
    and "Unsubscribe c_reactions \<in> set (trace (useReactions_instance rc_reactions inputs_reactions))"
    and "Unsubscribe c_comments \<in> set (trace (useComments_instance rc_comments inputs_comments))"
    and "Unsubscribe c_waitlist \<in> set (trace (useWaitlist_instance rc_waitlist inputs_waitlist))"
    and "Unsubscribe c_views \<in> set (trace (useViews_instance rc_views first_options inputs_views))"
    and "Unsubscribe c_feedback \<in> set (trace (useFeedback_instance rc_feedback inputs_feedback))"
    and "Unsubscribe c_poll \<in> set (trace (usePoll_instance rc_poll inputs_poll))"
    and "Unsubscribe c_announcements \<in> set (trace (useAnnouncements_instance rc_announcements inputs_announcements))"
  shows
    "(useSubscribe_instance rc_subscribe (inputs_subscribe @ [Emit c_subscribe snapshot_subscribe])) =
       (useSubscribe_instance rc_subscribe inputs_subscribe) \<and>
     state (useSubscribe_instance rc_subscribe (inputs_subscribe @ [Emit c_subscribe snapshot_subscribe])) =
       state (useSubscribe_instance rc_subscribe inputs_subscribe) \<and>
     (useForm_instance rc_form (inputs_form @ [Emit c_form snapshot_form])) =
       (useForm_instance rc_form inputs_form) \<and>
     state (useForm_instance rc_form (inputs_form @ [Emit c_form snapshot_form])) =
       state (useForm_instance rc_form inputs_form) \<and>
     (useReactions_instance rc_reactions (inputs_reactions @ [Emit c_reactions snapshot_reactions])) =
       (useReactions_instance rc_reactions inputs_reactions) \<and>
     state (useReactions_instance rc_reactions (inputs_reactions @ [Emit c_reactions snapshot_reactions])) =
       state (useReactions_instance rc_reactions inputs_reactions) \<and>
     (useComments_instance rc_comments (inputs_comments @ [Emit c_comments snapshot_comments])) =
       (useComments_instance rc_comments inputs_comments) \<and>
     state (useComments_instance rc_comments (inputs_comments @ [Emit c_comments snapshot_comments])) =
       state (useComments_instance rc_comments inputs_comments) \<and>
     (useWaitlist_instance rc_waitlist (inputs_waitlist @ [Emit c_waitlist snapshot_waitlist])) =
       (useWaitlist_instance rc_waitlist inputs_waitlist) \<and>
     state (useWaitlist_instance rc_waitlist (inputs_waitlist @ [Emit c_waitlist snapshot_waitlist])) =
       state (useWaitlist_instance rc_waitlist inputs_waitlist) \<and>
     (useViews_instance rc_views first_options (inputs_views @ [Emit c_views snapshot_views])) =
       (useViews_instance rc_views first_options inputs_views) \<and>
     state (useViews_instance rc_views first_options (inputs_views @ [Emit c_views snapshot_views])) =
       state (useViews_instance rc_views first_options inputs_views) \<and>
     (useFeedback_instance rc_feedback (inputs_feedback @ [Emit c_feedback snapshot_feedback])) =
       (useFeedback_instance rc_feedback inputs_feedback) \<and>
     state (useFeedback_instance rc_feedback (inputs_feedback @ [Emit c_feedback snapshot_feedback])) =
       state (useFeedback_instance rc_feedback inputs_feedback) \<and>
     (usePoll_instance rc_poll (inputs_poll @ [Emit c_poll snapshot_poll])) =
       (usePoll_instance rc_poll inputs_poll) \<and>
     state (usePoll_instance rc_poll (inputs_poll @ [Emit c_poll snapshot_poll])) =
       state (usePoll_instance rc_poll inputs_poll) \<and>
     (useAnnouncements_instance rc_announcements (inputs_announcements @ [Emit c_announcements snapshot_announcements])) =
       (useAnnouncements_instance rc_announcements inputs_announcements) \<and>
     state (useAnnouncements_instance rc_announcements (inputs_announcements @ [Emit c_announcements snapshot_announcements])) =
       state (useAnnouncements_instance rc_announcements inputs_announcements)"
  using assms
  by (simp add: emit_discarded
      useSubscribe_instance_snoc useSubscribe_instance_inv
      useForm_instance_snoc useForm_instance_inv
      useReactions_instance_snoc useReactions_instance_inv
      useComments_instance_snoc useComments_instance_inv
      useWaitlist_instance_snoc useWaitlist_instance_inv
      useViews_instance_snoc useViews_instance_inv
      useFeedback_instance_snoc useFeedback_instance_inv
      usePoll_instance_snoc usePoll_instance_inv
      useAnnouncements_instance_snoc useAnnouncements_instance_inv)

theorem no_update_after_teardown_witness:
  "Unsubscribe 0 \<in> set (trace (useSubscribe_instance (\<lambda>options. ()) [Render \<lparr>siteKey = Some ''key'', endpoint = None\<rparr>, Unmount])) \<and>
   Unsubscribe 0 \<in> set (trace (useForm_instance (\<lambda>options. ()) [Render \<lparr>siteKey = Some ''key'', endpoint = None, formSlug = ''contact''\<rparr>, Render \<lparr>siteKey = Some ''other'', endpoint = None, formSlug = ''contact''\<rparr>, Act ReactionsController_fetch])) \<and>
   Unsubscribe 0 \<in> set (trace (useReactions_instance (\<lambda>options. ()) [Render \<lparr>siteKey = Some ''key'', endpoint = None, autoFetch = None, contentId = ''my-post''\<rparr>, Unmount])) \<and>
   Unsubscribe 0 \<in> set (trace (useComments_instance (\<lambda>options. ()) [Render \<lparr>siteKey = Some ''key'', endpoint = None, autoFetch = Some True, contentId = ''my-post''\<rparr>, Render \<lparr>siteKey = Some ''other'', endpoint = None, autoFetch = Some True, contentId = ''my-post''\<rparr>, Act ReactionsController_fetch])) \<and>
   Unsubscribe 0 \<in> set (trace (useWaitlist_instance (\<lambda>options. ()) [Render \<lparr>siteKey = Some ''key'', endpoint = None\<rparr>, Unmount])) \<and>
   Unsubscribe 0 \<in> set (trace (useViews_instance (\<lambda>options. ()) \<lparr>siteKey = Some ''key'', endpoint = None, pageId = ''/blog'', autoRecord = None\<rparr> [Render \<lparr>siteKey = Some ''key'', endpoint = None, pageId = ''/blog'', autoRecord = None\<rparr>, Render \<lparr>siteKey = Some ''other'', endpoint = None, pageId = ''/blog'', autoRecord = None\<rparr>, Act ReactionsController_fetch])) \<and>
   Unsubscribe 0 \<in> set (trace (useFeedback_instance (\<lambda>options. ()) [Render \<lparr>siteKey = Some ''key'', endpoint = None\<rparr>, Unmount])) \<and>
   Unsubscribe 0 \<in> set (trace (usePoll_instance (\<lambda>options. ()) [Render \<lparr>siteKey = Some ''key'', endpoint = None, autoFetch = Some False, slug = ''favorite''\<rparr>, Render \<lparr>siteKey = Some ''other'', endpoint = None, autoFetch = Some False, slug = ''favorite''\<rparr>, Act ReactionsController_fetch])) \<and>
   Unsubscribe 0 \<in> set (trace (useAnnouncements_instance (\<lambda>options. ()) [Render \<lparr>siteKey = Some ''key'', endpoint = None, autoFetch = None\<rparr>, Unmount])) \<and>
   state (useSubscribe_instance (\<lambda>options. ()) ([Render \<lparr>siteKey = Some ''key'', endpoint = None\<rparr>, Unmount] @ [Emit 0 \<lparr>status = status_error, error = Some ''network'', message = None\<rparr>])) =
     state (useSubscribe_instance (\<lambda>options. ()) [Render \<lparr>siteKey = Some ''key'', endpoint = None\<rparr>, Unmount]) \<and>
   state (useForm_instance (\<lambda>options. ()) ([Render \<lparr>siteKey = Some ''key'', endpoint = None, formSlug = ''contact''\<rparr>, Render \<lparr>siteKey = Some ''other'', endpoint = None, formSlug = ''contact''\<rparr>, Act ReactionsController_fetch] @ [Emit 0 \<lparr>status = status_success, error = None, message = Some ''sent''\<rparr>])) =
     state (useForm_instance (\<lambda>options. ()) [Render \<lparr>siteKey = Some ''key'', endpoint = None, formSlug = ''contact''\<rparr>, Render \<lparr>siteKey = Some ''other'', endpoint = None, formSlug = ''contact''\<rparr>, Act ReactionsController_fetch]) \<and>
   state (useReactions_instance (\<lambda>options. ()) ([Render \<lparr>siteKey = Some ''key'', endpoint = None, autoFetch = None, contentId = ''my-post''\<rparr>, Unmount] @ [Emit 0 \<lparr>status = status_success, error = None, counts = [''like'' \<mapsto> 3], userReactions = [''like'']\<rparr>])) =
     state (useReactions_instance (\<lambda>options. ()) [Render \<lparr>siteKey = Some ''key'', endpoint = None, autoFetch = None, contentId = ''my-post''\<rparr>, Unmount]) \<and>
   state (useComments_instance (\<lambda>options. ()) ([Render \<lparr>siteKey = Some ''key'', endpoint = None, autoFetch = Some True, contentId = ''my-post''\<rparr>, Render \<lparr>siteKey = Some ''other'', endpoint = None, autoFetch = Some True, contentId = ''my-post''\<rparr>, Act ReactionsController_fetch] @ [Emit 0 \<lparr>status = status_loading, error = None, comments = []\<rparr>])) =
     state (useComments_instance (\<lambda>options. ()) [Render \<lparr>siteKey = Some ''key'', endpoint = None, autoFetch = Some True, contentId = ''my-post''\<rparr>, Render \<lparr>siteKey = Some ''other'', endpoint = None, autoFetch = Some True, contentId = ''my-post''\<rparr>, Act ReactionsController_fetch]) \<and>
   state (useWaitlist_instance (\<lambda>options. ()) ([Render \<lparr>siteKey = Some ''key'', endpoint = None\<rparr>, Unmount] @ [Emit 0 \<lparr>status = status_success, error = None, message = Some ''joined'', position = Some 7\<rparr>])) =
     state (useWaitlist_instance (\<lambda>options. ()) [Render \<lparr>siteKey = Some ''key'', endpoint = None\<rparr>, Unmount]) \<and>
   state (useViews_instance (\<lambda>options. ()) \<lparr>siteKey = Some ''key'', endpoint = None, pageId = ''/blog'', autoRecord = None\<rparr> ([Render \<lparr>siteKey = Some ''key'', endpoint = None, pageId = ''/blog'', autoRecord = None\<rparr>, Render \<lparr>siteKey = Some ''other'', endpoint = None, pageId = ''/blog'', autoRecord = None\<rparr>, Act ReactionsController_fetch] @ [Emit 0 \<lparr>status = status_success, error = None, views = 10, uniqueVisitors = 4, ViewCountsState.pageId = ''/blog''\<rparr>])) =
     state (useViews_instance (\<lambda>options. ()) \<lparr>siteKey = Some ''key'', endpoint = None, pageId = ''/blog'', autoRecord = None\<rparr> [Render \<lparr>siteKey = Some ''key'', endpoint = None, pageId = ''/blog'', autoRecord = None\<rparr>, Render \<lparr>siteKey = Some ''other'', endpoint = None, pageId = ''/blog'', autoRecord = None\<rparr>, Act ReactionsController_fetch]) \<and>
   state (useFeedback_instance (\<lambda>options. ()) ([Render \<lparr>siteKey = Some ''key'', endpoint = None\<rparr>, Unmount] @ [Emit 0 \<lparr>status = status_error, error = Some ''rejected'', message = None\<rparr>])) =
     state (useFeedback_instance (\<lambda>options. ()) [Render \<lparr>siteKey = Some ''key'', endpoint = None\<rparr>, Unmount]) \<and>
   state (usePoll_instance (\<lambda>options. ()) ([Render \<lparr>siteKey = Some ''key'', endpoint = None, autoFetch = Some False, slug = ''favorite''\<rparr>, Render \<lparr>siteKey = Some ''other'', endpoint = None, autoFetch = Some False, slug = ''favorite''\<rparr>, Act ReactionsController_fetch] @ [Emit 0 \<lparr>status = status_error, error = Some ''not found'', poll = None\<rparr>])) =
     state (usePoll_instance (\<lambda>options. ()) [Render \<lparr>siteKey = Some ''key'', endpoint = None, autoFetch = Some False, slug = ''favorite''\<rparr>, Render \<lparr>siteKey = Some ''other'', endpoint = None, autoFetch = Some False, slug = ''favorite''\<rparr>, Act ReactionsController_fetch]) \<and>
   state (useAnnouncements_instance (\<lambda>options. ()) ([Render \<lparr>siteKey = Some ''key'', endpoint = None, autoFetch = None\<rparr>, Unmount] @ [Emit 0 \<lparr>status = status_success, error = None, announcements = [], dismissed = {3}\<rparr>])) =
     state (useAnnouncements_instance (\<lambda>options. ()) [Render \<lparr>siteKey = Some ''key'', endpoint = None, autoFetch = None\<rparr>, Unmount])"
proof -
  have h1: "Unsubscribe 0 \<in> set (trace (useSubscribe_instance (\<lambda>options. ()) [Render \<lparr>siteKey = Some ''key'', endpoint = None\<rparr>, Unmount]))"
    and h2: "Unsubscribe 0 \<in> set (trace (useForm_instance (\<lambda>options. ()) [Render \<lparr>siteKey = Some ''key'', endpoint = None, formSlug = ''contact''\<rparr>, Render \<lparr>siteKey = Some ''other'', endpoint = None, formSlug = ''contact''\<rparr>, Act ReactionsController_fetch]))"
    and h3: "Unsubscribe 0 \<in> set (trace (useReactions_instance (\<lambda>options. ()) [Render \<lparr>siteKey = Some ''key'', endpoint = None, autoFetch = None, contentId = ''my-post''\<rparr>, Unmount]))"
    and h4: "Unsubscribe 0 \<in> set (trace (useComments_instance (\<lambda>options. ()) [Render \<lparr>siteKey = Some ''key'', endpoint = None, autoFetch = Some True, contentId = ''my-post''\<rparr>, Render \<lparr>siteKey = Some ''other'', endpoint = None, autoFetch = Some True, contentId = ''my-post''\<rparr>, Act ReactionsController_fetch]))"
    and h5: "Unsubscribe 0 \<in> set (trace (useWaitlist_instance (\<lambda>options. ()) [Render \<lparr>siteKey = Some ''key'', endpoint = None\<rparr>, Unmount]))"
    and h6: "Unsubscribe 0 \<in> set (trace (useViews_instance (\<lambda>options. ()) \<lparr>siteKey = Some ''key'', endpoint = None, pageId = ''/blog'', autoRecord = None\<rparr> [Render \<lparr>siteKey = Some ''key'', endpoint = None, pageId = ''/blog'', autoRecord = None\<rparr>, Render \<lparr>siteKey = Some ''other'', endpoint = None, pageId = ''/blog'', autoRecord = None\<rparr>, Act ReactionsController_fetch]))"
    and h7: "Unsubscribe 0 \<in> set (trace (useFeedback_instance (\<lambda>options. ()) [Render \<lparr>siteKey = Some ''key'', endpoint = None\<rparr>, Unmount]))"
    and h8: "Unsubscribe 0 \<in> set (trace (usePoll_instance (\<lambda>options. ()) [Render \<lparr>siteKey = Some ''key'', endpoint = None, autoFetch = Some False, slug = ''favorite''\<rparr>, Render \<lparr>siteKey = Some ''other'', endpoint = None, autoFetch = Some False, slug = ''favorite''\<rparr>, Act ReactionsController_fetch]))"
    and h9: "Unsubscribe 0 \<in> set (trace (useAnnouncements_instance (\<lambda>options. ()) [Render \<lparr>siteKey = Some ''key'', endpoint = None, autoFetch = None\<rparr>, Unmount]))"
    by (simp_all add: eval_defs)
  from no_update_after_teardown [OF h1 h2 h3 h4 h5 h6 h7 h8 h9,
      where snapshot_subscribe = "\<lparr>status = status_error, error = Some ''network'', message = None\<rparr>"
        and snapshot_form = "\<lparr>status = status_success, error = None, message = Some ''sent''\<rparr>"
        and snapshot_reactions = "\<lparr>status = status_success, error = None, counts = [''like'' \<mapsto> 3], userReactions = [''like'']\<rparr>"
        and snapshot_comments = "\<lparr>status = status_loading, error = None, comments = []\<rparr>"
        and snapshot_waitlist = "\<lparr>status = status_success, error = None, message = Some ''joined'', position = Some 7\<rparr>"
        and snapshot_views = "\<lparr>status = status_success, error = None, views = 10, uniqueVisitors = 4, ViewCountsState.pageId = ''/blog''\<rparr>"
        and snapshot_feedback = "\<lparr>status = status_error, error = Some ''rejected'', message = None\<rparr>"
        and snapshot_poll = "\<lparr>status = status_error, error = Some ''not found'', poll = None\<rparr>"
        and snapshot_announcements = "\<lparr>status = status_success, error = None, announcements = [], dismissed = {3}\<rparr>"]
  show ?thesis
    using h1 h2 h3 h4 h5 h6 h7 h8 h9 by simp
qed

section \<open>Teardown and reconstruction\<close>

lemma useEffect_same: "effect_deps b = Some deps \<Longrightarrow> useEffect effect deps b = b"
  by (simp add: useEffect_def)

lemma useEffect_changed:
  "effect_deps b \<noteq> Some deps \<Longrightarrow>
   useEffect effect deps b =
     (case effect (run_cleanup b) of
        (unsubscribe, b') \<Rightarrow> b'\<lparr>effect_cleanup := Some unsubscribe, effect_deps := Some deps\<rparr>)"
  by (simp add: useEffect_def)

lemma run_cleanup_alive:
  assumes "bridge_inv b" and "alive c b"
  shows "run_cleanup b = (controller_unsubscribe c b)\<lparr>effect_cleanup := None\<rparr>"
    and "controllerRef (run_cleanup b) = Some c"
    and "trace (run_cleanup b) = trace b @ [Unsubscribe c]"
    and "next_cid (run_cleanup b) = next_cid b"
  using alive_controller(1,2) [OF assms]
  by (simp_all add: run_cleanup_def controller_unsubscribe_def)

lemma useEffect_changed_alive:
  assumes "bridge_inv b" and "alive c b" and "effect_deps b \<noteq> Some deps"
  shows "trace (useEffect (bridge_effect k config ident auto) deps b) =
           trace b @ [Unsubscribe c, Construct (next_cid b) k config ident, Subscribe (next_cid b)] @
           (case auto of None \<Rightarrow> [] | Some r \<Rightarrow> [Invoke (next_cid b) r])"
    and "controllerRef (useEffect (bridge_effect k config ident auto) deps b) = Some (next_cid b)"
    and "effect_deps (useEffect (bridge_effect k config ident auto) deps b) = Some deps"
  using assms(3) alive_controller(1) [OF assms(1,2)]
  by (simp_all add: useEffect_def bridge_effect_def run_cleanup_def controller_unsubscribe_def
      split: option.splits)

lemma step_Render_mounted: "\<not> unmounted b \<Longrightarrow> step commit (Render options) b = commit options b"
  by (simp add: step_def)

lemma step_Unmount_mounted: "\<not> unmounted b \<Longrightarrow> step commit Unmount b = (run_cleanup b)\<lparr>unmounted := True\<rparr>"
  by (simp add: step_def unmount_def)

lemma useSubscribe_teardown:
  assumes "alive c (useSubscribe_instance resolveConfig inputs)"
  shows "controllerRef (useSubscribe_instance resolveConfig inputs) = Some c"
    and "effect_cleanup (useSubscribe_instance resolveConfig inputs) = Some c"
    and "controllerRef (run_cleanup (useSubscribe_instance resolveConfig inputs)) = Some c"
    and "trace (run_cleanup (useSubscribe_instance resolveConfig inputs)) =
           trace (useSubscribe_instance resolveConfig inputs) @ [Unsubscribe c]"
    and "step (useSubscribe_commit resolveConfig) Unmount (useSubscribe_instance resolveConfig inputs) =
           (run_cleanup (useSubscribe_instance resolveConfig inputs))\<lparr>unmounted := True\<rparr>"
    and "effect_deps (useSubscribe_instance resolveConfig inputs) \<noteq> Some (useSubscribe_deps options) \<longrightarrow>
           step (useSubscribe_commit resolveConfig) (Render options) (useSubscribe_instance resolveConfig inputs) =
             (case useSubscribe_effect resolveConfig options
                     (run_cleanup (useSubscribe_instance resolveConfig inputs)) of
                (unsubscribe, b') \<Rightarrow>
                  b'\<lparr>effect_cleanup := Some unsubscribe,
                     effect_deps := Some (useSubscribe_deps options)\<rparr>) \<and>
           controllerRef
             (step (useSubscribe_commit resolveConfig) (Render options)
                (useSubscribe_instance resolveConfig inputs)) =
             Some (next_cid (useSubscribe_instance resolveConfig inputs)) \<and>
           c < next_cid (useSubscribe_instance resolveConfig inputs)"
proof -
  note inv = useSubscribe_instance_inv [of resolveConfig inputs]
  note al = alive_controller [OF inv assms]
  show "controllerRef (useSubscribe_instance resolveConfig inputs) = Some c" by (rule al)
  show "effect_cleanup (useSubscribe_instance resolveConfig inputs) = Some c" by (rule al)
  show "controllerRef (run_cleanup (useSubscribe_instance resolveConfig inputs)) = Some c"
    by (rule run_cleanup_alive [OF inv assms])
  show "trace (run_cleanup (useSubscribe_instance resolveConfig inputs)) =
          trace (useSubscribe_instance resolveConfig inputs) @ [Unsubscribe c]"
    by (rule run_cleanup_alive [OF inv assms])
  show "step (useSubscribe_commit resolveConfig) Unmount (useSubscribe_instance resolveConfig inputs) =
          (run_cleanup (useSubscribe_instance resolveConfig inputs))\<lparr>unmounted := True\<rparr>"
    using al(4) by (rule step_Unmount_mounted)
  show "effect_deps (useSubscribe_instance resolveConfig inputs) \<noteq> Some (useSubscribe_deps options) \<longrightarrow>
           step (useSubscribe_commit resolveConfig) (Render options) (useSubscribe_instance resolveConfig inputs) =
             (case useSubscribe_effect resolveConfig options
                     (run_cleanup (useSubscribe_instance resolveConfig inputs)) of
                (unsubscribe, b') \<Rightarrow>
                  b'\<lparr>effect_cleanup := Some unsubscribe,
                     effect_deps := Some (useSubscribe_deps options)\<rparr>) \<and>
           controllerRef
             (step (useSubscribe_commit resolveConfig) (Render options)
                (useSubscribe_instance resolveConfig inputs)) =
             Some (next_cid (useSubscribe_instance resolveConfig inputs)) \<and>
           c < next_cid (useSubscribe_instance resolveConfig inputs)"
  proof
    assume changed: "effect_deps (useSubscribe_instance resolveConfig inputs) \<noteq> Some (useSubscribe_deps options)"
    have "step (useSubscribe_commit resolveConfig) (Render options) (useSubscribe_instance resolveConfig inputs) =
            useSubscribe_commit resolveConfig options (useSubscribe_instance resolveConfig inputs)"
      using al(4) by (rule step_Render_mounted)
    moreover have "controllerRef
        (useSubscribe_commit resolveConfig options (useSubscribe_instance resolveConfig inputs)) =
          Some (next_cid (useSubscribe_instance resolveConfig inputs))"
      unfolding useSubscribe_commit_shape by (rule useEffect_changed_alive [OF inv assms changed])
    ultimately show "step (useSubscribe_commit resolveConfig) (Render options) (useSubscribe_instance resolveConfig inputs) =
             (case useSubscribe_effect resolveConfig options
                     (run_cleanup (useSubscribe_instance resolveConfig inputs)) of
                (unsubscribe, b') \<Rightarrow>
                  b'\<lparr>effect_cleanup := Some unsubscribe,
                     effect_deps := Some (useSubscribe_deps options)\<rparr>) \<and>
           controllerRef
             (step (useSubscribe_commit resolveConfig) (Render options)
                (useSubscribe_instance resolveConfig inputs)) =
             Some (next_cid (useSubscribe_instance resolveConfig inputs)) \<and>
           c < next_cid (useSubscribe_instance resolveConfig inputs)"
      using changed al(5) by (simp add: useSubscribe_commit_def useEffect_changed)
  qed
qed

lemma useForm_teardown:
  assumes "alive c (useForm_instance resolveConfig inputs)"
  shows "controllerRef (useForm_instance resolveConfig inputs) = Some c"
    and "effect_cleanup (useForm_instance resolveConfig inputs) = Some c"
    and "controllerRef (run_cleanup (useForm_instance resolveConfig inputs)) = Some c"
    and "trace (run_cleanup (useForm_instance resolveConfig inputs)) =
           trace (useForm_instance resolveConfig inputs) @ [Unsubscribe c]"
    and "step (useForm_commit resolveConfig) Unmount (useForm_instance resolveConfig inputs) =
           (run_cleanup (useForm_instance resolveConfig inputs))\<lparr>unmounted := True\<rparr>"
    and "effect_deps (useForm_instance resolveConfig inputs) \<noteq> Some (useForm_deps options) \<longrightarrow>
           step (useForm_commit resolveConfig) (Render options) (useForm_instance resolveConfig inputs) =
             (case useForm_effect resolveConfig options
                     (run_cleanup (useForm_instance resolveConfig inputs)) of
                (unsubscribe, b') \<Rightarrow>
                  b'\<lparr>effect_cleanup := Some unsubscribe,
                     effect_deps := Some (useForm_deps options)\<rparr>) \<and>
           controllerRef
             (step (useForm_commit resolveConfig) (Render options)
                (useForm_instance resolveConfig inputs)) =
             Some (next_cid (useForm_instance resolveConfig inputs)) \<and>
           c < next_cid (useForm_instance resolveConfig inputs)"
proof -
  note inv = useForm_instance_inv [of resolveConfig inputs]
  note al = alive_controller [OF inv assms]
  show "controllerRef (useForm_instance resolveConfig inputs) = Some c" by (rule al)
  show "effect_cleanup (useForm_instance resolveConfig inputs) = Some c" by (rule al)
  show "controllerRef (run_cleanup (useForm_instance resolveConfig inputs)) = Some c"
    by (rule run_cleanup_alive [OF inv assms])
  show "trace (run_cleanup (useForm_instance resolveConfig inputs)) =
          trace (useForm_instance resolveConfig inputs) @ [Unsubscribe c]"
    by (rule run_cleanup_alive [OF inv assms])
  show "step (useForm_commit resolveConfig) Unmount (useForm_instance resolveConfig inputs) =
          (run_cleanup (useForm_instance resolveConfig inputs))\<lparr>unmounted := True\<rparr>"
    using al(4) by (rule step_Unmount_mounted)
  show "effect_deps (useForm_instance resolveConfig inputs) \<noteq> Some (useForm_deps options) \<longrightarrow>
           step (useForm_commit resolveConfig) (Render options) (useForm_instance resolveConfig inputs) =
             (case useForm_effect resolveConfig options
                     (run_cleanup (useForm_instance resolveConfig inputs)) of
                (unsubscribe, b') \<Rightarrow>
                  b'\<lparr>effect_cleanup := Some unsubscribe,
                     effect_deps := Some (useForm_deps options)\<rparr>) \<and>
           controllerRef
             (step (useForm_commit resolveConfig) (Render options)
                (useForm_instance resolveConfig inputs)) =
             Some (next_cid (useForm_instance resolveConfig inputs)) \<and>
           c < next_cid (useForm_instance resolveConfig inputs)"
  proof
    assume changed: "effect_deps (useForm_instance resolveConfig inputs) \<noteq> Some (useForm_deps options)"
    have "step (useForm_commit resolveConfig) (Render options) (useForm_instance resolveConfig inputs) =
            useForm_commit resolveConfig options (useForm_instance resolveConfig inputs)"
      using al(4) by (rule step_Render_mounted)
    moreover have "controllerRef
        (useForm_commit resolveConfig options (useForm_instance resolveConfig inputs)) =
          Some (next_cid (useForm_instance resolveConfig inputs))"
      unfolding useForm_commit_shape by (rule useEffect_changed_alive [OF inv assms changed])
    ultimately show "step (useForm_commit resolveConfig) (Render options) (useForm_instance resolveConfig inputs) =
             (case useForm_effect resolveConfig options
                     (run_cleanup (useForm_instance resolveConfig inputs)) of
                (unsubscribe, b') \<Rightarrow>
                  b'\<lparr>effect_cleanup := Some unsubscribe,
                     effect_deps := Some (useForm_deps options)\<rparr>) \<and>
           controllerRef
             (step (useForm_commit resolveConfig) (Render options)
                (useForm_instance resolveConfig inputs)) =
             Some (next_cid (useForm_instance resolveConfig inputs)) \<and>
           c < next_cid (useForm_instance resolveConfig inputs)"
      using changed al(5) by (simp add: useForm_commit_def useEffect_changed)
  qed
qed

lemma useReactions_teardown:
  assumes "alive c (useReactions_instance resolveConfig inputs)"
  shows "controllerRef (useReactions_instance resolveConfig inputs) = Some c"
    and "effect_cleanup (useReactions_instance resolveConfig inputs) = Some c"
    and "controllerRef (run_cleanup (useReactions_instance resolveConfig inputs)) = Some c"
    and "trace (run_cleanup (useReactions_instance resolveConfig inputs)) =
           trace (useReactions_instance resolveConfig inputs) @ [Unsubscribe c]"
    and "step (useReactions_commit resolveConfig) Unmount (useReactions_instance resolveConfig inputs) =
           (run_cleanup (useReactions_instance resolveConfig inputs))\<lparr>unmounted := True\<rparr>"
    and "effect_deps (useReactions_instance resolveConfig inputs) \<noteq> Some (useReactions_deps options) \<longrightarrow>
           step (useReactions_commit resolveConfig) (Render options) (useReactions_instance resolveConfig inputs) =
             (case useReactions_effect resolveConfig options
                     (run_cleanup (useReactions_instance resolveConfig inputs)) of
                (unsubscribe, b') \<Rightarrow>
                  b'\<lparr>effect_cleanup := Some unsubscribe,
                     effect_deps := Some (useReactions_deps options)\<rparr>) \<and>
           controllerRef
             (step (useReactions_commit resolveConfig) (Render options)
                (useReactions_instance resolveConfig inputs)) =
             Some (next_cid (useReactions_instance resolveConfig inputs)) \<and>
           c < next_cid (useReactions_instance resolveConfig inputs)"
proof -
  note inv = useReactions_instance_inv [of resolveConfig inputs]
  note al = alive_controller [OF inv assms]
  show "controllerRef (useReactions_instance resolveConfig inputs) = Some c" by (rule al)
  show "effect_cleanup (useReactions_instance resolveConfig inputs) = Some c" by (rule al)
  show "controllerRef (run_cleanup (useReactions_instance resolveConfig inputs)) = Some c"
    by (rule run_cleanup_alive [OF inv assms])
  show "trace (run_cleanup (useReactions_instance resolveConfig inputs)) =
          trace (useReactions_instance resolveConfig inputs) @ [Unsubscribe c]"
    by (rule run_cleanup_alive [OF inv assms])
  show "step (useReactions_commit resolveConfig) Unmount (useReactions_instance resolveConfig inputs) =
          (run_cleanup (useReactions_instance resolveConfig inputs))\<lparr>unmounted := True\<rparr>"
    using al(4) by (rule step_Unmount_mounted)
  show "effect_deps (useReactions_instance resolveConfig inputs) \<noteq> Some (useReactions_deps options) \<longrightarrow>
           step (useReactions_commit resolveConfig) (Render options) (useReactions_instance resolveConfig inputs) =
             (case useReactions_effect resolveConfig options
                     (run_cleanup (useReactions_instance resolveConfig inputs)) of
                (unsubscribe, b') \<Rightarrow>
                  b'\<lparr>effect_cleanup := Some unsubscribe,
                     effect_deps := Some (useReactions_deps options)\<rparr>) \<and>
           controllerRef
             (step (useReactions_commit resolveConfig) (Render options)
                (useReactions_instance resolveConfig inputs)) =
             Some (next_cid (useReactions_instance resolveConfig inputs)) \<and>
           c < next_cid (useReactions_instance resolveConfig inputs)"
  proof
    assume changed: "effect_deps (useReactions_instance resolveConfig inputs) \<noteq> Some (useReactions_deps options)"
    have "step (useReactions_commit resolveConfig) (Render options) (useReactions_instance resolveConfig inputs) =
            useReactions_commit resolveConfig options (useReactions_instance resolveConfig inputs)"
      using al(4) by (rule step_Render_mounted)
    moreover have "controllerRef
        (useReactions_commit resolveConfig options (useReactions_instance resolveConfig inputs)) =
          Some (next_cid (useReactions_instance resolveConfig inputs))"
      unfolding useReactions_commit_shape by (rule useEffect_changed_alive [OF inv assms changed])
    ultimately show "step (useReactions_commit resolveConfig) (Render options) (useReactions_instance resolveConfig inputs) =
             (case useReactions_effect resolveConfig options
                     (run_cleanup (useReactions_instance resolveConfig inputs)) of
                (unsubscribe, b') \<Rightarrow>
                  b'\<lparr>effect_cleanup := Some unsubscribe,
                     effect_deps := Some (useReactions_deps options)\<rparr>) \<and>
           controllerRef
             (step (useReactions_commit resolveConfig) (Render options)
                (useReactions_instance resolveConfig inputs)) =
             Some (next_cid (useReactions_instance resolveConfig inputs)) \<and>
           c < next_cid (useReactions_instance resolveConfig inputs)"
      using changed al(5) by (simp add: useReactions_commit_def useEffect_changed)
  qed
qed

lemma useComments_teardown:
  assumes "alive c (useComments_instance resolveConfig inputs)"
  shows "controllerRef (useComments_instance resolveConfig inputs) = Some c"
    and "effect_cleanup (useComments_instance resolveConfig inputs) = Some c"
    and "controllerRef (run_cleanup (useComments_instance resolveConfig inputs)) = Some c"
    and "trace (run_cleanup (useComments_instance resolveConfig inputs)) =
           trace (useComments_instance resolveConfig inputs) @ [Unsubscribe c]"
    and "step (useComments_commit resolveConfig) Unmount (useComments_instance resolveConfig inputs) =
           (run_cleanup (useComments_instance resolveConfig inputs))\<lparr>unmounted := True\<rparr>"
    and "effect_deps (useComments_instance resolveConfig inputs) \<noteq> Some (useComments_deps options) \<longrightarrow>
           step (useComments_commit resolveConfig) (Render options) (useComments_instance resolveConfig inputs) =
             (case useComments_effect resolveConfig options
                     (run_cleanup (useComments_instance resolveConfig inputs)) of
                (unsubscribe, b') \<Rightarrow>
                  b'\<lparr>effect_cleanup := Some unsubscribe,
                     effect_deps := Some (useComments_deps options)\<rparr>) \<and>
           controllerRef
             (step (useComments_commit resolveConfig) (Render options)
                (useComments_instance resolveConfig inputs)) =
             Some (next_cid (useComments_instance resolveConfig inputs)) \<and>
           c < next_cid (useComments_instance resolveConfig inputs)"
proof -
  note inv = useComments_instance_inv [of resolveConfig inputs]
  note al = alive_controller [OF inv assms]
  show "controllerRef (useComments_instance resolveConfig inputs) = Some c" by (rule al)
  show "effect_cleanup (useComments_instance resolveConfig inputs) = Some c" by (rule al)
  show "controllerRef (run_cleanup (useComments_instance resolveConfig inputs)) = Some c"
    by (rule run_cleanup_alive [OF inv assms])
  show "trace (run_cleanup (useComments_instance resolveConfig inputs)) =
          trace (useComments_instance resolveConfig inputs) @ [Unsubscribe c]"
    by (rule run_cleanup_alive [OF inv assms])
  show "step (useComments_commit resolveConfig) Unmount (useComments_instance resolveConfig inputs) =
          (run_cleanup (useComments_instance resolveConfig inputs))\<lparr>unmounted := True\<rparr>"
    using al(4) by (rule step_Unmount_mounted)
  show "effect_deps (useComments_instance resolveConfig inputs) \<noteq> Some (useComments_deps options) \<longrightarrow>
           step (useComments_commit resolveConfig) (Render options) (useComments_instance resolveConfig inputs) =
             (case useComments_effect resolveConfig options
                     (run_cleanup (useComments_instance resolveConfig inputs)) of
                (unsubscribe, b') \<Rightarrow>
                  b'\<lparr>effect_cleanup := Some unsubscribe,
                     effect_deps := Some (useComments_deps options)\<rparr>) \<and>
           controllerRef
             (step (useComments_commit resolveConfig) (Render options)
                (useComments_instance resolveConfig inputs)) =
             Some (next_cid (useComments_instance resolveConfig inputs)) \<and>
           c < next_cid (useComments_instance resolveConfig inputs)"
  proof
    assume changed: "effect_deps (useComments_instance resolveConfig inputs) \<noteq> Some (useComments_deps options)"
    have "step (useComments_commit resolveConfig) (Render options) (useComments_instance resolveConfig inputs) =
            useComments_commit resolveConfig options (useComments_instance resolveConfig inputs)"
      using al(4) by (rule step_Render_mounted)
    moreover have "controllerRef
        (useComments_commit resolveConfig options (useComments_instance resolveConfig inputs)) =
          Some (next_cid (useComments_instance resolveConfig inputs))"
      unfolding useComments_commit_shape by (rule useEffect_changed_alive [OF inv assms changed])
    ultimately show "step (useComments_commit resolveConfig) (Render options) (useComments_instance resolveConfig inputs) =
             (case useComments_effect resolveConfig options
                     (run_cleanup (useComments_instance resolveConfig inputs)) of
                (unsubscribe, b') \<Rightarrow>
                  b'\<lparr>effect_cleanup := Some unsubscribe,
                     effect_deps := Some (useComments_deps options)\<rparr>) \<and>
           controllerRef
             (step (useComments_commit resolveConfig) (Render options)
                (useComments_instance resolveConfig inputs)) =
             Some (next_cid (useComments_instance resolveConfig inputs)) \<and>
           c < next_cid (useComments_instance resolveConfig inputs)"
      using changed al(5) by (simp add: useComments_commit_def useEffect_changed)
  qed
qed

lemma useWaitlist_teardown:
  assumes "alive c (useWaitlist_instance resolveConfig inputs)"
  shows "controllerRef (useWaitlist_instance resolveConfig inputs) = Some c"
    and "effect_cleanup (useWaitlist_instance resolveConfig inputs) = Some c"
    and "controllerRef (run_cleanup (useWaitlist_instance resolveConfig inputs)) = Some c"
    and "trace (run_cleanup (useWaitlist_instance resolveConfig inputs)) =
           trace (useWaitlist_instance resolveConfig inputs) @ [Unsubscribe c]"
    and "step (useWaitlist_commit resolveConfig) Unmount (useWaitlist_instance resolveConfig inputs) =
           (run_cleanup (useWaitlist_instance resolveConfig inputs))\<lparr>unmounted := True\<rparr>"
    and "effect_deps (useWaitlist_instance resolveConfig inputs) \<noteq> Some (useWaitlist_deps options) \<longrightarrow>
           step (useWaitlist_commit resolveConfig) (Render options) (useWaitlist_instance resolveConfig inputs) =
             (case useWaitlist_effect resolveConfig options
                     (run_cleanup (useWaitlist_instance resolveConfig inputs)) of
                (unsubscribe, b') \<Rightarrow>
                  b'\<lparr>effect_cleanup := Some unsubscribe,
                     effect_deps := Some (useWaitlist_deps options)\<rparr>) \<and>
           controllerRef
             (step (useWaitlist_commit resolveConfig) (Render options)
                (useWaitlist_instance resolveConfig inputs)) =
             Some (next_cid (useWaitlist_instance resolveConfig inputs)) \<and>
           c < next_cid (useWaitlist_instance resolveConfig inputs)"
proof -
  note inv = useWaitlist_instance_inv [of resolveConfig inputs]
  note al = alive_controller [OF inv assms]
  show "controllerRef (useWaitlist_instance resolveConfig inputs) = Some c" by (rule al)
  show "effect_cleanup (useWaitlist_instance resolveConfig inputs) = Some c" by (rule al)
  show "controllerRef (run_cleanup (useWaitlist_instance resolveConfig inputs)) = Some c"
    by (rule run_cleanup_alive [OF inv assms])
  show "trace (run_cleanup (useWaitlist_instance resolveConfig inputs)) =
          trace (useWaitlist_instance resolveConfig inputs) @ [Unsubscribe c]"
    by (rule run_cleanup_alive [OF inv assms])
  show "step (useWaitlist_commit resolveConfig) Unmount (useWaitlist_instance resolveConfig inputs) =
          (run_cleanup (useWaitlist_instance resolveConfig inputs))\<lparr>unmounted := True\<rparr>"
    using al(4) by (rule step_Unmount_mounted)
  show "effect_deps (useWaitlist_instance resolveConfig inputs) \<noteq> Some (useWaitlist_deps options) \<longrightarrow>
           step (useWaitlist_commit resolveConfig) (Render options) (useWaitlist_instance resolveConfig inputs) =
             (case useWaitlist_effect resolveConfig options
                     (run_cleanup (useWaitlist_instance resolveConfig inputs)) of
                (unsubscribe, b') \<Rightarrow>
                  b'\<lparr>effect_cleanup := Some unsubscribe,
                     effect_deps := Some (useWaitlist_deps options)\<rparr>) \<and>
           controllerRef
             (step (useWaitlist_commit resolveConfig) (Render options)
                (useWaitlist_instance resolveConfig inputs)) =
             Some (next_cid (useWaitlist_instance resolveConfig inputs)) \<and>
           c < next_cid (useWaitlist_instance resolveConfig inputs)"
  proof
    assume changed: "effect_deps (useWaitlist_instance resolveConfig inputs) \<noteq> Some (useWaitlist_deps options)"
    have "step (useWaitlist_commit resolveConfig) (Render options) (useWaitlist_instance resolveConfig inputs) =
            useWaitlist_commit resolveConfig options (useWaitlist_instance resolveConfig inputs)"
      using al(4) by (rule step_Render_mounted)
    moreover have "controllerRef
        (useWaitlist_commit resolveConfig options (useWaitlist_instance resolveConfig inputs)) =
          Some (next_cid (useWaitlist_instance resolveConfig inputs))"
      unfolding useWaitlist_commit_shape by (rule useEffect_changed_alive [OF inv assms changed])
    ultimately show "step (useWaitlist_commit resolveConfig) (Render options) (useWaitlist_instance resolveConfig inputs) =
             (case useWaitlist_effect resolveConfig options
                     (run_cleanup (useWaitlist_instance resolveConfig inputs)) of
                (unsubscribe, b') \<Rightarrow>
                  b'\<lparr>effect_cleanup := Some unsubscribe,
                     effect_deps := Some (useWaitlist_deps options)\<rparr>) \<and>
           controllerRef
             (step (useWaitlist_commit resolveConfig) (Render options)
                (useWaitlist_instance resolveConfig inputs)) =
             Some (next_cid (useWaitlist_instance resolveConfig inputs)) \<and>
           c < next_cid (useWaitlist_instance resolveConfig inputs)"
      using changed al(5) by (simp add: useWaitlist_commit_def useEffect_changed)
  qed
qed

lemma useViews_teardown:
  assumes "alive c (useViews_instance resolveConfig first_options inputs)"
  shows "controllerRef (useViews_instance resolveConfig first_options inputs) = Some c"
    and "effect_cleanup (useViews_instance resolveConfig first_options inputs) = Some c"
    and "controllerRef (run_cleanup (useViews_instance resolveConfig first_options inputs)) = Some c"
    and "trace (run_cleanup (useViews_instance resolveConfig first_options inputs)) =
           trace (useViews_instance resolveConfig first_options inputs) @ [Unsubscribe c]"
    and "step (useViews_commit resolveConfig) Unmount (useViews_instance resolveConfig first_options inputs) =
           (run_cleanup (useViews_instance resolveConfig first_options inputs))\<lparr>unmounted := True\<rparr>"
    and "effect_deps (useViews_instance resolveConfig first_options inputs) \<noteq> Some (useViews_deps options) \<longrightarrow>
           step (useViews_commit resolveConfig) (Render options) (useViews_instance resolveConfig first_options inputs) =
             (case useViews_effect resolveConfig options
                     (run_cleanup (useViews_instance resolveConfig first_options inputs)) of
                (unsubscribe, b') \<Rightarrow>
                  b'\<lparr>effect_cleanup := Some unsubscribe,
                     effect_deps := Some (useViews_deps options)\<rparr>) \<and>
           controllerRef
             (step (useViews_commit resolveConfig) (Render options)
                (useViews_instance resolveConfig first_options inputs)) =
             Some (next_cid (useViews_instance resolveConfig first_options inputs)) \<and>
           c < next_cid (useViews_instance resolveConfig first_options inputs)"
proof -
  note inv = useViews_instance_inv [of resolveConfig first_options inputs]
  note al = alive_controller [OF inv assms]
  show "controllerRef (useViews_instance resolveConfig first_options inputs) = Some c" by (rule al)
  show "effect_cleanup (useViews_instance resolveConfig first_options inputs) = Some c" by (rule al)
  show "controllerRef (run_cleanup (useViews_instance resolveConfig first_options inputs)) = Some c"
    by (rule run_cleanup_alive [OF inv assms])
  show "trace (run_cleanup (useViews_instance resolveConfig first_options inputs)) =
          trace (useViews_instance resolveConfig first_options inputs) @ [Unsubscribe c]"
    by (rule run_cleanup_alive [OF inv assms])
  show "step (useViews_commit resolveConfig) Unmount (useViews_instance resolveConfig first_options inputs) =
          (run_cleanup (useViews_instance resolveConfig first_options inputs))\<lparr>unmounted := True\<rparr>"
    using al(4) by (rule step_Unmount_mounted)
  show "effect_deps (useViews_instance resolveConfig first_options inputs) \<noteq> Some (useViews_deps options) \<longrightarrow>
           step (useViews_commit resolveConfig) (Render options) (useViews_instance resolveConfig first_options inputs) =
             (case useViews_effect resolveConfig options
                     (run_cleanup (useViews_instance resolveConfig first_options inputs)) of
                (unsubscribe, b') \<Rightarrow>
                  b'\<lparr>effect_cleanup := Some unsubscribe,
                     effect_deps := Some (useViews_deps options)\<rparr>) \<and>
           controllerRef
             (step (useViews_commit resolveConfig) (Render options)
                (useViews_instance resolveConfig first_options inputs)) =
             Some (next_cid (useViews_instance resolveConfig first_options inputs)) \<and>
           c < next_cid (useViews_instance resolveConfig first_options inputs)"
  proof
    assume changed: "effect_deps (useViews_instance resolveConfig first_options inputs) \<noteq> Some (useViews_deps options)"
    have "step (useViews_commit resolveConfig) (Render options) (useViews_instance resolveConfig first_options inputs) =
            useViews_commit resolveConfig options (useViews_instance resolveConfig first_options inputs)"
      using al(4) by (rule step_Render_mounted)
    moreover have "controllerRef
        (useViews_commit resolveConfig options (useViews_instance resolveConfig first_options inputs)) =
          Some (next_cid (useViews_instance resolveConfig first_options inputs))"
      unfolding useViews_commit_shape by (rule useEffect_changed_alive [OF inv assms changed])
    ultimately show "step (useViews_commit resolveConfig) (Render options) (useViews_instance resolveConfig first_options inputs) =
             (case useViews_effect resolveConfig options
                     (run_cleanup (useViews_instance resolveConfig first_options inputs)) of
                (unsubscribe, b') \<Rightarrow>
                  b'\<lparr>effect_cleanup := Some unsubscribe,
                     effect_deps := Some (useViews_deps options)\<rparr>) \<and>
           controllerRef
             (step (useViews_commit resolveConfig) (Render options)
                (useViews_instance resolveConfig first_options inputs)) =
             Some (next_cid (useViews_instance resolveConfig first_options inputs)) \<and>
           c < next_cid (useViews_instance resolveConfig first_options inputs)"
      using changed al(5) by (simp add: useViews_commit_def useEffect_changed)
  qed
qed

lemma useFeedback_teardown:
  assumes "alive c (useFeedback_instance resolveConfig inputs)"
  shows "controllerRef (useFeedback_instance resolveConfig inputs) = Some c"
    and "effect_cleanup (useFeedback_instance resolveConfig inputs) = Some c"
    and "controllerRef (run_cleanup (useFeedback_instance resolveConfig inputs)) = Some c"
    and "trace (run_cleanup (useFeedback_instance resolveConfig inputs)) =
           trace (useFeedback_instance resolveConfig inputs) @ [Unsubscribe c]"
    and "step (useFeedback_commit resolveConfig) Unmount (useFeedback_instance resolveConfig inputs) =
           (run_cleanup (useFeedback_instance resolveConfig inputs))\<lparr>unmounted := True\<rparr>"
    and "effect_deps (useFeedback_instance resolveConfig inputs) \<noteq> Some (useFeedback_deps options) \<longrightarrow>
           step (useFeedback_commit resolveConfig) (Render options) (useFeedback_instance resolveConfig inputs) =
             (case useFeedback_effect resolveConfig options
                     (run_cleanup (useFeedback_instance resolveConfig inputs)) of
                (unsubscribe, b') \<Rightarrow>
                  b'\<lparr>effect_cleanup := Some unsubscribe,
                     effect_deps := Some (useFeedback_deps options)\<rparr>) \<and>
           controllerRef
             (step (useFeedback_commit resolveConfig) (Render options)
                (useFeedback_instance resolveConfig inputs)) =
             Some (next_cid (useFeedback_instance resolveConfig inputs)) \<and>
           c < next_cid (useFeedback_instance resolveConfig inputs)"
proof -
  note inv = useFeedback_instance_inv [of resolveConfig inputs]
  note al = alive_controller [OF inv assms]
  show "controllerRef (useFeedback_instance resolveConfig inputs) = Some c" by (rule al)
  show "effect_cleanup (useFeedback_instance resolveConfig inputs) = Some c" by (rule al)
  show "controllerRef (run_cleanup (useFeedback_instance resolveConfig inputs)) = Some c"
    by (rule run_cleanup_alive [OF inv assms])
  show "trace (run_cleanup (useFeedback_instance resolveConfig inputs)) =
          trace (useFeedback_instance resolveConfig inputs) @ [Unsubscribe c]"
    by (rule run_cleanup_alive [OF inv assms])
  show "step (useFeedback_commit resolveConfig) Unmount (useFeedback_instance resolveConfig inputs) =
          (run_cleanup (useFeedback_instance resolveConfig inputs))\<lparr>unmounted := True\<rparr>"
    using al(4) by (rule step_Unmount_mounted)
  show "effect_deps (useFeedback_instance resolveConfig inputs) \<noteq> Some (useFeedback_deps options) \<longrightarrow>
           step (useFeedback_commit resolveConfig) (Render options) (useFeedback_instance resolveConfig inputs) =
             (case useFeedback_effect resolveConfig options
                     (run_cleanup (useFeedback_instance resolveConfig inputs)) of
                (unsubscribe, b') \<Rightarrow>
                  b'\<lparr>effect_cleanup := Some unsubscribe,
                     effect_deps := Some (useFeedback_deps options)\<rparr>) \<and>
           controllerRef
             (step (useFeedback_commit resolveConfig) (Render options)
                (useFeedback_instance resolveConfig inputs)) =
             Some (next_cid (useFeedback_instance resolveConfig inputs)) \<and>
           c < next_cid (useFeedback_instance resolveConfig inputs)"
  proof
    assume changed: "effect_deps (useFeedback_instance resolveConfig inputs) \<noteq> Some (useFeedback_deps options)"
    have "step (useFeedback_commit resolveConfig) (Render options) (useFeedback_instance resolveConfig inputs) =
            useFeedback_commit resolveConfig options (useFeedback_instance resolveConfig inputs)"
      using al(4) by (rule step_Render_mounted)
    moreover have "controllerRef
        (useFeedback_commit resolveConfig options (useFeedback_instance resolveConfig inputs)) =
          Some (next_cid (useFeedback_instance resolveConfig inputs))"
      unfolding useFeedback_commit_shape by (rule useEffect_changed_alive [OF inv assms changed])
    ultimately show "step (useFeedback_commit resolveConfig) (Render options) (useFeedback_instance resolveConfig inputs) =
             (case useFeedback_effect resolveConfig options
                     (run_cleanup (useFeedback_instance resolveConfig inputs)) of
                (unsubscribe, b') \<Rightarrow>
                  b'\<lparr>effect_cleanup := Some unsubscribe,
                     effect_deps := Some (useFeedback_deps options)\<rparr>) \<and>
           controllerRef
             (step (useFeedback_commit resolveConfig) (Render options)
                (useFeedback_instance resolveConfig inputs)) =
             Some (next_cid (useFeedback_instance resolveConfig inputs)) \<and>
           c < next_cid (useFeedback_instance resolveConfig inputs)"
      using changed al(5) by (simp add: useFeedback_commit_def useEffect_changed)
  qed
qed

lemma usePoll_teardown:
  assumes "alive c (usePoll_instance resolveConfig inputs)"
  shows "controllerRef (usePoll_instance resolveConfig inputs) = Some c"
    and "effect_cleanup (usePoll_instance resolveConfig inputs) = Some c"
    and "controllerRef (run_cleanup (usePoll_instance resolveConfig inputs)) = Some c"
    and "trace (run_cleanup (usePoll_instance resolveConfig inputs)) =
           trace (usePoll_instance resolveConfig inputs) @ [Unsubscribe c]"
    and "step (usePoll_commit resolveConfig) Unmount (usePoll_instance resolveConfig inputs) =
           (run_cleanup (usePoll_instance resolveConfig inputs))\<lparr>unmounted := True\<rparr>"
    and "effect_deps (usePoll_instance resolveConfig inputs) \<noteq> Some (usePoll_deps options) \<longrightarrow>
           step (usePoll_commit resolveConfig) (Render options) (usePoll_instance resolveConfig inputs) =
             (case usePoll_effect resolveConfig options
                     (run_cleanup (usePoll_instance resolveConfig inputs)) of
                (unsubscribe, b') \<Rightarrow>
                  b'\<lparr>effect_cleanup := Some unsubscribe,
                     effect_deps := Some (usePoll_deps options)\<rparr>) \<and>
           controllerRef
             (step (usePoll_commit resolveConfig) (Render options)
                (usePoll_instance resolveConfig inputs)) =
             Some (next_cid (usePoll_instance resolveConfig inputs)) \<and>
           c < next_cid (usePoll_instance resolveConfig inputs)"
proof -
  note inv = usePoll_instance_inv [of resolveConfig inputs]
  note al = alive_controller [OF inv assms]
  show "controllerRef (usePoll_instance resolveConfig inputs) = Some c" by (rule al)
  show "effect_cleanup (usePoll_instance resolveConfig inputs) = Some c" by (rule al)
  show "controllerRef (run_cleanup (usePoll_instance resolveConfig inputs)) = Some c"
    by (rule run_cleanup_alive [OF inv assms])
  show "trace (run_cleanup (usePoll_instance resolveConfig inputs)) =
          trace (usePoll_instance resolveConfig inputs) @ [Unsubscribe c]"
    by (rule run_cleanup_alive [OF inv assms])
  show "step (usePoll_commit resolveConfig) Unmount (usePoll_instance resolveConfig inputs) =
          (run_cleanup (usePoll_instance resolveConfig inputs))\<lparr>unmounted := True\<rparr>"
    using al(4) by (rule step_Unmount_mounted)
  show "effect_deps (usePoll_instance resolveConfig inputs) \<noteq> Some (usePoll_deps options) \<longrightarrow>
           step (usePoll_commit resolveConfig) (Render options) (usePoll_instance resolveConfig inputs) =
             (case usePoll_effect resolveConfig options
                     (run_cleanup (usePoll_instance resolveConfig inputs)) of
                (unsubscribe, b') \<Rightarrow>
                  b'\<lparr>effect_cleanup := Some unsubscribe,
                     effect_deps := Some (usePoll_deps options)\<rparr>) \<and>
           controllerRef
             (step (usePoll_commit resolveConfig) (Render options)
                (usePoll_instance resolveConfig inputs)) =
             Some (next_cid (usePoll_instance resolveConfig inputs)) \<and>
           c < next_cid (usePoll_instance resolveConfig inputs)"
  proof
    assume changed: "effect_deps (usePoll_instance resolveConfig inputs) \<noteq> Some (usePoll_deps options)"
    have "step (usePoll_commit resolveConfig) (Render options) (usePoll_instance resolveConfig inputs) =
            usePoll_commit resolveConfig options (usePoll_instance resolveConfig inputs)"
      using al(4) by (rule step_Render_mounted)
    moreover have "controllerRef
        (usePoll_commit resolveConfig options (usePoll_instance resolveConfig inputs)) =
          Some (next_cid (usePoll_instance resolveConfig inputs))"
      unfolding usePoll_commit_shape by (rule useEffect_changed_alive [OF inv assms changed])
    ultimately show "step (usePoll_commit resolveConfig) (Render options) (usePoll_instance resolveConfig inputs) =
             (case usePoll_effect resolveConfig options
                     (run_cleanup (usePoll_instance resolveConfig inputs)) of
                (unsubscribe, b') \<Rightarrow>
                  b'\<lparr>effect_cleanup := Some unsubscribe,
                     effect_deps := Some (usePoll_deps options)\<rparr>) \<and>
           controllerRef
             (step (usePoll_commit resolveConfig) (Render options)
                (usePoll_instance resolveConfig inputs)) =
             Some (next_cid (usePoll_instance resolveConfig inputs)) \<and>
           c < next_cid (usePoll_instance resolveConfig inputs)"
      using changed al(5) by (simp add: usePoll_commit_def useEffect_changed)
  qed
qed

lemma useAnnouncements_teardown:
  assumes "alive c (useAnnouncements_instance resolveConfig inputs)"
  shows "controllerRef (useAnnouncements_instance resolveConfig inputs) = Some c"
    and "effect_cleanup (useAnnouncements_instance resolveConfig inputs) = Some c"
    and "controllerRef (run_cleanup (useAnnouncements_instance resolveConfig inputs)) = Some c"
    and "trace (run_cleanup (useAnnouncements_instance resolveConfig inputs)) =
           trace (useAnnouncements_instance resolveConfig inputs) @ [Unsubscribe c]"
    and "step (useAnnouncements_commit resolveConfig) Unmount (useAnnouncements_instance resolveConfig inputs) =
           (run_cleanup (useAnnouncements_instance resolveConfig inputs))\<lparr>unmounted := True\<rparr>"
    and "effect_deps (useAnnouncements_instance resolveConfig inputs) \<noteq> Some (useAnnouncements_deps options) \<longrightarrow>
           step (useAnnouncements_commit resolveConfig) (Render options) (useAnnouncements_instance resolveConfig inputs) =
             (case useAnnouncements_effect resolveConfig options
                     (run_cleanup (useAnnouncements_instance resolveConfig inputs)) of
                (unsubscribe, b') \<Rightarrow>
                  b'\<lparr>effect_cleanup := Some unsubscribe,
                     effect_deps := Some (useAnnouncements_deps options)\<rparr>) \<and>
           controllerRef
             (step (useAnnouncements_commit resolveConfig) (Render options)
                (useAnnouncements_instance resolveConfig inputs)) =
             Some (next_cid (useAnnouncements_instance resolveConfig inputs)) \<and>
           c < next_cid (useAnnouncements_instance resolveConfig inputs)"
proof -
  note inv = useAnnouncements_instance_inv [of resolveConfig inputs]
  note al = alive_controller [OF inv assms]
  show "controllerRef (useAnnouncements_instance resolveConfig inputs) = Some c" by (rule al)
  show "effect_cleanup (useAnnouncements_instance resolveConfig inputs) = Some c" by (rule al)
  show "controllerRef (run_cleanup (useAnnouncements_instance resolveConfig inputs)) = Some c"
    by (rule run_cleanup_alive [OF inv assms])
  show "trace (run_cleanup (useAnnouncements_instance resolveConfig inputs)) =
          trace (useAnnouncements_instance resolveConfig inputs) @ [Unsubscribe c]"
    by (rule run_cleanup_alive [OF inv assms])
  show "step (useAnnouncements_commit resolveConfig) Unmount (useAnnouncements_instance resolveConfig inputs) =
          (run_cleanup (useAnnouncements_instance resolveConfig inputs))\<lparr>unmounted := True\<rparr>"
    using al(4) by (rule step_Unmount_mounted)
  show "effect_deps (useAnnouncements_instance resolveConfig inputs) \<noteq> Some (useAnnouncements_deps options) \<longrightarrow>
           step (useAnnouncements_commit resolveConfig) (Render options) (useAnnouncements_instance resolveConfig inputs) =
             (case useAnnouncements_effect resolveConfig options
                     (run_cleanup (useAnnouncements_instance resolveConfig inputs)) of
                (unsubscribe, b') \<Rightarrow>
                  b'\<lparr>effect_cleanup := Some unsubscribe,
                     effect_deps := Some (useAnnouncements_deps options)\<rparr>) \<and>
           controllerRef
             (step (useAnnouncements_commit resolveConfig) (Render options)
                (useAnnouncements_instance resolveConfig inputs)) =
             Some (next_cid (useAnnouncements_instance resolveConfig inputs)) \<and>
           c < next_cid (useAnnouncements_instance resolveConfig inputs)"
  proof
    assume changed: "effect_deps (useAnnouncements_instance resolveConfig inputs) \<noteq> Some (useAnnouncements_deps options)"
    have "step (useAnnouncements_commit resolveConfig) (Render options) (useAnnouncements_instance resolveConfig inputs) =
            useAnnouncements_commit resolveConfig options (useAnnouncements_instance resolveConfig inputs)"
      using al(4) by (rule step_Render_mounted)
    moreover have "controllerRef
        (useAnnouncements_commit resolveConfig options (useAnnouncements_instance resolveConfig inputs)) =
          Some (next_cid (useAnnouncements_instance resolveConfig inputs))"
      unfolding useAnnouncements_commit_shape by (rule useEffect_changed_alive [OF inv assms changed])
    ultimately show "step (useAnnouncements_commit resolveConfig) (Render options) (useAnnouncements_instance resolveConfig inputs) =
             (case useAnnouncements_effect resolveConfig options
                     (run_cleanup (useAnnouncements_instance resolveConfig inputs)) of
                (unsubscribe, b') \<Rightarrow>
                  b'\<lparr>effect_cleanup := Some unsubscribe,
                     effect_deps := Some (useAnnouncements_deps options)\<rparr>) \<and>
           controllerRef
             (step (useAnnouncements_commit resolveConfig) (Render options)
                (useAnnouncements_instance resolveConfig inputs)) =
             Some (next_cid (useAnnouncements_instance resolveConfig inputs)) \<and>
           c < next_cid (useAnnouncements_instance resolveConfig inputs)"
      using changed al(5) by (simp add: useAnnouncements_commit_def useEffect_changed)
  qed
qed

text \<open>
  Claim C7. For each of the nine hooks, teardown deregisters the listener while
  the reference still holds the controller being torn down. When a controller is
  alive, the reference holds it and the pending cleanup is its deregistration
  function; running the cleanup records the deregistration and leaves the
  reference on that controller. At an unmount nothing more happens: the
  reference is never cleared and goes away with the instance. At a change of
  configuration the effect runs on the instance the cleanup has left, and only
  then puts the newly constructed controller into the reference.
\<close>

theorem teardown_deregisters_before_reference_changes:
  assumes "alive c_subscribe (useSubscribe_instance rc_subscribe inputs_subscribe)"
    and "alive c_form (useForm_instance rc_form inputs_form)"
    and "alive c_reactions (useReactions_instance rc_reactions inputs_reactions)"
    and "alive c_comments (useComments_instance rc_comments inputs_comments)"
    and "alive c_waitlist (useWaitlist_instance rc_waitlist inputs_waitlist)"
    and "alive c_views (useViews_instance rc_views first_options inputs_views)"
    and "alive c_feedback (useFeedback_instance rc_feedback inputs_feedback)"
    and "alive c_poll (usePoll_instance rc_poll inputs_poll)"
    and "alive c_announcements (useAnnouncements_instance rc_announcements inputs_announcements)"
  shows
    "controllerRef (useSubscribe_instance rc_subscribe inputs_subscribe) = Some c_subscribe \<and>
     effect_cleanup (useSubscribe_instance rc_subscribe inputs_subscribe) = Some c_subscribe \<and>
     controllerRef (run_cleanup (useSubscribe_instance rc_subscribe inputs_subscribe)) = Some c_subscribe \<and>
     trace (run_cleanup (useSubscribe_instance rc_subscribe inputs_subscribe)) =
       trace (useSubscribe_instance rc_subscribe inputs_subscribe) @ [Unsubscribe c_subscribe] \<and>
     step (useSubscribe_commit rc_subscribe) Unmount (useSubscribe_instance rc_subscribe inputs_subscribe) =
       (run_cleanup (useSubscribe_instance rc_subscribe inputs_subscribe))\<lparr>unmounted := True\<rparr> \<and>
     (effect_deps (useSubscribe_instance rc_subscribe inputs_subscribe) \<noteq> Some (useSubscribe_deps options_subscribe) \<longrightarrow>
        step (useSubscribe_commit rc_subscribe) (Render options_subscribe) (useSubscribe_instance rc_subscribe inputs_subscribe) =
          (case useSubscribe_effect rc_subscribe options_subscribe (run_cleanup (useSubscribe_instance rc_subscribe inputs_subscribe)) of
             (unsubscribe, b') \<Rightarrow>
               b'\<lparr>effect_cleanup := Some unsubscribe,
                  effect_deps := Some (useSubscribe_deps options_subscribe)\<rparr>) \<and>
        controllerRef (step (useSubscribe_commit rc_subscribe) (Render options_subscribe) (useSubscribe_instance rc_subscribe inputs_subscribe)) =
          Some (next_cid (useSubscribe_instance rc_subscribe inputs_subscribe)) \<and>
        c_subscribe < next_cid (useSubscribe_instance rc_subscribe inputs_subscribe)) \<and>
     controllerRef (useForm_instance rc_form inputs_form) = Some c_form \<and>
     effect_cleanup (useForm_instance rc_form inputs_form) = Some c_form \<and>
     controllerRef (run_cleanup (useForm_instance rc_form inputs_form)) = Some c_form \<and>
     trace (run_cleanup (useForm_instance rc_form inputs_form)) =
       trace (useForm_instance rc_form inputs_form) @ [Unsubscribe c_form] \<and>
     step (useForm_commit rc_form) Unmount (useForm_instance rc_form inputs_form) =
       (run_cleanup (useForm_instance rc_form inputs_form))\<lparr>unmounted := True\<rparr> \<and>
     (effect_deps (useForm_instance rc_form inputs_form) \<noteq> Some (useForm_deps options_form) \<longrightarrow>
        step (useForm_commit rc_form) (Render options_form) (useForm_instance rc_form inputs_form) =
          (case useForm_effect rc_form options_form (run_cleanup (useForm_instance rc_form inputs_form)) of
             (unsubscribe, b') \<Rightarrow>
               b'\<lparr>effect_cleanup := Some unsubscribe,
                  effect_deps := Some (useForm_deps options_form)\<rparr>) \<and>
        controllerRef (step (useForm_commit rc_form) (Render options_form) (useForm_instance rc_form inputs_form)) =
          Some (next_cid (useForm_instance rc_form inputs_form)) \<and>
        c_form < next_cid (useForm_instance rc_form inputs_form)) \<and>
     controllerRef (useReactions_instance rc_reactions inputs_reactions) = Some c_reactions \<and>
     effect_cleanup (useReactions_instance rc_reactions inputs_reactions) = Some c_reactions \<and>
     controllerRef (run_cleanup (useReactions_instance rc_reactions inputs_reactions)) = Some c_reactions \<and>
     trace (run_cleanup (useReactions_instance rc_reactions inputs_reactions)) =
       trace (useReactions_instance rc_reactions inputs_reactions) @ [Unsubscribe c_reactions] \<and>
     step (useReactions_commit rc_reactions) Unmount (useReactions_instance rc_reactions inputs_reactions) =
       (run_cleanup (useReactions_instance rc_reactions inputs_reactions))\<lparr>unmounted := True\<rparr> \<and>
     (effect_deps (useReactions_instance rc_reactions inputs_reactions) \<noteq> Some (useReactions_deps options_reactions) \<longrightarrow>
        step (useReactions_commit rc_reactions) (Render options_reactions) (useReactions_instance rc_reactions inputs_reactions) =
          (case useReactions_effect rc_reactions options_reactions (run_cleanup (useReactions_instance rc_reactions inputs_reactions)) of
             (unsubscribe, b') \<Rightarrow>
               b'\<lparr>effect_cleanup := Some unsubscribe,
                  effect_deps := Some (useReactions_deps options_reactions)\<rparr>) \<and>
        controllerRef (step (useReactions_commit rc_reactions) (Render options_reactions) (useReactions_instance rc_reactions inputs_reactions)) =
          Some (next_cid (useReactions_instance rc_reactions inputs_reactions)) \<and>
        c_reactions < next_cid (useReactions_instance rc_reactions inputs_reactions)) \<and>
     controllerRef (useComments_instance rc_comments inputs_comments) = Some c_comments \<and>
     effect_cleanup (useComments_instance rc_comments inputs_comments) = Some c_comments \<and>
     controllerRef (run_cleanup (useComments_instance rc_comments inputs_comments)) = Some c_comments \<and>
     trace (run_cleanup (useComments_instance rc_comments inputs_comments)) =
       trace (useComments_instance rc_comments inputs_comments) @ [Unsubscribe c_comments] \<and>
     step (useComments_commit rc_comments) Unmount (useComments_instance rc_comments inputs_comments) =
       (run_cleanup (useComments_instance rc_comments inputs_comments))\<lparr>unmounted := True\<rparr> \<and>
     (effect_deps (useComments_instance rc_comments inputs_comments) \<noteq> Some (useComments_deps options_comments) \<longrightarrow>
        step (useComments_commit rc_comments) (Render options_comments) (useComments_instance rc_comments inputs_comments) =
          (case useComments_effect rc_comments options_comments (run_cleanup (useComments_instance rc_comments inputs_comments)) of
             (unsubscribe, b') \<Rightarrow>
               b'\<lparr>effect_cleanup := Some unsubscribe,
                  effect_deps := Some (useComments_deps options_comments)\<rparr>) \<and>
        controllerRef (step (useComments_commit rc_comments) (Render options_comments) (useComments_instance rc_comments inputs_comments)) =
          Some (next_cid (useComments_instance rc_comments inputs_comments)) \<and>
        c_comments < next_cid (useComments_instance rc_comments inputs_comments)) \<and>
     controllerRef (useWaitlist_instance rc_waitlist inputs_waitlist) = Some c_waitlist \<and>
     effect_cleanup (useWaitlist_instance rc_waitlist inputs_waitlist) = Some c_waitlist \<and>
     controllerRef (run_cleanup (useWaitlist_instance rc_waitlist inputs_waitlist)) = Some c_waitlist \<and>
     trace (run_cleanup (useWaitlist_instance rc_waitlist inputs_waitlist)) =
       trace (useWaitlist_instance rc_waitlist inputs_waitlist) @ [Unsubscribe c_waitlist] \<and>
     step (useWaitlist_commit rc_waitlist) Unmount (useWaitlist_instance rc_waitlist inputs_waitlist) =
       (run_cleanup (useWaitlist_instance rc_waitlist inputs_waitlist))\<lparr>unmounted := True\<rparr> \<and>
     (effect_deps (useWaitlist_instance rc_waitlist inputs_waitlist) \<noteq> Some (useWaitlist_deps options_waitlist) \<longrightarrow>
        step (useWaitlist_commit rc_waitlist) (Render options_waitlist) (useWaitlist_instance rc_waitlist inputs_waitlist) =
          (case useWaitlist_effect rc_waitlist options_waitlist (run_cleanup (useWaitlist_instance rc_waitlist inputs_waitlist)) of
             (unsubscribe, b') \<Rightarrow>
               b'\<lparr>effect_cleanup := Some unsubscribe,
                  effect_deps := Some (useWaitlist_deps options_waitlist)\<rparr>) \<and>
        controllerRef (step (useWaitlist_commit rc_waitlist) (Render options_waitlist) (useWaitlist_instance rc_waitlist inputs_waitlist)) =
          Some (next_cid (useWaitlist_instance rc_waitlist inputs_waitlist)) \<and>
        c_waitlist < next_cid (useWaitlist_instance rc_waitlist inputs_waitlist)) \<and>
     controllerRef (useViews_instance rc_views first_options inputs_views) = Some c_views \<and>
     effect_cleanup (useViews_instance rc_views first_options inputs_views) = Some c_views \<and>
     controllerRef (run_cleanup (useViews_instance rc_views first_options inputs_views)) = Some c_views \<and>
     trace (run_cleanup (useViews_instance rc_views first_options inputs_views)) =
       trace (useViews_instance rc_views first_options inputs_views) @ [Unsubscribe c_views] \<and>
     step (useViews_commit rc_views) Unmount (useViews_instance rc_views first_options inputs_views) =
       (run_cleanup (useViews_instance rc_views first_options inputs_views))\<lparr>unmounted := True\<rparr> \<and>
     (effect_deps (useViews_instance rc_views first_options inputs_views) \<noteq> Some (useViews_deps options_views) \<longrightarrow>
        step (useViews_commit rc_views) (Render options_views) (useViews_instance rc_views first_options inputs_views) =
          (case useViews_effect rc_views options_views (run_cleanup (useViews_instance rc_views first_options inputs_views)) of
             (unsubscribe, b') \<Rightarrow>
               b'\<lparr>effect_cleanup := Some unsubscribe,
                  effect_deps := Some (useViews_deps options_views)\<rparr>) \<and>
        controllerRef (step (useViews_commit rc_views) (Render options_views) (useViews_instance rc_views first_options inputs_views)) =
          Some (next_cid (useViews_instance rc_views first_options inputs_views)) \<and>
        c_views < next_cid (useViews_instance rc_views first_options inputs_views)) \<and>
     controllerRef (useFeedback_instance rc_feedback inputs_feedback) = Some c_feedback \<and>
     effect_cleanup (useFeedback_instance rc_feedback inputs_feedback) = Some c_feedback \<and>
     controllerRef (run_cleanup (useFeedback_instance rc_feedback inputs_feedback)) = Some c_feedback \<and>
     trace (run_cleanup (useFeedback_instance rc_feedback inputs_feedback)) =
       trace (useFeedback_instance rc_feedback inputs_feedback) @ [Unsubscribe c_feedback] \<and>
     step (useFeedback_commit rc_feedback) Unmount (useFeedback_instance rc_feedback inputs_feedback) =
       (run_cleanup (useFeedback_instance rc_feedback inputs_feedback))\<lparr>unmounted := True\<rparr> \<and>
     (effect_deps (useFeedback_instance rc_feedback inputs_feedback) \<noteq> Some (useFeedback_deps options_feedback) \<longrightarrow>
        step (useFeedback_commit rc_feedback) (Render options_feedback) (useFeedback_instance rc_feedback inputs_feedback) =
          (case useFeedback_effect rc_feedback options_feedback (run_cleanup (useFeedback_instance rc_feedback inputs_feedback)) of
             (unsubscribe, b') \<Rightarrow>
               b'\<lparr>effect_cleanup := Some unsubscribe,
                  effect_deps := Some (useFeedback_deps options_feedback)\<rparr>) \<and>
        controllerRef (step (useFeedback_commit rc_feedback) (Render options_feedback) (useFeedback_instance rc_feedback inputs_feedback)) =
          Some (next_cid (useFeedback_instance rc_feedback inputs_feedback)) \<and>
        c_feedback < next_cid (useFeedback_instance rc_feedback inputs_feedback)) \<and>
     controllerRef (usePoll_instance rc_poll inputs_poll) = Some c_poll \<and>
     effect_cleanup (usePoll_instance rc_poll inputs_poll) = Some c_poll \<and>
     controllerRef (run_cleanup (usePoll_instance rc_poll inputs_poll)) = Some c_poll \<and>
     trace (run_cleanup (usePoll_instance rc_poll inputs_poll)) =
       trace (usePoll_instance rc_poll inputs_poll) @ [Unsubscribe c_poll] \<and>
     step (usePoll_commit rc_poll) Unmount (usePoll_instance rc_poll inputs_poll) =
       (run_cleanup (usePoll_instance rc_poll inputs_poll))\<lparr>unmounted := True\<rparr> \<and>
     (effect_deps (usePoll_instance rc_poll inputs_poll) \<noteq> Some (usePoll_deps options_poll) \<longrightarrow>
        step (usePoll_commit rc_poll) (Render options_poll) (usePoll_instance rc_poll inputs_poll) =
          (case usePoll_effect rc_poll options_poll (run_cleanup (usePoll_instance rc_poll inputs_poll)) of
             (unsubscribe, b') \<Rightarrow>
               b'\<lparr>effect_cleanup := Some unsubscribe,
                  effect_deps := Some (usePoll_deps options_poll)\<rparr>) \<and>
        controllerRef (step (usePoll_commit rc_poll) (Render options_poll) (usePoll_instance rc_poll inputs_poll)) =
          Some (next_cid (usePoll_instance rc_poll inputs_poll)) \<and>
        c_poll < next_cid (usePoll_instance rc_poll inputs_poll)) \<and>
     controllerRef (useAnnouncements_instance rc_announcements inputs_announcements) = Some c_announcements \<and>
     effect_cleanup (useAnnouncements_instance rc_announcements inputs_announcements) = Some c_announcements \<and>
     controllerRef (run_cleanup (useAnnouncements_instance rc_announcements inputs_announcements)) = Some c_announcements \<and>
     trace (run_cleanup (useAnnouncements_instance rc_announcements inputs_announcements)) =
       trace (useAnnouncements_instance rc_announcements inputs_announcements) @ [Unsubscribe c_announcements] \<and>
     step (useAnnouncements_commit rc_announcements) Unmount (useAnnouncements_instance rc_announcements inputs_announcements) =
       (run_cleanup (useAnnouncements_instance rc_announcements inputs_announcements))\<lparr>unmounted := True\<rparr> \<and>
     (effect_deps (useAnnouncements_instance rc_announcements inputs_announcements) \<noteq> Some (useAnnouncements_deps options_announcements) \<longrightarrow>
        step (useAnnouncements_commit rc_announcements) (Render options_announcements) (useAnnouncements_instance rc_announcements inputs_announcements) =
          (case useAnnouncements_effect rc_announcements options_announcements (run_cleanup (useAnnouncements_instance rc_announcements inputs_announcements)) of
             (unsubscribe, b') \<Rightarrow>
               b'\<lparr>effect_cleanup := Some unsubscribe,
                  effect_deps := Some (useAnnouncements_deps options_announcements)\<rparr>) \<and>
        controllerRef (step (useAnnouncements_commit rc_announcements) (Render options_announcements) (useAnnouncements_instance rc_announcements inputs_announcements)) =
          Some (next_cid (useAnnouncements_instance rc_announcements inputs_announcements)) \<and>
        c_announcements < next_cid (useAnnouncements_instance rc_announcements inputs_announcements))"
  by (intro conjI
      useSubscribe_teardown [OF assms(1)]
      useForm_teardown [OF assms(2)]
      useReactions_teardown [OF assms(3)]
      useComments_teardown [OF assms(4)]
      useWaitlist_teardown [OF assms(5)]
      useViews_teardown [OF assms(6)]
      useFeedback_teardown [OF assms(7)]
      usePoll_teardown [OF assms(8)]
      useAnnouncements_teardown [OF assms(9)])

theorem teardown_deregisters_before_reference_changes_witness:
  "alive 0 (useSubscribe_instance (\<lambda>options. ()) [Render \<lparr>siteKey = Some ''key'', endpoint = None\<rparr>]) \<and>
   alive 0 (useForm_instance (\<lambda>options. ()) [Render \<lparr>siteKey = Some ''key'', endpoint = None, formSlug = ''contact''\<rparr>]) \<and>
   alive 0 (useReactions_instance (\<lambda>options. ()) [Render \<lparr>siteKey = Some ''key'', endpoint = None, autoFetch = None, contentId = ''my-post''\<rparr>]) \<and>
   alive 0 (useComments_instance (\<lambda>options. ()) [Render \<lparr>siteKey = Some ''key'', endpoint = None, autoFetch = Some True, contentId = ''my-post''\<rparr>]) \<and>
   alive 0 (useWaitlist_instance (\<lambda>options. ()) [Render \<lparr>siteKey = Some ''key'', endpoint = None\<rparr>]) \<and>
   alive 0 (useViews_instance (\<lambda>options. ()) \<lparr>siteKey = Some ''key'', endpoint = None, pageId = ''/blog'', autoRecord = None\<rparr> [Render \<lparr>siteKey = Some ''key'', endpoint = None, pageId = ''/blog'', autoRecord = None\<rparr>]) \<and>
   alive 0 (useFeedback_instance (\<lambda>options. ()) [Render \<lparr>siteKey = Some ''key'', endpoint = None\<rparr>]) \<and>
   alive 0 (usePoll_instance (\<lambda>options. ()) [Render \<lparr>siteKey = Some ''key'', endpoint = None, autoFetch = Some False, slug = ''favorite''\<rparr>]) \<and>
   alive 0 (useAnnouncements_instance (\<lambda>options. ()) [Render \<lparr>siteKey = Some ''key'', endpoint = None, autoFetch = None\<rparr>]) \<and>
   effect_deps (useSubscribe_instance (\<lambda>options. ()) [Render \<lparr>siteKey = Some ''key'', endpoint = None\<rparr>]) \<noteq> Some (useSubscribe_deps \<lparr>siteKey = Some ''other'', endpoint = None\<rparr>) \<and>
   trace (useSubscribe_instance (\<lambda>options. ()) [Render \<lparr>siteKey = Some ''key'', endpoint = None\<rparr>]) = [Construct 0 SubscribeController () None, Subscribe 0] \<and>
   next_cid (useSubscribe_instance (\<lambda>options. ()) [Render \<lparr>siteKey = Some ''key'', endpoint = None\<rparr>]) = 1 \<and>
   controllerRef (run_cleanup (useSubscribe_instance (\<lambda>options. ()) [Render \<lparr>siteKey = Some ''key'', endpoint = None\<rparr>])) = Some 0 \<and>
   trace (run_cleanup (useSubscribe_instance (\<lambda>options. ()) [Render \<lparr>siteKey = Some ''key'', endpoint = None\<rparr>])) =
     trace (useSubscribe_instance (\<lambda>options. ()) [Render \<lparr>siteKey = Some ''key'', endpoint = None\<rparr>]) @ [Unsubscribe 0] \<and>
   controllerRef (step (useSubscribe_commit (\<lambda>options. ())) (Render \<lparr>siteKey = Some ''other'', endpoint = None\<rparr>) (useSubscribe_instance (\<lambda>options. ()) [Render \<lparr>siteKey = Some ''key'', endpoint = None\<rparr>])) =
     Some (next_cid (useSubscribe_instance (\<lambda>options. ()) [Render \<lparr>siteKey = Some ''key'', endpoint = None\<rparr>])) \<and>
   step (usePoll_commit (\<lambda>options. ())) Unmount (usePoll_instance (\<lambda>options. ()) [Render \<lparr>siteKey = Some ''key'', endpoint = None, autoFetch = Some False, slug = ''favorite''\<rparr>]) =
     (run_cleanup (usePoll_instance (\<lambda>options. ()) [Render \<lparr>siteKey = Some ''key'', endpoint = None, autoFetch = Some False, slug = ''favorite''\<rparr>]))\<lparr>unmounted := True\<rparr> \<and>
   controllerRef (run_cleanup (usePoll_instance (\<lambda>options. ()) [Render \<lparr>siteKey = Some ''key'', endpoint = None, autoFetch = Some False, slug = ''favorite''\<rparr>])) = Some 0"
proof -
  have h1: "alive 0 (useSubscribe_instance (\<lambda>options. ()) [Render \<lparr>siteKey = Some ''key'', endpoint = None\<rparr>])"
    by (simp add: alive_def eval_defs)
  have h2: "alive 0 (useForm_instance (\<lambda>options. ()) [Render \<lparr>siteKey = Some ''key'', endpoint = None, formSlug = ''contact''\<rparr>])"
    by (simp add: alive_def eval_defs)
  have h3: "alive 0 (useReactions_instance (\<lambda>options. ()) [Render \<lparr>siteKey = Some ''key'', endpoint = None, autoFetch = None, contentId = ''my-post''\<rparr>])"
    by (simp add: alive_def eval_defs)
  have h4: "alive 0 (useComments_instance (\<lambda>options. ()) [Render \<lparr>siteKey = Some ''key'', endpoint = None, autoFetch = Some True, contentId = ''my-post''\<rparr>])"
    by (simp add: alive_def eval_defs)
  have h5: "alive 0 (useWaitlist_instance (\<lambda>options. ()) [Render \<lparr>siteKey = Some ''key'', endpoint = None\<rparr>])"
    by (simp add: alive_def eval_defs)
  have h6: "alive 0 (useViews_instance (\<lambda>options. ()) \<lparr>siteKey = Some ''key'', endpoint = None, pageId = ''/blog'', autoRecord = None\<rparr> [Render \<lparr>siteKey = Some ''key'', endpoint = None, pageId = ''/blog'', autoRecord = None\<rparr>])"
    by (simp add: alive_def eval_defs)
  have h7: "alive 0 (useFeedback_instance (\<lambda>options. ()) [Render \<lparr>siteKey = Some ''key'', endpoint = None\<rparr>])"
    by (simp add: alive_def eval_defs)
  have h8: "alive 0 (usePoll_instance (\<lambda>options. ()) [Render \<lparr>siteKey = Some ''key'', endpoint = None, autoFetch = Some False, slug = ''favorite''\<rparr>])"
    by (simp add: alive_def eval_defs)
  have h9: "alive 0 (useAnnouncements_instance (\<lambda>options. ()) [Render \<lparr>siteKey = Some ''key'', endpoint = None, autoFetch = None\<rparr>])"
    by (simp add: alive_def eval_defs)
  have d: "effect_deps (useSubscribe_instance (\<lambda>options. ()) [Render \<lparr>siteKey = Some ''key'', endpoint = None\<rparr>]) \<noteq> Some (useSubscribe_deps \<lparr>siteKey = Some ''other'', endpoint = None\<rparr>)"
    by (simp add: eval_defs)
  have e1: "trace (useSubscribe_instance (\<lambda>options. ()) [Render \<lparr>siteKey = Some ''key'', endpoint = None\<rparr>]) = [Construct 0 SubscribeController () None, Subscribe 0]"
    by (simp add: eval_defs)
  have e2: "next_cid (useSubscribe_instance (\<lambda>options. ()) [Render \<lparr>siteKey = Some ''key'', endpoint = None\<rparr>]) = 1"
    by (simp add: eval_defs)
  note t = teardown_deregisters_before_reference_changes [OF h1 h2 h3 h4 h5 h6 h7 h8 h9,
      where options_subscribe = "\<lparr>siteKey = Some ''other'', endpoint = None\<rparr>" and options_form = "\<lparr>siteKey = Some ''other'', endpoint = None, formSlug = ''contact''\<rparr>" and options_reactions = "\<lparr>siteKey = Some ''other'', endpoint = None, autoFetch = None, contentId = ''my-post''\<rparr>" and options_comments = "\<lparr>siteKey = Some ''other'', endpoint = None, autoFetch = Some True, contentId = ''my-post''\<rparr>" and options_waitlist = "\<lparr>siteKey = Some ''other'', endpoint = None\<rparr>" and options_views = "\<lparr>siteKey = Some ''other'', endpoint = None, pageId = ''/blog'', autoRecord = None\<rparr>" and options_feedback = "\<lparr>siteKey = Some ''other'', endpoint = None\<rparr>" and options_poll = "\<lparr>siteKey = Some ''other'', endpoint = None, autoFetch = Some False, slug = ''favorite''\<rparr>" and options_announcements = "\<lparr>siteKey = Some ''other'', endpoint = None, autoFetch = None\<rparr>"]
  have a1: "controllerRef (run_cleanup (useSubscribe_instance (\<lambda>options. ()) [Render \<lparr>siteKey = Some ''key'', endpoint = None\<rparr>])) = Some 0"
    using t by blast
  have a2: "trace (run_cleanup (useSubscribe_instance (\<lambda>options. ()) [Render \<lparr>siteKey = Some ''key'', endpoint = None\<rparr>])) =
     trace (useSubscribe_instance (\<lambda>options. ()) [Render \<lparr>siteKey = Some ''key'', endpoint = None\<rparr>]) @ [Unsubscribe 0]"
    using t by blast
  have a3: "controllerRef (step (useSubscribe_commit (\<lambda>options. ())) (Render \<lparr>siteKey = Some ''other'', endpoint = None\<rparr>) (useSubscribe_instance (\<lambda>options. ()) [Render \<lparr>siteKey = Some ''key'', endpoint = None\<rparr>])) =
     Some (next_cid (useSubscribe_instance (\<lambda>options. ()) [Render \<lparr>siteKey = Some ''key'', endpoint = None\<rparr>]))"
    using t d by blast
  have a4: "step (usePoll_commit (\<lambda>options. ())) Unmount (usePoll_instance (\<lambda>options. ()) [Render \<lparr>siteKey = Some ''key'', endpoint = None, autoFetch = Some False, slug = ''favorite''\<rparr>]) =
     (run_cleanup (usePoll_instance (\<lambda>options. ()) [Render \<lparr>siteKey = Some ''key'', endpoint = None, autoFetch = Some False, slug = ''favorite''\<rparr>]))\<lparr>unmounted := True\<rparr>"
    using t by blast
  have a5: "controllerRef (run_cleanup (usePoll_instance (\<lambda>options. ()) [Render \<lparr>siteKey = Some ''key'', endpoint = None, autoFetch = Some False, slug = ''favorite''\<rparr>])) = Some 0"
    using t by blast
  show ?thesis
    by (intro conjI h1 h2 h3 h4 h5 h6 h7 h8 h9 d e1 e2 a1 a2 a3 a4 a5)
qed

subsection \<open>Re-renders\<close>

lemma useEffect_deps: "effect_deps (useEffect effect deps b) = Some deps"
  by (simp add: useEffect_def split: prod.splits)

lemma useSubscribe_rerender:
  assumes "alive c (useSubscribe_instance resolveConfig inputs)"
    and "effect_deps (useSubscribe_instance resolveConfig inputs) = Some (useSubscribe_deps previous)"
  shows "(siteKey options \<noteq> siteKey previous \<or> endpoint options \<noteq> endpoint previous \<longrightarrow>
      trace (step (useSubscribe_commit resolveConfig) (Render options) (useSubscribe_instance resolveConfig inputs)) =
        trace (useSubscribe_instance resolveConfig inputs) @
        [Unsubscribe c, Construct (next_cid (useSubscribe_instance resolveConfig inputs)) SubscribeController (resolveConfig options) None,
         Subscribe (next_cid (useSubscribe_instance resolveConfig inputs))])"
    and "(siteKey options = siteKey previous \<and> endpoint options = endpoint previous \<longrightarrow>
      step (useSubscribe_commit resolveConfig) (Render options) (useSubscribe_instance resolveConfig inputs) = (useSubscribe_instance resolveConfig inputs))"
    and "effect_deps (step (useSubscribe_commit resolveConfig) (Render options) (useSubscribe_instance resolveConfig inputs)) = Some (useSubscribe_deps options)"
proof -
  note inv = useSubscribe_instance_inv [of resolveConfig inputs]
  note al = alive_controller [OF inv assms(1)]
  have render: "step (useSubscribe_commit resolveConfig) (Render options) (useSubscribe_instance resolveConfig inputs) =
      useSubscribe_commit resolveConfig options (useSubscribe_instance resolveConfig inputs)"
    using al(4) by (rule step_Render_mounted)
  show "(siteKey options \<noteq> siteKey previous \<or> endpoint options \<noteq> endpoint previous \<longrightarrow>
      trace (step (useSubscribe_commit resolveConfig) (Render options) (useSubscribe_instance resolveConfig inputs)) =
        trace (useSubscribe_instance resolveConfig inputs) @
        [Unsubscribe c, Construct (next_cid (useSubscribe_instance resolveConfig inputs)) SubscribeController (resolveConfig options) None,
         Subscribe (next_cid (useSubscribe_instance resolveConfig inputs))])"
  proof
    assume "siteKey options \<noteq> siteKey previous \<or> endpoint options \<noteq> endpoint previous"
    then have "effect_deps (useSubscribe_instance resolveConfig inputs) \<noteq> Some (useSubscribe_deps options)"
      using assms(2) by (auto simp: useSubscribe_deps_def)
    from useEffect_changed_alive(1) [OF inv assms(1) this]
    show "trace (step (useSubscribe_commit resolveConfig) (Render options) (useSubscribe_instance resolveConfig inputs)) =
      trace (useSubscribe_instance resolveConfig inputs) @
        [Unsubscribe c, Construct (next_cid (useSubscribe_instance resolveConfig inputs)) SubscribeController (resolveConfig options) None,
         Subscribe (next_cid (useSubscribe_instance resolveConfig inputs))]"
      by (simp add: render useSubscribe_commit_shape)
  qed
  show "(siteKey options = siteKey previous \<and> endpoint options = endpoint previous \<longrightarrow>
      step (useSubscribe_commit resolveConfig) (Render options) (useSubscribe_instance resolveConfig inputs) = (useSubscribe_instance resolveConfig inputs))"
    using assms(2) by (simp add: render useSubscribe_commit_def useSubscribe_deps_def useEffect_same)
  show "effect_deps (step (useSubscribe_commit resolveConfig) (Render options) (useSubscribe_instance resolveConfig inputs)) = Some (useSubscribe_deps options)"
    by (simp add: render useSubscribe_commit_def useEffect_deps)
qed

lemma useForm_rerender:
  assumes "alive c (useForm_instance resolveConfig inputs)"
    and "effect_deps (useForm_instance resolveConfig inputs) = Some (useForm_deps previous)"
  shows "(siteKey options \<noteq> siteKey previous \<or> endpoint options \<noteq> endpoint previous \<or> formSlug options \<noteq> formSlug previous \<longrightarrow>
      trace (step (useForm_commit resolveConfig) (Render options) (useForm_instance resolveConfig inputs)) =
        trace (useForm_instance resolveConfig inputs) @
        [Unsubscribe c, Construct (next_cid (useForm_instance resolveConfig inputs)) FormController (resolveConfig options) (Some (formSlug options)),
         Subscribe (next_cid (useForm_instance resolveConfig inputs))])"
    and "(siteKey options = siteKey previous \<and> endpoint options = endpoint previous \<and> formSlug options = formSlug previous \<longrightarrow>
      step (useForm_commit resolveConfig) (Render options) (useForm_instance resolveConfig inputs) = (useForm_instance resolveConfig inputs))"
    and "effect_deps (step (useForm_commit resolveConfig) (Render options) (useForm_instance resolveConfig inputs)) = Some (useForm_deps options)"
proof -
  note inv = useForm_instance_inv [of resolveConfig inputs]
  note al = alive_controller [OF inv assms(1)]
  have render: "step (useForm_commit resolveConfig) (Render options) (useForm_instance resolveConfig inputs) =
      useForm_commit resolveConfig options (useForm_instance resolveConfig inputs)"
    using al(4) by (rule step_Render_mounted)
  show "(siteKey options \<noteq> siteKey previous \<or> endpoint options \<noteq> endpoint previous \<or> formSlug options \<noteq> formSlug previous \<longrightarrow>
      trace (step (useForm_commit resolveConfig) (Render options) (useForm_instance resolveConfig inputs)) =
        trace (useForm_instance resolveConfig inputs) @
        [Unsubscribe c, Construct (next_cid (useForm_instance resolveConfig inputs)) FormController (resolveConfig options) (Some (formSlug options)),
         Subscribe (next_cid (useForm_instance resolveConfig inputs))])"
  proof
    assume "siteKey options \<noteq> siteKey previous \<or> endpoint options \<noteq> endpoint previous \<or> formSlug options \<noteq> formSlug previous"
    then have "effect_deps (useForm_instance resolveConfig inputs) \<noteq> Some (useForm_deps options)"
      using assms(2) by (auto simp: useForm_deps_def)
    from useEffect_changed_alive(1) [OF inv assms(1) this]
    show "trace (step (useForm_commit resolveConfig) (Render options) (useForm_instance resolveConfig inputs)) =
      trace (useForm_instance resolveConfig inputs) @
        [Unsubscribe c, Construct (next_cid (useForm_instance resolveConfig inputs)) FormController (resolveConfig options) (Some (formSlug options)),
         Subscribe (next_cid (useForm_instance resolveConfig inputs))]"
      by (simp add: render useForm_commit_shape)
  qed
  show "(siteKey options = siteKey previous \<and> endpoint options = endpoint previous \<and> formSlug options = formSlug previous \<longrightarrow>
      step (useForm_commit resolveConfig) (Render options) (useForm_instance resolveConfig inputs) = (useForm_instance resolveConfig inputs))"
    using assms(2) by (simp add: render useForm_commit_def useForm_deps_def useEffect_same)
  show "effect_deps (step (useForm_commit resolveConfig) (Render options) (useForm_instance resolveConfig inputs)) = Some (useForm_deps options)"
    by (simp add: render useForm_commit_def useEffect_deps)
qed

lemma useReactions_rerender:
  assumes "alive c (useReactions_instance resolveConfig inputs)"
    and "effect_deps (useReactions_instance resolveConfig inputs) = Some (useReactions_deps previous)"
  shows "(siteKey options \<noteq> siteKey previous \<or> endpoint options \<noteq> endpoint previous \<or> contentId options \<noteq> contentId previous \<longrightarrow>
      trace (step (useReactions_commit resolveConfig) (Render options) (useReactions_instance resolveConfig inputs)) =
        trace (useReactions_instance resolveConfig inputs) @
        [Unsubscribe c, Construct (next_cid (useReactions_instance resolveConfig inputs)) ReactionsController (resolveConfig options) (Some (contentId options)),
         Subscribe (next_cid (useReactions_instance resolveConfig inputs))] @
        (if autoFetch options \<noteq> Some False then [Invoke (next_cid (useReactions_instance resolveConfig inputs)) ReactionsController_fetch] else []))"
    and "(siteKey options = siteKey previous \<and> endpoint options = endpoint previous \<and> contentId options = contentId previous \<longrightarrow>
      step (useReactions_commit resolveConfig) (Render options) (useReactions_instance resolveConfig inputs) = (useReactions_instance resolveConfig inputs))"
    and "effect_deps (step (useReactions_commit resolveConfig) (Render options) (useReactions_instance resolveConfig inputs)) = Some (useReactions_deps options)"
proof -
  note inv = useReactions_instance_inv [of resolveConfig inputs]
  note al = alive_controller [OF inv assms(1)]
  have render: "step (useReactions_commit resolveConfig) (Render options) (useReactions_instance resolveConfig inputs) =
      useReactions_commit resolveConfig options (useReactions_instance resolveConfig inputs)"
    using al(4) by (rule step_Render_mounted)
  show "(siteKey options \<noteq> siteKey previous \<or> endpoint options \<noteq> endpoint previous \<or> contentId options \<noteq> contentId previous \<longrightarrow>
      trace (step (useReactions_commit resolveConfig) (Render options) (useReactions_instance resolveConfig inputs)) =
        trace (useReactions_instance resolveConfig inputs) @
        [Unsubscribe c, Construct (next_cid (useReactions_instance resolveConfig inputs)) ReactionsController (resolveConfig options) (Some (contentId options)),
         Subscribe (next_cid (useReactions_instance resolveConfig inputs))] @
        (if autoFetch options \<noteq> Some False then [Invoke (next_cid (useReactions_instance resolveConfig inputs)) ReactionsController_fetch] else []))"
  proof
    assume "siteKey options \<noteq> siteKey previous \<or> endpoint options \<noteq> endpoint previous \<or> contentId options \<noteq> contentId previous"
    then have "effect_deps (useReactions_instance resolveConfig inputs) \<noteq> Some (useReactions_deps options)"
      using assms(2) by (auto simp: useReactions_deps_def)
    from useEffect_changed_alive(1) [OF inv assms(1) this]
    show "trace (step (useReactions_commit resolveConfig) (Render options) (useReactions_instance resolveConfig inputs)) =
      trace (useReactions_instance resolveConfig inputs) @
        [Unsubscribe c, Construct (next_cid (useReactions_instance resolveConfig inputs)) ReactionsController (resolveConfig options) (Some (contentId options)),
         Subscribe (next_cid (useReactions_instance resolveConfig inputs))] @
        (if autoFetch options \<noteq> Some False then [Invoke (next_cid (useReactions_instance resolveConfig inputs)) ReactionsController_fetch] else [])"
      by (simp add: render useReactions_commit_shape)
  qed
  show "(siteKey options = siteKey previous \<and> endpoint options = endpoint previous \<and> contentId options = contentId previous \<longrightarrow>
      step (useReactions_commit resolveConfig) (Render options) (useReactions_instance resolveConfig inputs) = (useReactions_instance resolveConfig inputs))"
    using assms(2) by (simp add: render useReactions_commit_def useReactions_deps_def useEffect_same)
  show "effect_deps (step (useReactions_commit resolveConfig) (Render options) (useReactions_instance resolveConfig inputs)) = Some (useReactions_deps options)"
    by (simp add: render useReactions_commit_def useEffect_deps)
qed

lemma useComments_rerender:
  assumes "alive c (useComments_instance resolveConfig inputs)"
    and "effect_deps (useComments_instance resolveConfig inputs) = Some (useComments_deps previous)"
  shows "(siteKey options \<noteq> siteKey previous \<or> endpoint options \<noteq> endpoint previous \<or> contentId options \<noteq> contentId previous \<longrightarrow>
      trace (step (useComments_commit resolveConfig) (Render options) (useComments_instance resolveConfig inputs)) =
        trace (useComments_instance resolveConfig inputs) @
        [Unsubscribe c, Construct (next_cid (useComments_instance resolveConfig inputs)) CommentsController (resolveConfig options) (Some (contentId options)),
         Subscribe (next_cid (useComments_instance resolveConfig inputs))] @
        (if autoFetch options \<noteq> Some False then [Invoke (next_cid (useComments_instance resolveConfig inputs)) CommentsController_fetch] else []))"
    and "(siteKey options = siteKey previous \<and> endpoint options = endpoint previous \<and> contentId options = contentId previous \<longrightarrow>
      step (useComments_commit resolveConfig) (Render options) (useComments_instance resolveConfig inputs) = (useComments_instance resolveConfig inputs))"
    and "effect_deps (step (useComments_commit resolveConfig) (Render options) (useComments_instance resolveConfig inputs)) = Some (useComments_deps options)"
proof -
  note inv = useComments_instance_inv [of resolveConfig inputs]
  note al = alive_controller [OF inv assms(1)]
  have render: "step (useComments_commit resolveConfig) (Render options) (useComments_instance resolveConfig inputs) =
      useComments_commit resolveConfig options (useComments_instance resolveConfig inputs)"
    using al(4) by (rule step_Render_mounted)
  show "(siteKey options \<noteq> siteKey previous \<or> endpoint options \<noteq> endpoint previous \<or> contentId options \<noteq> contentId previous \<longrightarrow>
      trace (step (useComments_commit resolveConfig) (Render options) (useComments_instance resolveConfig inputs)) =
        trace (useComments_instance resolveConfig inputs) @
        [Unsubscribe c, Construct (next_cid (useComments_instance resolveConfig inputs)) CommentsController (resolveConfig options) (Some (contentId options)),
         Subscribe (next_cid (useComments_instance resolveConfig inputs))] @
        (if autoFetch options \<noteq> Some False then [Invoke (next_cid (useComments_instance resolveConfig inputs)) CommentsController_fetch] else []))"
  proof
    assume "siteKey options \<noteq> siteKey previous \<or> endpoint options \<noteq> endpoint previous \<or> contentId options \<noteq> contentId previous"
    then have "effect_deps (useComments_instance resolveConfig inputs) \<noteq> Some (useComments_deps options)"
      using assms(2) by (auto simp: useComments_deps_def)
    from useEffect_changed_alive(1) [OF inv assms(1) this]
    show "trace (step (useComments_commit resolveConfig) (Render options) (useComments_instance resolveConfig inputs)) =
      trace (useComments_instance resolveConfig inputs) @
        [Unsubscribe c, Construct (next_cid (useComments_instance resolveConfig inputs)) CommentsController (resolveConfig options) (Some (contentId options)),
         Subscribe (next_cid (useComments_instance resolveConfig inputs))] @
        (if autoFetch options \<noteq> Some False then [Invoke (next_cid (useComments_instance resolveConfig inputs)) CommentsController_fetch] else [])"
      by (simp add: render useComments_commit_shape)
  qed
  show "(siteKey options = siteKey previous \<and> endpoint options = endpoint previous \<and> contentId options = contentId previous \<longrightarrow>
      step (useComments_commit resolveConfig) (Render options) (useComments_instance resolveConfig inputs) = (useComments_instance resolveConfig inputs))"
    using assms(2) by (simp add: render useComments_commit_def useComments_deps_def useEffect_same)
  show "effect_deps (step (useComments_commit resolveConfig) (Render options) (useComments_instance resolveConfig inputs)) = Some (useComments_deps options)"
    by (simp add: render useComments_commit_def useEffect_deps)
qed

lemma useWaitlist_rerender:
  assumes "alive c (useWaitlist_instance resolveConfig inputs)"
    and "effect_deps (useWaitlist_instance resolveConfig inputs) = Some (useWaitlist_deps previous)"
  shows "(siteKey options \<noteq> siteKey previous \<or> endpoint options \<noteq> endpoint previous \<longrightarrow>
      trace (step (useWaitlist_commit resolveConfig) (Render options) (useWaitlist_instance resolveConfig inputs)) =
        trace (useWaitlist_instance resolveConfig inputs) @
        [Unsubscribe c, Construct (next_cid (useWaitlist_instance resolveConfig inputs)) WaitlistController (resolveConfig options) None,
         Subscribe (next_cid (useWaitlist_instance resolveConfig inputs))])"
    and "(siteKey options = siteKey previous \<and> endpoint options = endpoint previous \<longrightarrow>
      step (useWaitlist_commit resolveConfig) (Render options) (useWaitlist_instance resolveConfig inputs) = (useWaitlist_instance resolveConfig inputs))"
    and "effect_deps (step (useWaitlist_commit resolveConfig) (Render options) (useWaitlist_instance resolveConfig inputs)) = Some (useWaitlist_deps options)"
proof -
  note inv = useWaitlist_instance_inv [of resolveConfig inputs]
  note al = alive_controller [OF inv assms(1)]
  have render: "step (useWaitlist_commit resolveConfig) (Render options) (useWaitlist_instance resolveConfig inputs) =
      useWaitlist_commit resolveConfig options (useWaitlist_instance resolveConfig inputs)"
    using al(4) by (rule step_Render_mounted)
  show "(siteKey options \<noteq> siteKey previous \<or> endpoint options \<noteq> endpoint previous \<longrightarrow>
      trace (step (useWaitlist_commit resolveConfig) (Render options) (useWaitlist_instance resolveConfig inputs)) =
        trace (useWaitlist_instance resolveConfig inputs) @
        [Unsubscribe c, Construct (next_cid (useWaitlist_instance resolveConfig inputs)) WaitlistController (resolveConfig options) None,
         Subscribe (next_cid (useWaitlist_instance resolveConfig inputs))])"
  proof
    assume "siteKey options \<noteq> siteKey previous \<or> endpoint options \<noteq> endpoint previous"
    then have "effect_deps (useWaitlist_instance resolveConfig inputs) \<noteq> Some (useWaitlist_deps options)"
      using assms(2) by (auto simp: useWaitlist_deps_def)
    from useEffect_changed_alive(1) [OF inv assms(1) this]
    show "trace (step (useWaitlist_commit resolveConfig) (Render options) (useWaitlist_instance resolveConfig inputs)) =
      trace (useWaitlist_instance resolveConfig inputs) @
        [Unsubscribe c, Construct (next_cid (useWaitlist_instance resolveConfig inputs)) WaitlistController (resolveConfig options) None,
         Subscribe (next_cid (useWaitlist_instance resolveConfig inputs))]"
      by (simp add: render useWaitlist_commit_shape)
  qed
  show "(siteKey options = siteKey previous \<and> endpoint options = endpoint previous \<longrightarrow>
      step (useWaitlist_commit resolveConfig) (Render options) (useWaitlist_instance resolveConfig inputs) = (useWaitlist_instance resolveConfig inputs))"
    using assms(2) by (simp add: render useWaitlist_commit_def useWaitlist_deps_def useEffect_same)
  show "effect_deps (step (useWaitlist_commit resolveConfig) (Render options) (useWaitlist_instance resolveConfig inputs)) = Some (useWaitlist_deps options)"
    by (simp add: render useWaitlist_commit_def useEffect_deps)
qed

lemma useViews_rerender:
  assumes "alive c (useViews_instance resolveConfig first_options inputs)"
    and "effect_deps (useViews_instance resolveConfig first_options inputs) = Some (useViews_deps previous)"
  shows "(siteKey options \<noteq> siteKey previous \<or> endpoint options \<noteq> endpoint previous \<or> pageId options \<noteq> pageId previous \<longrightarrow>
      trace (step (useViews_commit resolveConfig) (Render options) (useViews_instance resolveConfig first_options inputs)) =
        trace (useViews_instance resolveConfig first_options inputs) @
        [Unsubscribe c, Construct (next_cid (useViews_instance resolveConfig first_options inputs)) ViewCountsController (resolveConfig options) (Some (pageId options)),
         Subscribe (next_cid (useViews_instance resolveConfig first_options inputs))] @
        (if autoRecord options \<noteq> Some False then [Invoke (next_cid (useViews_instance resolveConfig first_options inputs)) ViewCountsController_record] else []))"
    and "(siteKey options = siteKey previous \<and> endpoint options = endpoint previous \<and> pageId options = pageId previous \<longrightarrow>
      step (useViews_commit resolveConfig) (Render options) (useViews_instance resolveConfig first_options inputs) = (useViews_instance resolveConfig first_options inputs))"
    and "effect_deps (step (useViews_commit resolveConfig) (Render options) (useViews_instance resolveConfig first_options inputs)) = Some (useViews_deps options)"
proof -
  note inv = useViews_instance_inv [of resolveConfig first_options inputs]
  note al = alive_controller [OF inv assms(1)]
  have render: "step (useViews_commit resolveConfig) (Render options) (useViews_instance resolveConfig first_options inputs) =
      useViews_commit resolveConfig options (useViews_instance resolveConfig first_options inputs)"
    using al(4) by (rule step_Render_mounted)
  show "(siteKey options \<noteq> siteKey previous \<or> endpoint options \<noteq> endpoint previous \<or> pageId options \<noteq> pageId previous \<longrightarrow>
      trace (step (useViews_commit resolveConfig) (Render options) (useViews_instance resolveConfig first_options inputs)) =
        trace (useViews_instance resolveConfig first_options inputs) @
        [Unsubscribe c, Construct (next_cid (useViews_instance resolveConfig first_options inputs)) ViewCountsController (resolveConfig options) (Some (pageId options)),
         Subscribe (next_cid (useViews_instance resolveConfig first_options inputs))] @
        (if autoRecord options \<noteq> Some False then [Invoke (next_cid (useViews_instance resolveConfig first_options inputs)) ViewCountsController_record] else []))"
  proof
    assume "siteKey options \<noteq> siteKey previous \<or> endpoint options \<noteq> endpoint previous \<or> pageId options \<noteq> pageId previous"
    then have "effect_deps (useViews_instance resolveConfig first_options inputs) \<noteq> Some (useViews_deps options)"
      using assms(2) by (auto simp: useViews_deps_def)
    from useEffect_changed_alive(1) [OF inv assms(1) this]
    show "trace (step (useViews_commit resolveConfig) (Render options) (useViews_instance resolveConfig first_options inputs)) =
      trace (useViews_instance resolveConfig first_options inputs) @
        [Unsubscribe c, Construct (next_cid (useViews_instance resolveConfig first_options inputs)) ViewCountsController (resolveConfig options) (Some (pageId options)),
         Subscribe (next_cid (useViews_instance resolveConfig first_options inputs))] @
        (if autoRecord options \<noteq> Some False then [Invoke (next_cid (useViews_instance resolveConfig first_options inputs)) ViewCountsController_record] else [])"
      by (simp add: render useViews_commit_shape)
  qed
  show "(siteKey options = siteKey previous \<and> endpoint options = endpoint previous \<and> pageId options = pageId previous \<longrightarrow>
      step (useViews_commit resolveConfig) (Render options) (useViews_instance resolveConfig first_options inputs) = (useViews_instance resolveConfig first_options inputs))"
    using assms(2) by (simp add: render useViews_commit_def useViews_deps_def useEffect_same)
  show "effect_deps (step (useViews_commit resolveConfig) (Render options) (useViews_instance resolveConfig first_options inputs)) = Some (useViews_deps options)"
    by (simp add: render useViews_commit_def useEffect_deps)
qed

lemma useFeedback_rerender:
  assumes "alive c (useFeedback_instance resolveConfig inputs)"
    and "effect_deps (useFeedback_instance resolveConfig inputs) = Some (useFeedback_deps previous)"
  shows "(siteKey options \<noteq> siteKey previous \<or> endpoint options \<noteq> endpoint previous \<longrightarrow>
      trace (step (useFeedback_commit resolveConfig) (Render options) (useFeedback_instance resolveConfig inputs)) =
        trace (useFeedback_instance resolveConfig inputs) @
        [Unsubscribe c, Construct (next_cid (useFeedback_instance resolveConfig inputs)) FeedbackController (resolveConfig options) None,
         Subscribe (next_cid (useFeedback_instance resolveConfig inputs))])"
    and "(siteKey options = siteKey previous \<and> endpoint options = endpoint previous \<longrightarrow>
      step (useFeedback_commit resolveConfig) (Render options) (useFeedback_instance resolveConfig inputs) = (useFeedback_instance resolveConfig inputs))"
    and "effect_deps (step (useFeedback_commit resolveConfig) (Render options) (useFeedback_instance resolveConfig inputs)) = Some (useFeedback_deps options)"
proof -
  note inv = useFeedback_instance_inv [of resolveConfig inputs]
  note al = alive_controller [OF inv assms(1)]
  have render: "step (useFeedback_commit resolveConfig) (Render options) (useFeedback_instance resolveConfig inputs) =
      useFeedback_commit resolveConfig options (useFeedback_instance resolveConfig inputs)"
    using al(4) by (rule step_Render_mounted)
  show "(siteKey options \<noteq> siteKey previous \<or> endpoint options \<noteq> endpoint previous \<longrightarrow>
      trace (step (useFeedback_commit resolveConfig) (Render options) (useFeedback_instance resolveConfig inputs)) =
        trace (useFeedback_instance resolveConfig inputs) @
        [Unsubscribe c, Construct (next_cid (useFeedback_instance resolveConfig inputs)) FeedbackController (resolveConfig options) None,
         Subscribe (next_cid (useFeedback_instance resolveConfig inputs))])"
  proof
    assume "siteKey options \<noteq> siteKey previous \<or> endpoint options \<noteq> endpoint previous"
    then have "effect_deps (useFeedback_instance resolveConfig inputs) \<noteq> Some (useFeedback_deps options)"
      using assms(2) by (auto simp: useFeedback_deps_def)
    from useEffect_changed_alive(1) [OF inv assms(1) this]
    show "trace (step (useFeedback_commit resolveConfig) (Render options) (useFeedback_instance resolveConfig inputs)) =
      trace (useFeedback_instance resolveConfig inputs) @
        [Unsubscribe c, Construct (next_cid (useFeedback_instance resolveConfig inputs)) FeedbackController (resolveConfig options) None,
         Subscribe (next_cid (useFeedback_instance resolveConfig inputs))]"
      by (simp add: render useFeedback_commit_shape)
  qed
  show "(siteKey options = siteKey previous \<and> endpoint options = endpoint previous \<longrightarrow>
      step (useFeedback_commit resolveConfig) (Render options) (useFeedback_instance resolveConfig inputs) = (useFeedback_instance resolveConfig inputs))"
    using assms(2) by (simp add: render useFeedback_commit_def useFeedback_deps_def useEffect_same)
  show "effect_deps (step (useFeedback_commit resolveConfig) (Render options) (useFeedback_instance resolveConfig inputs)) = Some (useFeedback_deps options)"
    by (simp add: render useFeedback_commit_def useEffect_deps)
qed

lemma usePoll_rerender:
  assumes "alive c (usePoll_instance resolveConfig inputs)"
    and "effect_deps (usePoll_instance resolveConfig inputs) = Some (usePoll_deps previous)"
  shows "(siteKey options \<noteq> siteKey previous \<or> endpoint options \<noteq> endpoint previous \<or> slug options \<noteq> slug previous \<longrightarrow>
      trace (step (usePoll_commit resolveConfig) (Render options) (usePoll_instance resolveConfig inputs)) =
        trace (usePoll_instance resolveConfig inputs) @
        [Unsubscribe c, Construct (next_cid (usePoll_instance resolveConfig inputs)) PollController (resolveConfig options) (Some (slug options)),
         Subscribe (next_cid (usePoll_instance resolveConfig inputs))] @
        (if autoFetch options \<noteq> Some False then [Invoke (next_cid (usePoll_instance resolveConfig inputs)) PollController_fetch] else []))"
    and "(siteKey options = siteKey previous \<and> endpoint options = endpoint previous \<and> slug options = slug previous \<longrightarrow>
      step (usePoll_commit resolveConfig) (Render options) (usePoll_instance resolveConfig inputs) = (usePoll_instance resolveConfig inputs))"
    and "effect_deps (step (usePoll_commit resolveConfig) (Render options) (usePoll_instance resolveConfig inputs)) = Some (usePoll_deps options)"
proof -
  note inv = usePoll_instance_inv [of resolveConfig inputs]
  note al = alive_controller [OF inv assms(1)]
  have render: "step (usePoll_commit resolveConfig) (Render options) (usePoll_instance resolveConfig inputs) =
      usePoll_commit resolveConfig options (usePoll_instance resolveConfig inputs)"
    using al(4) by (rule step_Render_mounted)
  show "(siteKey options \<noteq> siteKey previous \<or> endpoint options \<noteq> endpoint previous \<or> slug options \<noteq> slug previous \<longrightarrow>
      trace (step (usePoll_commit resolveConfig) (Render options) (usePoll_instance resolveConfig inputs)) =
        trace (usePoll_instance resolveConfig inputs) @
        [Unsubscribe c, Construct (next_cid (usePoll_instance resolveConfig inputs)) PollController (resolveConfig options) (Some (slug options)),
         Subscribe (next_cid (usePoll_instance resolveConfig inputs))] @
        (if autoFetch options \<noteq> Some False then [Invoke (next_cid (usePoll_instance resolveConfig inputs)) PollController_fetch] else []))"
  proof
    assume "siteKey options \<noteq> siteKey previous \<or> endpoint options \<noteq> endpoint previous \<or> slug options \<noteq> slug previous"
    then have "effect_deps (usePoll_instance resolveConfig inputs) \<noteq> Some (usePoll_deps options)"
      using assms(2) by (auto simp: usePoll_deps_def)
    from useEffect_changed_alive(1) [OF inv assms(1) this]
    show "trace (step (usePoll_commit resolveConfig) (Render options) (usePoll_instance resolveConfig inputs)) =
      trace (usePoll_instance resolveConfig inputs) @
        [Unsubscribe c, Construct (next_cid (usePoll_instance resolveConfig inputs)) PollController (resolveConfig options) (Some (slug options)),
         Subscribe (next_cid (usePoll_instance resolveConfig inputs))] @
        (if autoFetch options \<noteq> Some False then [Invoke (next_cid (usePoll_instance resolveConfig inputs)) PollController_fetch] else [])"
      by (simp add: render usePoll_commit_shape)
  qed
  show "(siteKey options = siteKey previous \<and> endpoint options = endpoint previous \<and> slug options = slug previous \<longrightarrow>
      step (usePoll_commit resolveConfig) (Render options) (usePoll_instance resolveConfig inputs) = (usePoll_instance resolveConfig inputs))"
    using assms(2) by (simp add: render usePoll_commit_def usePoll_deps_def useEffect_same)
  show "effect_deps (step (usePoll_commit resolveConfig) (Render options) (usePoll_instance resolveConfig inputs)) = Some (usePoll_deps options)"
    by (simp add: render usePoll_commit_def useEffect_deps)
qed

lemma useAnnouncements_rerender:
  assumes "alive c (useAnnouncements_instance resolveConfig inputs)"
    and "effect_deps (useAnnouncements_instance resolveConfig inputs) = Some (useAnnouncements_deps previous)"
  shows "(siteKey options \<noteq> siteKey previous \<or> endpoint options \<noteq> endpoint previous \<longrightarrow>
      trace (step (useAnnouncements_commit resolveConfig) (Render options) (useAnnouncements_instance resolveConfig inputs)) =
        trace (useAnnouncements_instance resolveConfig inputs) @
        [Unsubscribe c, Construct (next_cid (useAnnouncements_instance resolveConfig inputs)) AnnouncementsController (resolveConfig options) None,
         Subscribe (next_cid (useAnnouncements_instance resolveConfig inputs))] @
        (if autoFetch options \<noteq> Some False then [Invoke (next_cid (useAnnouncements_instance resolveConfig inputs)) AnnouncementsController_fetch] else []))"
    and "(siteKey options = siteKey previous \<and> endpoint options = endpoint previous \<longrightarrow>
      step (useAnnouncements_commit resolveConfig) (Render options) (useAnnouncements_instance resolveConfig inputs) = (useAnnouncements_instance resolveConfig inputs))"
    and "effect_deps (step (useAnnouncements_commit resolveConfig) (Render options) (useAnnouncements_instance resolveConfig inputs)) = Some (useAnnouncements_deps options)"
proof -
  note inv = useAnnouncements_instance_inv [of resolveConfig inputs]
  note al = alive_controller [OF inv assms(1)]
  have render: "step (useAnnouncements_commit resolveConfig) (Render options) (useAnnouncements_instance resolveConfig inputs) =
      useAnnouncements_commit resolveConfig options (useAnnouncements_instance resolveConfig inputs)"
    using al(4) by (rule step_Render_mounted)
  show "(siteKey options \<noteq> siteKey previous \<or> endpoint options \<noteq> endpoint previous \<longrightarrow>
      trace (step (useAnnouncements_commit resolveConfig) (Render options) (useAnnouncements_instance resolveConfig inputs)) =
        trace (useAnnouncements_instance resolveConfig inputs) @
        [Unsubscribe c, Construct (next_cid (useAnnouncements_instance resolveConfig inputs)) AnnouncementsController (resolveConfig options) None,
         Subscribe (next_cid (useAnnouncements_instance resolveConfig inputs))] @
        (if autoFetch options \<noteq> Some False then [Invoke (next_cid (useAnnouncements_instance resolveConfig inputs)) AnnouncementsController_fetch] else []))"
  proof
    assume "siteKey options \<noteq> siteKey previous \<or> endpoint options \<noteq> endpoint previous"
    then have "effect_deps (useAnnouncements_instance resolveConfig inputs) \<noteq> Some (useAnnouncements_deps options)"
      using assms(2) by (auto simp: useAnnouncements_deps_def)
    from useEffect_changed_alive(1) [OF inv assms(1) this]
    show "trace (step (useAnnouncements_commit resolveConfig) (Render options) (useAnnouncements_instance resolveConfig inputs)) =
      trace (useAnnouncements_instance resolveConfig inputs) @
        [Unsubscribe c, Construct (next_cid (useAnnouncements_instance resolveConfig inputs)) AnnouncementsController (resolveConfig options) None,
         Subscribe (next_cid (useAnnouncements_instance resolveConfig inputs))] @
        (if autoFetch options \<noteq> Some False then [Invoke (next_cid (useAnnouncements_instance resolveConfig inputs)) AnnouncementsController_fetch] else [])"
      by (simp add: render useAnnouncements_commit_shape)
  qed
  show "(siteKey options = siteKey previous \<and> endpoint options = endpoint previous \<longrightarrow>
      step (useAnnouncements_commit resolveConfig) (Render options) (useAnnouncements_instance resolveConfig inputs) = (useAnnouncements_instance resolveConfig inputs))"
    using assms(2) by (simp add: render useAnnouncements_commit_def useAnnouncements_deps_def useEffect_same)
  show "effect_deps (step (useAnnouncements_commit resolveConfig) (Render options) (useAnnouncements_instance resolveConfig inputs)) = Some (useAnnouncements_deps options)"
    by (simp add: render useAnnouncements_commit_def useEffect_deps)
qed

text \<open>
  Claim C5. For each of the nine hooks, take a re-render of an instance whose
  controller is alive and whose previous render had the options \<open>previous\<close>.
  If the site key, the endpoint or (where the hook has one) the feature
  identifier differs from the previous render, the re-render tears the old
  controller down exactly once and then constructs exactly one new controller,
  from the new options (followed by its registration and, where enabled, its
  automatic read). If all of them are unchanged, the re-render leaves the
  instance as it is, whatever else has changed in the options: no teardown, no
  construction. Either way the tuple of this render is the one the next
  re-render is compared with.
\<close>

theorem rerender_reconstructs_iff_tuple_changed:
  assumes "alive c_subscribe (useSubscribe_instance rc_subscribe inputs_subscribe)"
    and "effect_deps (useSubscribe_instance rc_subscribe inputs_subscribe) =
       Some (useSubscribe_deps previous_subscribe)"
    and "alive c_form (useForm_instance rc_form inputs_form)"
    and "effect_deps (useForm_instance rc_form inputs_form) =
       Some (useForm_deps previous_form)"
    and "alive c_reactions (useReactions_instance rc_reactions inputs_reactions)"
    and "effect_deps (useReactions_instance rc_reactions inputs_reactions) =
       Some (useReactions_deps previous_reactions)"
    and "alive c_comments (useComments_instance rc_comments inputs_comments)"
    and "effect_deps (useComments_instance rc_comments inputs_comments) =
       Some (useComments_deps previous_comments)"
    and "alive c_waitlist (useWaitlist_instance rc_waitlist inputs_waitlist)"
    and "effect_deps (useWaitlist_instance rc_waitlist inputs_waitlist) =
       Some (useWaitlist_deps previous_waitlist)"
    and "alive c_views (useViews_instance rc_views first_options inputs_views)"
    and "effect_deps (useViews_instance rc_views first_options inputs_views) =
       Some (useViews_deps previous_views)"
    and "alive c_feedback (useFeedback_instance rc_feedback inputs_feedback)"
    and "effect_deps (useFeedback_instance rc_feedback inputs_feedback) =
       Some (useFeedback_deps previous_feedback)"
    and "alive c_poll (usePoll_instance rc_poll inputs_poll)"
    and "effect_deps (usePoll_instance rc_poll inputs_poll) =
       Some (usePoll_deps previous_poll)"
    and "alive c_announcements (useAnnouncements_instance rc_announcements inputs_announcements)"
    and "effect_deps (useAnnouncements_instance rc_announcements inputs_announcements) =
       Some (useAnnouncements_deps previous_announcements)"
  shows
    "(siteKey options_subscribe \<noteq> siteKey previous_subscribe \<or> endpoint options_subscribe \<noteq> endpoint previous_subscribe \<longrightarrow>
         trace (step (useSubscribe_commit rc_subscribe) (Render options_subscribe) (useSubscribe_instance rc_subscribe inputs_subscribe)) =
           trace (useSubscribe_instance rc_subscribe inputs_subscribe) @
           [Unsubscribe c_subscribe, Construct (next_cid (useSubscribe_instance rc_subscribe inputs_subscribe)) SubscribeController (rc_subscribe options_subscribe) None,
            Subscribe (next_cid (useSubscribe_instance rc_subscribe inputs_subscribe))]) \<and>
     (siteKey options_subscribe = siteKey previous_subscribe \<and> endpoint options_subscribe = endpoint previous_subscribe \<longrightarrow>
         step (useSubscribe_commit rc_subscribe) (Render options_subscribe) (useSubscribe_instance rc_subscribe inputs_subscribe) = (useSubscribe_instance rc_subscribe inputs_subscribe)) \<and>
     effect_deps (step (useSubscribe_commit rc_subscribe) (Render options_subscribe) (useSubscribe_instance rc_subscribe inputs_subscribe)) = Some (useSubscribe_deps options_subscribe) \<and>
     (siteKey options_form \<noteq> siteKey previous_form \<or> endpoint options_form \<noteq> endpoint previous_form \<or> formSlug options_form \<noteq> formSlug previous_form \<longrightarrow>
         trace (step (useForm_commit rc_form) (Render options_form) (useForm_instance rc_form inputs_form)) =
           trace (useForm_instance rc_form inputs_form) @
           [Unsubscribe c_form, Construct (next_cid (useForm_instance rc_form inputs_form)) FormController (rc_form options_form) (Some (formSlug options_form)),
            Subscribe (next_cid (useForm_instance rc_form inputs_form))]) \<and>
     (siteKey options_form = siteKey previous_form \<and> endpoint options_form = endpoint previous_form \<and> formSlug options_form = formSlug previous_form \<longrightarrow>
         step (useForm_commit rc_form) (Render options_form) (useForm_instance rc_form inputs_form) = (useForm_instance rc_form inputs_form)) \<and>
     effect_deps (step (useForm_commit rc_form) (Render options_form) (useForm_instance rc_form inputs_form)) = Some (useForm_deps options_form) \<and>
     (siteKey options_reactions \<noteq> siteKey previous_reactions \<or> endpoint options_reactions \<noteq> endpoint previous_reactions \<or> contentId options_reactions \<noteq> contentId previous_reactions \<longrightarrow>
         trace (step (useReactions_commit rc_reactions) (Render options_reactions) (useReactions_instance rc_reactions inputs_reactions)) =
           trace (useReactions_instance rc_reactions inputs_reactions) @
           [Unsubscribe c_reactions, Construct (next_cid (useReactions_instance rc_reactions inputs_reactions)) ReactionsController (rc_reactions options_reactions) (Some (contentId options_reactions)),
            Subscribe (next_cid (useReactions_instance rc_reactions inputs_reactions))] @
           (if autoFetch options_reactions \<noteq> Some False then [Invoke (next_cid (useReactions_instance rc_reactions inputs_reactions)) ReactionsController_fetch] else [])) \<and>
     (siteKey options_reactions = siteKey previous_reactions \<and> endpoint options_reactions = endpoint previous_reactions \<and> contentId options_reactions = contentId previous_reactions \<longrightarrow>
         step (useReactions_commit rc_reactions) (Render options_reactions) (useReactions_instance rc_reactions inputs_reactions) = (useReactions_instance rc_reactions inputs_reactions)) \<and>
     effect_deps (step (useReactions_commit rc_reactions) (Render options_reactions) (useReactions_instance rc_reactions inputs_reactions)) = Some (useReactions_deps options_reactions) \<and>
     (siteKey options_comments \<noteq> siteKey previous_comments \<or> endpoint options_comments \<noteq> endpoint previous_comments \<or> contentId options_comments \<noteq> contentId previous_comments \<longrightarrow>
         trace (step (useComments_commit rc_comments) (Render options_comments) (useComments_instance rc_comments inputs_comments)) =
           trace (useComments_instance rc_comments inputs_comments) @
           [Unsubscribe c_comments, Construct (next_cid (useComments_instance rc_comments inputs_comments)) CommentsController (rc_comments options_comments) (Some (contentId options_comments)),
            Subscribe (next_cid (useComments_instance rc_comments inputs_comments))] @
           (if autoFetch options_comments \<noteq> Some False then [Invoke (next_cid (useComments_instance rc_comments inputs_comments)) CommentsController_fetch] else [])) \<and>
     (siteKey options_comments = siteKey previous_comments \<and> endpoint options_comments = endpoint previous_comments \<and> contentId options_comments = contentId previous_comments \<longrightarrow>
         step (useComments_commit rc_comments) (Render options_comments) (useComments_instance rc_comments inputs_comments) = (useComments_instance rc_comments inputs_comments)) \<and>
     effect_deps (step (useComments_commit rc_comments) (Render options_comments) (useComments_instance rc_comments inputs_comments)) = Some (useComments_deps options_comments) \<and>
     (siteKey options_waitlist \<noteq> siteKey previous_waitlist \<or> endpoint options_waitlist \<noteq> endpoint previous_waitlist \<longrightarrow>
         trace (step (useWaitlist_commit rc_waitlist) (Render options_waitlist) (useWaitlist_instance rc_waitlist inputs_waitlist)) =
           trace (useWaitlist_instance rc_waitlist inputs_waitlist) @
           [Unsubscribe c_waitlist, Construct (next_cid (useWaitlist_instance rc_waitlist inputs_waitlist)) WaitlistController (rc_waitlist options_waitlist) None,
            Subscribe (next_cid (useWaitlist_instance rc_waitlist inputs_waitlist))]) \<and>
     (siteKey options_waitlist = siteKey previous_waitlist \<and> endpoint options_waitlist = endpoint previous_waitlist \<longrightarrow>
         step (useWaitlist_commit rc_waitlist) (Render options_waitlist) (useWaitlist_instance rc_waitlist inputs_waitlist) = (useWaitlist_instance rc_waitlist inputs_waitlist)) \<and>
     effect_deps (step (useWaitlist_commit rc_waitlist) (Render options_waitlist) (useWaitlist_instance rc_waitlist inputs_waitlist)) = Some (useWaitlist_deps options_waitlist) \<and>
     (siteKey options_views \<noteq> siteKey previous_views \<or> endpoint options_views \<noteq> endpoint previous_views \<or> pageId options_views \<noteq> pageId previous_views \<longrightarrow>
         trace (step (useViews_commit rc_views) (Render options_views) (useViews_instance rc_views first_options inputs_views)) =
           trace (useViews_instance rc_views first_options inputs_views) @
           [Unsubscribe c_views, Construct (next_cid (useViews_instance rc_views first_options inputs_views)) ViewCountsController (rc_views options_views) (Some (pageId options_views)),
            Subscribe (next_cid (useViews_instance rc_views first_options inputs_views))] @
           (if autoRecord options_views \<noteq> Some False then [Invoke (next_cid (useViews_instance rc_views first_options inputs_views)) ViewCountsController_record] else [])) \<and>
     (siteKey options_views = siteKey previous_views \<and> endpoint options_views = endpoint previous_views \<and> pageId options_views = pageId previous_views \<longrightarrow>
         step (useViews_commit rc_views) (Render options_views) (useViews_instance rc_views first_options inputs_views) = (useViews_instance rc_views first_options inputs_views)) \<and>
     effect_deps (step (useViews_commit rc_views) (Render options_views) (useViews_instance rc_views first_options inputs_views)) = Some (useViews_deps options_views) \<and>
     (siteKey options_feedback \<noteq> siteKey previous_feedback \<or> endpoint options_feedback \<noteq> endpoint previous_feedback \<longrightarrow>
         trace (step (useFeedback_commit rc_feedback) (Render options_feedback) (useFeedback_instance rc_feedback inputs_feedback)) =
           trace (useFeedback_instance rc_feedback inputs_feedback) @
           [Unsubscribe c_feedback, Construct (next_cid (useFeedback_instance rc_feedback inputs_feedback)) FeedbackController (rc_feedback options_feedback) None,
            Subscribe (next_cid (useFeedback_instance rc_feedback inputs_feedback))]) \<and>
     (siteKey options_feedback = siteKey previous_feedback \<and> endpoint options_feedback = endpoint previous_feedback \<longrightarrow>
         step (useFeedback_commit rc_feedback) (Render options_feedback) (useFeedback_instance rc_feedback inputs_feedback) = (useFeedback_instance rc_feedback inputs_feedback)) \<and>
     effect_deps (step (useFeedback_commit rc_feedback) (Render options_feedback) (useFeedback_instance rc_feedback inputs_feedback)) = Some (useFeedback_deps options_feedback) \<and>
     (siteKey options_poll \<noteq> siteKey previous_poll \<or> endpoint options_poll \<noteq> endpoint previous_poll \<or> slug options_poll \<noteq> slug previous_poll \<longrightarrow>
         trace (step (usePoll_commit rc_poll) (Render options_poll) (usePoll_instance rc_poll inputs_poll)) =
           trace (usePoll_instance rc_poll inputs_poll) @
           [Unsubscribe c_poll, Construct (next_cid (usePoll_instance rc_poll inputs_poll)) PollController (rc_poll options_poll) (Some (slug options_poll)),
            Subscribe (next_cid (usePoll_instance rc_poll inputs_poll))] @
           (if autoFetch options_poll \<noteq> Some False then [Invoke (next_cid (usePoll_instance rc_poll inputs_poll)) PollController_fetch] else [])) \<and>
     (siteKey options_poll = siteKey previous_poll \<and> endpoint options_poll = endpoint previous_poll \<and> slug options_poll = slug previous_poll \<longrightarrow>
         step (usePoll_commit rc_poll) (Render options_poll) (usePoll_instance rc_poll inputs_poll) = (usePoll_instance rc_poll inputs_poll)) \<and>
     effect_deps (step (usePoll_commit rc_poll) (Render options_poll) (usePoll_instance rc_poll inputs_poll)) = Some (usePoll_deps options_poll) \<and>
     (siteKey options_announcements \<noteq> siteKey previous_announcements \<or> endpoint options_announcements \<noteq> endpoint previous_announcements \<longrightarrow>
         trace (step (useAnnouncements_commit rc_announcements) (Render options_announcements) (useAnnouncements_instance rc_announcements inputs_announcements)) =
           trace (useAnnouncements_instance rc_announcements inputs_announcements) @
           [Unsubscribe c_announcements, Construct (next_cid (useAnnouncements_instance rc_announcements inputs_announcements)) AnnouncementsController (rc_announcements options_announcements) None,
            Subscribe (next_cid (useAnnouncements_instance rc_announcements inputs_announcements))] @
           (if autoFetch options_announcements \<noteq> Some False then [Invoke (next_cid (useAnnouncements_instance rc_announcements inputs_announcements)) AnnouncementsController_fetch] else [])) \<and>
     (siteKey options_announcements = siteKey previous_announcements \<and> endpoint options_announcements = endpoint previous_announcements \<longrightarrow>
         step (useAnnouncements_commit rc_announcements) (Render options_announcements) (useAnnouncements_instance rc_announcements inputs_announcements) = (useAnnouncements_instance rc_announcements inputs_announcements)) \<and>
     effect_deps (step (useAnnouncements_commit rc_announcements) (Render options_announcements) (useAnnouncements_instance rc_announcements inputs_announcements)) = Some (useAnnouncements_deps options_announcements)"
  by (intro conjI
      useSubscribe_rerender [OF assms(1) assms(2)]
      useForm_rerender [OF assms(3) assms(4)]
      useReactions_rerender [OF assms(5) assms(6)]
      useComments_rerender [OF assms(7) assms(8)]
      useWaitlist_rerender [OF assms(9) assms(10)]
      useViews_rerender [OF assms(11) assms(12)]
      useFeedback_rerender [OF assms(13) assms(14)]
      usePoll_rerender [OF assms(15) assms(16)]
      useAnnouncements_rerender [OF assms(17) assms(18)])

theorem rerender_reconstructs_iff_tuple_changed_witness:
  "alive 0 (useSubscribe_instance (\<lambda>options. ()) [Render \<lparr>siteKey = Some ''key'', endpoint = None\<rparr>]) \<and>
   effect_deps (useSubscribe_instance (\<lambda>options. ()) [Render \<lparr>siteKey = Some ''key'', endpoint = None\<rparr>]) =
     Some (useSubscribe_deps \<lparr>siteKey = Some ''key'', endpoint = None\<rparr>) \<and>
   alive 0 (useForm_instance (\<lambda>options. ()) [Render \<lparr>siteKey = Some ''key'', endpoint = None, formSlug = ''contact''\<rparr>]) \<and>
   effect_deps (useForm_instance (\<lambda>options. ()) [Render \<lparr>siteKey = Some ''key'', endpoint = None, formSlug = ''contact''\<rparr>]) =
     Some (useForm_deps \<lparr>siteKey = Some ''key'', endpoint = None, formSlug = ''contact''\<rparr>) \<and>
   alive 0 (useReactions_instance (\<lambda>options. ()) [Render \<lparr>siteKey = Some ''key'', endpoint = None, autoFetch = None, contentId = ''my-post''\<rparr>]) \<and>
   effect_deps (useReactions_instance (\<lambda>options. ()) [Render \<lparr>siteKey = Some ''key'', endpoint = None, autoFetch = None, contentId = ''my-post''\<rparr>]) =
     Some (useReactions_deps \<lparr>siteKey = Some ''key'', endpoint = None, autoFetch = None, contentId = ''my-post''\<rparr>) \<and>
   alive 0 (useComments_instance (\<lambda>options. ()) [Render \<lparr>siteKey = Some ''key'', endpoint = None, autoFetch = Some True, contentId = ''my-post''\<rparr>]) \<and>
   effect_deps (useComments_instance (\<lambda>options. ()) [Render \<lparr>siteKey = Some ''key'', endpoint = None, autoFetch = Some True, contentId = ''my-post''\<rparr>]) =
     Some (useComments_deps \<lparr>siteKey = Some ''key'', endpoint = None, autoFetch = Some True, contentId = ''my-post''\<rparr>) \<and>
   alive 0 (useWaitlist_instance (\<lambda>options. ()) [Render \<lparr>siteKey = Some ''key'', endpoint = None\<rparr>]) \<and>
   effect_deps (useWaitlist_instance (\<lambda>options. ()) [Render \<lparr>siteKey = Some ''key'', endpoint = None\<rparr>]) =
     Some (useWaitlist_deps \<lparr>siteKey = Some ''key'', endpoint = None\<rparr>) \<and>
   alive 0 (useViews_instance (\<lambda>options. ()) \<lparr>siteKey = Some ''key'', endpoint = None, pageId = ''/blog'', autoRecord = None\<rparr> [Render \<lparr>siteKey = Some ''key'', endpoint = None, pageId = ''/blog'', autoRecord = None\<rparr>]) \<and>
   effect_deps (useViews_instance (\<lambda>options. ()) \<lparr>siteKey = Some ''key'', endpoint = None, pageId = ''/blog'', autoRecord = None\<rparr> [Render \<lparr>siteKey = Some ''key'', endpoint = None, pageId = ''/blog'', autoRecord = None\<rparr>]) =
     Some (useViews_deps \<lparr>siteKey = Some ''key'', endpoint = None, pageId = ''/blog'', autoRecord = None\<rparr>) \<and>
   alive 0 (useFeedback_instance (\<lambda>options. ()) [Render \<lparr>siteKey = Some ''key'', endpoint = None\<rparr>]) \<and>
   effect_deps (useFeedback_instance (\<lambda>options. ()) [Render \<lparr>siteKey = Some ''key'', endpoint = None\<rparr>]) =
     Some (useFeedback_deps \<lparr>siteKey = Some ''key'', endpoint = None\<rparr>) \<and>
   alive 0 (usePoll_instance (\<lambda>options. ()) [Render \<lparr>siteKey = Some ''key'', endpoint = None, autoFetch = Some False, slug = ''favorite''\<rparr>]) \<and>
   effect_deps (usePoll_instance (\<lambda>options. ()) [Render \<lparr>siteKey = Some ''key'', endpoint = None, autoFetch = Some False, slug = ''favorite''\<rparr>]) =
     Some (usePoll_deps \<lparr>siteKey = Some ''key'', endpoint = None, autoFetch = Some False, slug = ''favorite''\<rparr>) \<and>
   alive 0 (useAnnouncements_instance (\<lambda>options. ()) [Render \<lparr>siteKey = Some ''key'', endpoint = None, autoFetch = None\<rparr>]) \<and>
   effect_deps (useAnnouncements_instance (\<lambda>options. ()) [Render \<lparr>siteKey = Some ''key'', endpoint = None, autoFetch = None\<rparr>]) =
     Some (useAnnouncements_deps \<lparr>siteKey = Some ''key'', endpoint = None, autoFetch = None\<rparr>) \<and>
   siteKey \<lparr>siteKey = Some ''other'', endpoint = None, autoFetch = None, contentId = ''my-post''\<rparr> \<noteq> siteKey \<lparr>siteKey = Some ''key'', endpoint = None, autoFetch = None, contentId = ''my-post''\<rparr> \<and>
   siteKey \<lparr>siteKey = Some ''key'', endpoint = None, autoFetch = Some False, contentId = ''my-post''\<rparr> = siteKey \<lparr>siteKey = Some ''key'', endpoint = None, autoFetch = Some True, contentId = ''my-post''\<rparr> \<and>
   endpoint \<lparr>siteKey = Some ''key'', endpoint = None, autoFetch = Some False, contentId = ''my-post''\<rparr> = endpoint \<lparr>siteKey = Some ''key'', endpoint = None, autoFetch = Some True, contentId = ''my-post''\<rparr> \<and>
   contentId \<lparr>siteKey = Some ''key'', endpoint = None, autoFetch = Some False, contentId = ''my-post''\<rparr> = contentId \<lparr>siteKey = Some ''key'', endpoint = None, autoFetch = Some True, contentId = ''my-post''\<rparr> \<and>
   trace (useReactions_instance (\<lambda>options. ()) [Render \<lparr>siteKey = Some ''key'', endpoint = None, autoFetch = None, contentId = ''my-post''\<rparr>]) =
     [Construct 0 ReactionsController () (Some ''my-post''), Subscribe 0,
      Invoke 0 ReactionsController_fetch] \<and>
   next_cid (useReactions_instance (\<lambda>options. ()) [Render \<lparr>siteKey = Some ''key'', endpoint = None, autoFetch = None, contentId = ''my-post''\<rparr>]) = 1 \<and>
   trace (step (useReactions_commit (\<lambda>options. ())) (Render \<lparr>siteKey = Some ''other'', endpoint = None, autoFetch = None, contentId = ''my-post''\<rparr>) (useReactions_instance (\<lambda>options. ()) [Render \<lparr>siteKey = Some ''key'', endpoint = None, autoFetch = None, contentId = ''my-post''\<rparr>])) =
       trace (useReactions_instance (\<lambda>options. ()) [Render \<lparr>siteKey = Some ''key'', endpoint = None, autoFetch = None, contentId = ''my-post''\<rparr>]) @
       [Unsubscribe 0, Construct (next_cid (useReactions_instance (\<lambda>options. ()) [Render \<lparr>siteKey = Some ''key'', endpoint = None, autoFetch = None, contentId = ''my-post''\<rparr>])) ReactionsController ((\<lambda>options. ()) \<lparr>siteKey = Some ''other'', endpoint = None, autoFetch = None, contentId = ''my-post''\<rparr>) (Some (contentId \<lparr>siteKey = Some ''other'', endpoint = None, autoFetch = None, contentId = ''my-post''\<rparr>)),
        Subscribe (next_cid (useReactions_instance (\<lambda>options. ()) [Render \<lparr>siteKey = Some ''key'', endpoint = None, autoFetch = None, contentId = ''my-post''\<rparr>]))] @
       (if autoFetch \<lparr>siteKey = Some ''other'', endpoint = None, autoFetch = None, contentId = ''my-post''\<rparr> \<noteq> Some False then [Invoke (next_cid (useReactions_instance (\<lambda>options. ()) [Render \<lparr>siteKey = Some ''key'', endpoint = None, autoFetch = None, contentId = ''my-post''\<rparr>])) ReactionsController_fetch] else []) \<and>
   step (useComments_commit (\<lambda>options. ())) (Render \<lparr>siteKey = Some ''key'', endpoint = None, autoFetch = Some False, contentId = ''my-post''\<rparr>) (useComments_instance (\<lambda>options. ()) [Render \<lparr>siteKey = Some ''key'', endpoint = None, autoFetch = Some True, contentId = ''my-post''\<rparr>]) = (useComments_instance (\<lambda>options. ()) [Render \<lparr>siteKey = Some ''key'', endpoint = None, autoFetch = Some True, contentId = ''my-post''\<rparr>])"
proof -
  have h1: "alive 0 (useSubscribe_instance (\<lambda>options. ()) [Render \<lparr>siteKey = Some ''key'', endpoint = None\<rparr>])"
    by (simp add: alive_def eval_defs)
  have h2: "effect_deps (useSubscribe_instance (\<lambda>options. ()) [Render \<lparr>siteKey = Some ''key'', endpoint = None\<rparr>]) =
     Some (useSubscribe_deps \<lparr>siteKey = Some ''key'', endpoint = None\<rparr>)"
    by (simp add: eval_defs)
  have h3: "alive 0 (useForm_instance (\<lambda>options. ()) [Render \<lparr>siteKey = Some ''key'', endpoint = None, formSlug = ''contact''\<rparr>])"
    by (simp add: alive_def eval_defs)
  have h4: "effect_deps (useForm_instance (\<lambda>options. ()) [Render \<lparr>siteKey = Some ''key'', endpoint = None, formSlug = ''contact''\<rparr>]) =
     Some (useForm_deps \<lparr>siteKey = Some ''key'', endpoint = None, formSlug = ''contact''\<rparr>)"
    by (simp add: eval_defs)
  have h5: "alive 0 (useReactions_instance (\<lambda>options. ()) [Render \<lparr>siteKey = Some ''key'', endpoint = None, autoFetch = None, contentId = ''my-post''\<rparr>])"
    by (simp add: alive_def eval_defs)
  have h6: "effect_deps (useReactions_instance (\<lambda>options. ()) [Render \<lparr>siteKey = Some ''key'', endpoint = None, autoFetch = None, contentId = ''my-post''\<rparr>]) =
     Some (useReactions_deps \<lparr>siteKey = Some ''key'', endpoint = None, autoFetch = None, contentId = ''my-post''\<rparr>)"
    by (simp add: eval_defs)
  have h7: "alive 0 (useComments_instance (\<lambda>options. ()) [Render \<lparr>siteKey = Some ''key'', endpoint = None, autoFetch = Some True, contentId = ''my-post''\<rparr>])"
    by (simp add: alive_def eval_defs)
  have h8: "effect_deps (useComments_instance (\<lambda>options. ()) [Render \<lparr>siteKey = Some ''key'', endpoint = None, autoFetch = Some True, contentId = ''my-post''\<rparr>]) =
     Some (useComments_deps \<lparr>siteKey = Some ''key'', endpoint = None, autoFetch = Some True, contentId = ''my-post''\<rparr>)"
    by (simp add: eval_defs)
  have h9: "alive 0 (useWaitlist_instance (\<lambda>options. ()) [Render \<lparr>siteKey = Some ''key'', endpoint = None\<rparr>])"
    by (simp add: alive_def eval_defs)
  have h10: "effect_deps (useWaitlist_instance (\<lambda>options. ()) [Render \<lparr>siteKey = Some ''key'', endpoint = None\<rparr>]) =
     Some (useWaitlist_deps \<lparr>siteKey = Some ''key'', endpoint = None\<rparr>)"
    by (simp add: eval_defs)
  have h11: "alive 0 (useViews_instance (\<lambda>options. ()) \<lparr>siteKey = Some ''key'', endpoint = None, pageId = ''/blog'', autoRecord = None\<rparr> [Render \<lparr>siteKey = Some ''key'', endpoint = None, pageId = ''/blog'', autoRecord = None\<rparr>])"
    by (simp add: alive_def eval_defs)
  have h12: "effect_deps (useViews_instance (\<lambda>options. ()) \<lparr>siteKey = Some ''key'', endpoint = None, pageId = ''/blog'', autoRecord = None\<rparr> [Render \<lparr>siteKey = Some ''key'', endpoint = None, pageId = ''/blog'', autoRecord = None\<rparr>]) =
     Some (useViews_deps \<lparr>siteKey = Some ''key'', endpoint = None, pageId = ''/blog'', autoRecord = None\<rparr>)"
    by (simp add: eval_defs)
  have h13: "alive 0 (useFeedback_instance (\<lambda>options. ()) [Render \<lparr>siteKey = Some ''key'', endpoint = None\<rparr>])"
    by (simp add: alive_def eval_defs)
  have h14: "effect_deps (useFeedback_instance (\<lambda>options. ()) [Render \<lparr>siteKey = Some ''key'', endpoint = None\<rparr>]) =
     Some (useFeedback_deps \<lparr>siteKey = Some ''key'', endpoint = None\<rparr>)"
    by (simp add: eval_defs)
  have h15: "alive 0 (usePoll_instance (\<lambda>options. ()) [Render \<lparr>siteKey = Some ''key'', endpoint = None, autoFetch = Some False, slug = ''favorite''\<rparr>])"
    by (simp add: alive_def eval_defs)
  have h16: "effect_deps (usePoll_instance (\<lambda>options. ()) [Render \<lparr>siteKey = Some ''key'', endpoint = None, autoFetch = Some False, slug = ''favorite''\<rparr>]) =
     Some (usePoll_deps \<lparr>siteKey = Some ''key'', endpoint = None, autoFetch = Some False, slug = ''favorite''\<rparr>)"
    by (simp add: eval_defs)
  have h17: "alive 0 (useAnnouncements_instance (\<lambda>options. ()) [Render \<lparr>siteKey = Some ''key'', endpoint = None, autoFetch = None\<rparr>])"
    by (simp add: alive_def eval_defs)
  have h18: "effect_deps (useAnnouncements_instance (\<lambda>options. ()) [Render \<lparr>siteKey = Some ''key'', endpoint = None, autoFetch = None\<rparr>]) =
     Some (useAnnouncements_deps \<lparr>siteKey = Some ''key'', endpoint = None, autoFetch = None\<rparr>)"
    by (simp add: eval_defs)
  have d1: "siteKey \<lparr>siteKey = Some ''other'', endpoint = None, autoFetch = None, contentId = ''my-post''\<rparr> \<noteq> siteKey \<lparr>siteKey = Some ''key'', endpoint = None, autoFetch = None, contentId = ''my-post''\<rparr>"
    by (simp)
  have d2: "siteKey \<lparr>siteKey = Some ''key'', endpoint = None, autoFetch = Some False, contentId = ''my-post''\<rparr> = siteKey \<lparr>siteKey = Some ''key'', endpoint = None, autoFetch = Some True, contentId = ''my-post''\<rparr>"
    by (simp)
  have d3: "endpoint \<lparr>siteKey = Some ''key'', endpoint = None, autoFetch = Some False, contentId = ''my-post''\<rparr> = endpoint \<lparr>siteKey = Some ''key'', endpoint = None, autoFetch = Some True, contentId = ''my-post''\<rparr>"
    by (simp)
  have d4: "contentId \<lparr>siteKey = Some ''key'', endpoint = None, autoFetch = Some False, contentId = ''my-post''\<rparr> = contentId \<lparr>siteKey = Some ''key'', endpoint = None, autoFetch = Some True, contentId = ''my-post''\<rparr>"
    by (simp)
  have e1: "trace (useReactions_instance (\<lambda>options. ()) [Render \<lparr>siteKey = Some ''key'', endpoint = None, autoFetch = None, contentId = ''my-post''\<rparr>]) =
     [Construct 0 ReactionsController () (Some ''my-post''), Subscribe 0,
      Invoke 0 ReactionsController_fetch]"
    by (simp add: eval_defs)
  have e2: "next_cid (useReactions_instance (\<lambda>options. ()) [Render \<lparr>siteKey = Some ''key'', endpoint = None, autoFetch = None, contentId = ''my-post''\<rparr>]) = 1"
    by (simp add: eval_defs)
  note t = rerender_reconstructs_iff_tuple_changed
      [OF h1 h2 h3 h4 h5 h6 h7 h8 h9 h10 h11 h12 h13 h14 h15 h16 h17 h18,
       where options_subscribe = "\<lparr>siteKey = Some ''other'', endpoint = None\<rparr>" and options_form = "\<lparr>siteKey = Some ''other'', endpoint = None, formSlug = ''contact''\<rparr>" and options_reactions = "\<lparr>siteKey = Some ''other'', endpoint = None, autoFetch = None, contentId = ''my-post''\<rparr>" and options_comments = "\<lparr>siteKey = Some ''key'', endpoint = None, autoFetch = Some False, contentId = ''my-post''\<rparr>" and options_waitlist = "\<lparr>siteKey = Some ''other'', endpoint = None\<rparr>" and options_views = "\<lparr>siteKey = Some ''other'', endpoint = None, pageId = ''/blog'', autoRecord = None\<rparr>" and options_feedback = "\<lparr>siteKey = Some ''other'', endpoint = None\<rparr>" and options_poll = "\<lparr>siteKey = Some ''other'', endpoint = None, autoFetch = Some False, slug = ''favorite''\<rparr>" and options_announcements = "\<lparr>siteKey = Some ''other'', endpoint = None, autoFetch = None\<rparr>"]
  have a1: "trace (step (useReactions_commit (\<lambda>options. ())) (Render \<lparr>siteKey = Some ''other'', endpoint = None, autoFetch = None, contentId = ''my-post''\<rparr>) (useReactions_instance (\<lambda>options. ()) [Render \<lparr>siteKey = Some ''key'', endpoint = None, autoFetch = None, contentId = ''my-post''\<rparr>])) =
       trace (useReactions_instance (\<lambda>options. ()) [Render \<lparr>siteKey = Some ''key'', endpoint = None, autoFetch = None, contentId = ''my-post''\<rparr>]) @
       [Unsubscribe 0, Construct (next_cid (useReactions_instance (\<lambda>options. ()) [Render \<lparr>siteKey = Some ''key'', endpoint = None, autoFetch = None, contentId = ''my-post''\<rparr>])) ReactionsController ((\<lambda>options. ()) \<lparr>siteKey = Some ''other'', endpoint = None, autoFetch = None, contentId = ''my-post''\<rparr>) (Some (contentId \<lparr>siteKey = Some ''other'', endpoint = None, autoFetch = None, contentId = ''my-post''\<rparr>)),
        Subscribe (next_cid (useReactions_instance (\<lambda>options. ()) [Render \<lparr>siteKey = Some ''key'', endpoint = None, autoFetch = None, contentId = ''my-post''\<rparr>]))] @
       (if autoFetch \<lparr>siteKey = Some ''other'', endpoint = None, autoFetch = None, contentId = ''my-post''\<rparr> \<noteq> Some False then [Invoke (next_cid (useReactions_instance (\<lambda>options. ()) [Render \<lparr>siteKey = Some ''key'', endpoint = None, autoFetch = None, contentId = ''my-post''\<rparr>])) ReactionsController_fetch] else [])"
    using t d1 by blast
  have a2: "step (useComments_commit (\<lambda>options. ())) (Render \<lparr>siteKey = Some ''key'', endpoint = None, autoFetch = Some False, contentId = ''my-post''\<rparr>) (useComments_instance (\<lambda>options. ()) [Render \<lparr>siteKey = Some ''key'', endpoint = None, autoFetch = Some True, contentId = ''my-post''\<rparr>]) = (useComments_instance (\<lambda>options. ()) [Render \<lparr>siteKey = Some ''key'', endpoint = None, autoFetch = Some True, contentId = ''my-post''\<rparr>])"
    using t d2 d3 d4 by blast
  show ?thesis
    by (intro conjI h1 h2 h3 h4 h5 h6 h7 h8 h9 h10 h11 h12 h13 h14 h15 h16 h17 h18 d1 d2 d3 d4 e1 e2 a1 a2)
qed

section \<open>The derived values of usePoll and useAnnouncements\<close>

lemma useEffect_changed_alive_new:
  assumes "bridge_inv b" and "alive c b" and "effect_deps b \<noteq> Some deps"
  shows "alive (next_cid b) (useEffect (bridge_effect k config ident auto) deps b)"
    and "\<not> alive c (useEffect (bridge_effect k config ident auto) deps b)"
proof -
  note tr = useEffect_changed_alive(1) [OF assms, of k config ident auto]
  have old: "Unsubscribe (next_cid b) \<notin> set (trace b)"
    using assms(1) by (auto simp: bridge_inv_def)
  have lt: "c < next_cid b" using assms(1,2) by (rule alive_controller)
  show "alive (next_cid b) (useEffect (bridge_effect k config ident auto) deps b)"
    using old lt by (auto simp: alive_def tr split: option.splits)
  show "\<not> alive c (useEffect (bridge_effect k config ident auto) deps b)"
    by (simp add: alive_def tr)
qed

text \<open>
  Claim C6 as stated fails. At its first call usePoll computes \<^verbatim>\<open>hasVoted\<close>
  while the reference is still \<^verbatim>\<open>null\<close>, so the consumer receives
  \<^verbatim>\<open>false\<close>; the effect of that call then constructs controller 0, which is alive
  from then on, and setting the reference causes no new render. With a controller
  whose \<^verbatim>\<open>hasVoted()\<close> answers true (\<open>top\<close> answers true for every controller;
  \<^verbatim>\<open>autoFetch\<close> is false, so no read is started) the value the consumer holds
  differs from the answer of the alive controller.
\<close>

theorem hasVoted_stale_after_first_call:
  "alive 0
     (snd (usePoll id top
        \<lparr>siteKey = Some ''key'', endpoint = None, autoFetch = Some False, slug = ''favorite''\<rparr>
        (usePoll_instance id []))) \<and>
   hasVoted
     (fst (usePoll id top
        \<lparr>siteKey = Some ''key'', endpoint = None, autoFetch = Some False, slug = ''favorite''\<rparr>
        (usePoll_instance id []))) \<noteq> (top :: cid \<Rightarrow> bool) 0"
  by (simp add: usePoll_def usePoll_return_def alive_def eval_defs)

text \<open>
  Claim C6, amended. \<^verbatim>\<open>hasVoted\<close> of usePoll and the \<^verbatim>\<open>announcements\<close> of
  useAnnouncements are computed anew by the body of the hook at every call, not
  read from the mirrored state. At a call at which a controller is alive they
  equal what the query of that controller (\<^verbatim>\<open>hasVoted()\<close>,
  \<^verbatim>\<open>getVisibleAnnouncements()\<close>) answers at that moment; at the first call, when
  no controller has been constructed yet, they are \<^verbatim>\<open>false\<close> and the empty list.
  The effect runs after the value has been computed: the first call leaves
  controller 0 alive, and a call whose configuration tuple has changed leaves a
  new controller alive and the old one torn down, while the value returned is
  the one computed before. The consumer holds it until the next call.
\<close>

theorem derived_values_computed_at_hook_call:
  assumes "alive c_poll (usePoll_instance rc_poll inputs_poll)"
    and "alive c_announcements
           (useAnnouncements_instance rc_announcements inputs_announcements)"
  shows
    "hasVoted (fst (usePoll rc_poll PollController_hasVoted options_poll (usePoll_instance rc_poll inputs_poll))) = PollController_hasVoted c_poll \<and>
     snd (usePoll rc_poll PollController_hasVoted options_poll (usePoll_instance rc_poll inputs_poll)) =
       usePoll_instance rc_poll (inputs_poll @ [Render options_poll]) \<and>
     (effect_deps (usePoll_instance rc_poll inputs_poll) \<noteq> Some (usePoll_deps options_poll) \<longrightarrow>
        alive (next_cid (usePoll_instance rc_poll inputs_poll)) (snd (usePoll rc_poll PollController_hasVoted options_poll (usePoll_instance rc_poll inputs_poll))) \<and>
        \<not> alive c_poll (snd (usePoll rc_poll PollController_hasVoted options_poll (usePoll_instance rc_poll inputs_poll)))) \<and>
     hasVoted (fst (usePoll rc_poll PollController_hasVoted first_poll (usePoll_instance rc_poll []))) = False \<and>
     alive 0 (snd (usePoll rc_poll PollController_hasVoted first_poll (usePoll_instance rc_poll []))) \<and>
     announcements (fst (useAnnouncements rc_announcements getVisibleAnnouncements options_announcements (useAnnouncements_instance rc_announcements inputs_announcements))) = getVisibleAnnouncements c_announcements \<and>
     snd (useAnnouncements rc_announcements getVisibleAnnouncements options_announcements (useAnnouncements_instance rc_announcements inputs_announcements)) =
       useAnnouncements_instance rc_announcements (inputs_announcements @ [Render options_announcements]) \<and>
     (effect_deps (useAnnouncements_instance rc_announcements inputs_announcements) \<noteq> Some (useAnnouncements_deps options_announcements) \<longrightarrow>
        alive (next_cid (useAnnouncements_instance rc_announcements inputs_announcements)) (snd (useAnnouncements rc_announcements getVisibleAnnouncements options_announcements (useAnnouncements_instance rc_announcements inputs_announcements))) \<and>
        \<not> alive c_announcements (snd (useAnnouncements rc_announcements getVisibleAnnouncements options_announcements (useAnnouncements_instance rc_announcements inputs_announcements)))) \<and>
     announcements (fst (useAnnouncements rc_announcements getVisibleAnnouncements first_announcements (useAnnouncements_instance rc_announcements []))) = [] \<and>
     alive 0 (snd (useAnnouncements rc_announcements getVisibleAnnouncements first_announcements (useAnnouncements_instance rc_announcements [])))"
proof -
  note inv_poll = usePoll_instance_inv [of rc_poll inputs_poll]
  note al_poll = alive_controller [OF inv_poll assms(1)]
  have poll1: "hasVoted (fst (usePoll rc_poll PollController_hasVoted options_poll (usePoll_instance rc_poll inputs_poll))) = PollController_hasVoted c_poll"
    using al_poll(2) by (simp add: usePoll_def usePoll_return_def)
  have poll2: "snd (usePoll rc_poll PollController_hasVoted options_poll (usePoll_instance rc_poll inputs_poll)) =
       usePoll_instance rc_poll (inputs_poll @ [Render options_poll])"
    by (simp add: usePoll_def usePoll_instance_snoc)
  have poll3: "(effect_deps (usePoll_instance rc_poll inputs_poll) \<noteq> Some (usePoll_deps options_poll) \<longrightarrow>
        alive (next_cid (usePoll_instance rc_poll inputs_poll)) (snd (usePoll rc_poll PollController_hasVoted options_poll (usePoll_instance rc_poll inputs_poll))) \<and>
        \<not> alive c_poll (snd (usePoll rc_poll PollController_hasVoted options_poll (usePoll_instance rc_poll inputs_poll))))"
  proof
    assume changed: "effect_deps (usePoll_instance rc_poll inputs_poll) \<noteq> Some (usePoll_deps options_poll)"
    have "step (usePoll_commit rc_poll) (Render options_poll) (usePoll_instance rc_poll inputs_poll) =
        useEffect (bridge_effect PollController (rc_poll options_poll) (Some (slug options_poll))
          (if autoFetch options_poll \<noteq> Some False then Some PollController_fetch else None)) (usePoll_deps options_poll) (usePoll_instance rc_poll inputs_poll)"
      using al_poll(4) by (simp add: step_def usePoll_commit_shape)
    with useEffect_changed_alive_new [OF inv_poll assms(1) changed]
    show "alive (next_cid (usePoll_instance rc_poll inputs_poll)) (snd (usePoll rc_poll PollController_hasVoted options_poll (usePoll_instance rc_poll inputs_poll))) \<and>
        \<not> alive c_poll (snd (usePoll rc_poll PollController_hasVoted options_poll (usePoll_instance rc_poll inputs_poll)))"
      by (simp add: usePoll_def)
  qed
  have poll4: "hasVoted (fst (usePoll rc_poll PollController_hasVoted first_poll (usePoll_instance rc_poll []))) = False"
    by (simp add: usePoll_def usePoll_return_def usePoll_instance_def run_Nil mount_def)
  have poll5: "alive 0 (snd (usePoll rc_poll PollController_hasVoted first_poll (usePoll_instance rc_poll [])))"
    by (simp add: usePoll_def alive_def usePoll_instance_def run_Nil step_def usePoll_commit_shape
        useEffect_def bridge_effect_def run_cleanup_def mount_def)
  note inv_announcements = useAnnouncements_instance_inv [of rc_announcements inputs_announcements]
  note al_announcements = alive_controller [OF inv_announcements assms(2)]
  have announcements1: "announcements (fst (useAnnouncements rc_announcements getVisibleAnnouncements options_announcements (useAnnouncements_instance rc_announcements inputs_announcements))) = getVisibleAnnouncements c_announcements"
    using al_announcements(2) by (simp add: useAnnouncements_def useAnnouncements_return_def)
  have announcements2: "snd (useAnnouncements rc_announcements getVisibleAnnouncements options_announcements (useAnnouncements_instance rc_announcements inputs_announcements)) =
       useAnnouncements_instance rc_announcements (inputs_announcements @ [Render options_announcements])"
    by (simp add: useAnnouncements_def useAnnouncements_instance_snoc)
  have announcements3: "(effect_deps (useAnnouncements_instance rc_announcements inputs_announcements) \<noteq> Some (useAnnouncements_deps options_announcements) \<longrightarrow>
        alive (next_cid (useAnnouncements_instance rc_announcements inputs_announcements)) (snd (useAnnouncements rc_announcements getVisibleAnnouncements options_announcements (useAnnouncements_instance rc_announcements inputs_announcements))) \<and>
        \<not> alive c_announcements (snd (useAnnouncements rc_announcements getVisibleAnnouncements options_announcements (useAnnouncements_instance rc_announcements inputs_announcements))))"
  proof
    assume changed: "effect_deps (useAnnouncements_instance rc_announcements inputs_announcements) \<noteq> Some (useAnnouncements_deps options_announcements)"
    have "step (useAnnouncements_commit rc_announcements) (Render options_announcements) (useAnnouncements_instance rc_announcements inputs_announcements) =
        useEffect (bridge_effect AnnouncementsController (rc_announcements options_announcements) None
          (if autoFetch options_announcements \<noteq> Some False then Some AnnouncementsController_fetch else None)) (useAnnouncements_deps options_announcements) (useAnnouncements_instance rc_announcements inputs_announcements)"
      using al_announcements(4) by (simp add: step_def useAnnouncements_commit_shape)
    with useEffect_changed_alive_new [OF inv_announcements assms(2) changed]
    show "alive (next_cid (useAnnouncements_instance rc_announcements inputs_announcements)) (snd (useAnnouncements rc_announcements getVisibleAnnouncements options_announcements (useAnnouncements_instance rc_announcements inputs_announcements))) \<and>
        \<not> alive c_announcements (snd (useAnnouncements rc_announcements getVisibleAnnouncements options_announcements (useAnnouncements_instance rc_announcements inputs_announcements)))"
      by (simp add: useAnnouncements_def)
  qed
  have announcements4: "announcements (fst (useAnnouncements rc_announcements getVisibleAnnouncements first_announcements (useAnnouncements_instance rc_announcements []))) = []"
    by (simp add: useAnnouncements_def useAnnouncements_return_def useAnnouncements_instance_def run_Nil mount_def)
  have announcements5: "alive 0 (snd (useAnnouncements rc_announcements getVisibleAnnouncements first_announcements (useAnnouncements_instance rc_announcements [])))"
    by (simp add: useAnnouncements_def alive_def useAnnouncements_instance_def run_Nil step_def useAnnouncements_commit_shape
        useEffect_def bridge_effect_def run_cleanup_def mount_def)
  show ?thesis
    by (intro conjI poll1 poll2 poll3 poll4 poll5
        announcements1 announcements2 announcements3 announcements4 announcements5)
qed

theorem derived_values_computed_at_hook_call_witness:
  "\<forall>a.
     alive 0 (usePoll_instance (\<lambda>options. ()) [Render \<lparr>siteKey = Some ''key'', endpoint = None, autoFetch = Some False, slug = ''favorite''\<rparr>, Emit 0 \<lparr>status = status_success, error = None, poll = None\<rparr>]) \<and>
     alive 1 (useAnnouncements_instance (\<lambda>options. ()) [Render \<lparr>siteKey = Some ''key'', endpoint = None, autoFetch = None\<rparr>, Render \<lparr>siteKey = Some ''other'', endpoint = None, autoFetch = None\<rparr>]) \<and>
     effect_deps (usePoll_instance (\<lambda>options. ()) [Render \<lparr>siteKey = Some ''key'', endpoint = None, autoFetch = Some False, slug = ''favorite''\<rparr>, Emit 0 \<lparr>status = status_success, error = None, poll = None\<rparr>]) \<noteq> Some (usePoll_deps \<lparr>siteKey = Some ''other'', endpoint = None, autoFetch = Some False, slug = ''favorite''\<rparr>) \<and>
     next_cid (usePoll_instance (\<lambda>options. ()) [Render \<lparr>siteKey = Some ''key'', endpoint = None, autoFetch = Some False, slug = ''favorite''\<rparr>, Emit 0 \<lparr>status = status_success, error = None, poll = None\<rparr>]) = 1 \<and>
     hasVoted (fst (usePoll (\<lambda>options. ()) (\<lambda>c. c = 0) \<lparr>siteKey = Some ''other'', endpoint = None, autoFetch = Some False, slug = ''favorite''\<rparr> (usePoll_instance (\<lambda>options. ()) [Render \<lparr>siteKey = Some ''key'', endpoint = None, autoFetch = Some False, slug = ''favorite''\<rparr>, Emit 0 \<lparr>status = status_success, error = None, poll = None\<rparr>]))) = True \<and>
     alive (next_cid (usePoll_instance (\<lambda>options. ()) [Render \<lparr>siteKey = Some ''key'', endpoint = None, autoFetch = Some False, slug = ''favorite''\<rparr>, Emit 0 \<lparr>status = status_success, error = None, poll = None\<rparr>])) (snd (usePoll (\<lambda>options. ()) (\<lambda>c. c = 0) \<lparr>siteKey = Some ''other'', endpoint = None, autoFetch = Some False, slug = ''favorite''\<rparr> (usePoll_instance (\<lambda>options. ()) [Render \<lparr>siteKey = Some ''key'', endpoint = None, autoFetch = Some False, slug = ''favorite''\<rparr>, Emit 0 \<lparr>status = status_success, error = None, poll = None\<rparr>]))) \<and>
     \<not> alive 0 (snd (usePoll (\<lambda>options. ()) (\<lambda>c. c = 0) \<lparr>siteKey = Some ''other'', endpoint = None, autoFetch = Some False, slug = ''favorite''\<rparr> (usePoll_instance (\<lambda>options. ()) [Render \<lparr>siteKey = Some ''key'', endpoint = None, autoFetch = Some False, slug = ''favorite''\<rparr>, Emit 0 \<lparr>status = status_success, error = None, poll = None\<rparr>]))) \<and>
     announcements (fst (useAnnouncements (\<lambda>options. ()) (\<lambda>c. if c = 1 then [a] else []) \<lparr>siteKey = Some ''other'', endpoint = None, autoFetch = None\<rparr> (useAnnouncements_instance (\<lambda>options. ()) [Render \<lparr>siteKey = Some ''key'', endpoint = None, autoFetch = None\<rparr>, Render \<lparr>siteKey = Some ''other'', endpoint = None, autoFetch = None\<rparr>]))) = [a]"
proof (intro allI)
  fix a :: Announcement
  have h1: "alive 0 (usePoll_instance (\<lambda>options. ()) [Render \<lparr>siteKey = Some ''key'', endpoint = None, autoFetch = Some False, slug = ''favorite''\<rparr>, Emit 0 \<lparr>status = status_success, error = None, poll = None\<rparr>])"
    by (simp add: alive_def eval_defs)
  have h2: "alive 1 (useAnnouncements_instance (\<lambda>options. ()) [Render \<lparr>siteKey = Some ''key'', endpoint = None, autoFetch = None\<rparr>, Render \<lparr>siteKey = Some ''other'', endpoint = None, autoFetch = None\<rparr>])"
    by (simp add: alive_def eval_defs)
  have d: "effect_deps (usePoll_instance (\<lambda>options. ()) [Render \<lparr>siteKey = Some ''key'', endpoint = None, autoFetch = Some False, slug = ''favorite''\<rparr>, Emit 0 \<lparr>status = status_success, error = None, poll = None\<rparr>]) \<noteq> Some (usePoll_deps \<lparr>siteKey = Some ''other'', endpoint = None, autoFetch = Some False, slug = ''favorite''\<rparr>)"
    by (simp add: eval_defs)
  have e: "next_cid (usePoll_instance (\<lambda>options. ()) [Render \<lparr>siteKey = Some ''key'', endpoint = None, autoFetch = Some False, slug = ''favorite''\<rparr>, Emit 0 \<lparr>status = status_success, error = None, poll = None\<rparr>]) = 1"
    by (simp add: eval_defs)
  note t = derived_values_computed_at_hook_call [OF h1 h2,
      where PollController_hasVoted = "(\<lambda>c. c = 0)" and options_poll = "\<lparr>siteKey = Some ''other'', endpoint = None, autoFetch = Some False, slug = ''favorite''\<rparr>"
        and getVisibleAnnouncements = "(\<lambda>c. if c = 1 then [a] else [])" and options_announcements = "\<lparr>siteKey = Some ''other'', endpoint = None, autoFetch = None\<rparr>"
        and first_poll = "\<lparr>siteKey = Some ''key'', endpoint = None, autoFetch = Some False, slug = ''favorite''\<rparr>" and first_announcements = "\<lparr>siteKey = Some ''key'', endpoint = None, autoFetch = None\<rparr>"]
  have a1: "hasVoted (fst (usePoll (\<lambda>options. ()) (\<lambda>c. c = 0) \<lparr>siteKey = Some ''other'', endpoint = None, autoFetch = Some False, slug = ''favorite''\<rparr> (usePoll_instance (\<lambda>options. ()) [Render \<lparr>siteKey = Some ''key'', endpoint = None, autoFetch = Some False, slug = ''favorite''\<rparr>, Emit 0 \<lparr>status = status_success, error = None, poll = None\<rparr>]))) = True"
    using t  by simp
  have a2: "alive (next_cid (usePoll_instance (\<lambda>options. ()) [Render \<lparr>siteKey = Some ''key'', endpoint = None, autoFetch = Some False, slug = ''favorite''\<rparr>, Emit 0 \<lparr>status = status_success, error = None, poll = None\<rparr>])) (snd (usePoll (\<lambda>options. ()) (\<lambda>c. c = 0) \<lparr>siteKey = Some ''other'', endpoint = None, autoFetch = Some False, slug = ''favorite''\<rparr> (usePoll_instance (\<lambda>options. ()) [Render \<lparr>siteKey = Some ''key'', endpoint = None, autoFetch = Some False, slug = ''favorite''\<rparr>, Emit 0 \<lparr>status = status_success, error = None, poll = None\<rparr>])))"
    using t d by blast
  have a3: "\<not> alive 0 (snd (usePoll (\<lambda>options. ()) (\<lambda>c. c = 0) \<lparr>siteKey = Some ''other'', endpoint = None, autoFetch = Some False, slug = ''favorite''\<rparr> (usePoll_instance (\<lambda>options. ()) [Render \<lparr>siteKey = Some ''key'', endpoint = None, autoFetch = Some False, slug = ''favorite''\<rparr>, Emit 0 \<lparr>status = status_success, error = None, poll = None\<rparr>])))"
    using t d by blast
  have a4: "announcements (fst (useAnnouncements (\<lambda>options. ()) (\<lambda>c. if c = 1 then [a] else []) \<lparr>siteKey = Some ''other'', endpoint = None, autoFetch = None\<rparr> (useAnnouncements_instance (\<lambda>options. ()) [Render \<lparr>siteKey = Some ''key'', endpoint = None, autoFetch = None\<rparr>, Render \<lparr>siteKey = Some ''other'', endpoint = None, autoFetch = None\<rparr>]))) = [a]"
    using t  by simp
  show "alive 0 (usePoll_instance (\<lambda>options. ()) [Render \<lparr>siteKey = Some ''key'', endpoint = None, autoFetch = Some False, slug = ''favorite''\<rparr>, Emit 0 \<lparr>status = status_success, error = None, poll = None\<rparr>]) \<and>
     alive 1 (useAnnouncements_instance (\<lambda>options. ()) [Render \<lparr>siteKey = Some ''key'', endpoint = None, autoFetch = None\<rparr>, Render \<lparr>siteKey = Some ''other'', endpoint = None, autoFetch = None\<rparr>]) \<and>
     effect_deps (usePoll_instance (\<lambda>options. ()) [Render \<lparr>siteKey = Some ''key'', endpoint = None, autoFetch = Some False, slug = ''favorite''\<rparr>, Emit 0 \<lparr>status = status_success, error = None, poll = None\<rparr>]) \<noteq> Some (usePoll_deps \<lparr>siteKey = Some ''other'', endpoint = None, autoFetch = Some False, slug = ''favorite''\<rparr>) \<and>
     next_cid (usePoll_instance (\<lambda>options. ()) [Render \<lparr>siteKey = Some ''key'', endpoint = None, autoFetch = Some False, slug = ''favorite''\<rparr>, Emit 0 \<lparr>status = status_success, error = None, poll = None\<rparr>]) = 1 \<and>
     hasVoted (fst (usePoll (\<lambda>options. ()) (\<lambda>c. c = 0) \<lparr>siteKey = Some ''other'', endpoint = None, autoFetch = Some False, slug = ''favorite''\<rparr> (usePoll_instance (\<lambda>options. ()) [Render \<lparr>siteKey = Some ''key'', endpoint = None, autoFetch = Some False, slug = ''favorite''\<rparr>, Emit 0 \<lparr>status = status_success, error = None, poll = None\<rparr>]))) = True \<and>
     alive (next_cid (usePoll_instance (\<lambda>options. ()) [Render \<lparr>siteKey = Some ''key'', endpoint = None, autoFetch = Some False, slug = ''favorite''\<rparr>, Emit 0 \<lparr>status = status_success, error = None, poll = None\<rparr>])) (snd (usePoll (\<lambda>options. ()) (\<lambda>c. c = 0) \<lparr>siteKey = Some ''other'', endpoint = None, autoFetch = Some False, slug = ''favorite''\<rparr> (usePoll_instance (\<lambda>options. ()) [Render \<lparr>siteKey = Some ''key'', endpoint = None, autoFetch = Some False, slug = ''favorite''\<rparr>, Emit 0 \<lparr>status = status_success, error = None, poll = None\<rparr>]))) \<and>
     \<not> alive 0 (snd (usePoll (\<lambda>options. ()) (\<lambda>c. c = 0) \<lparr>siteKey = Some ''other'', endpoint = None, autoFetch = Some False, slug = ''favorite''\<rparr> (usePoll_instance (\<lambda>options. ()) [Render \<lparr>siteKey = Some ''key'', endpoint = None, autoFetch = Some False, slug = ''favorite''\<rparr>, Emit 0 \<lparr>status = status_success, error = None, poll = None\<rparr>]))) \<and>
     announcements (fst (useAnnouncements (\<lambda>options. ()) (\<lambda>c. if c = 1 then [a] else []) \<lparr>siteKey = Some ''other'', endpoint = None, autoFetch = None\<rparr> (useAnnouncements_instance (\<lambda>options. ()) [Render \<lparr>siteKey = Some ''key'', endpoint = None, autoFetch = None\<rparr>, Render \<lparr>siteKey = Some ''other'', endpoint = None, autoFetch = None\<rparr>]))) = [a]"
    by (intro conjI h1 h2 d e a1 a2 a3 a4)
qed

section \<open>The automatic read\<close>

lemma run_append: "run commit (xs @ ys) b = run commit ys (run commit xs b)"
  by (simp add: run_def)

lemma count_useEffect_old:
  assumes "event_cid e < next_cid b" and "\<And>c. e \<noteq> Unsubscribe c"
  shows "count_list (trace (useEffect (bridge_effect k config ident auto) deps b)) e =
           count_list (trace b) e"
    and "next_cid b \<le> next_cid (useEffect (bridge_effect k config ident auto) deps b)"
  using assms
  by (auto simp: useEffect_def bridge_effect_def run_cleanup_def controller_unsubscribe_def
      split: option.splits)

lemma count_step_automatic:
  assumes "is_bridge commit" and "automatic i"
    and "event_cid e < next_cid b" and "\<And>c. e \<noteq> Unsubscribe c"
  shows "count_list (trace (step commit i b)) e = count_list (trace b) e"
    and "next_cid b \<le> next_cid (step commit i b)"
proof -
  have "count_list (trace (step commit i b)) e = count_list (trace b) e \<and>
        next_cid b \<le> next_cid (step commit i b)"
  proof (cases i)
    case (Render options)
    from assms(1) obtain k config ident auto deps
      where "commit options = useEffect (bridge_effect k config ident auto) deps"
      unfolding is_bridge_def by blast
    with Render assms(3,4) show ?thesis
      by (simp add: step_def count_useEffect_old)
  next
    case Unmount
    with assms(3,4) show ?thesis
      by (auto simp: step_def unmount_def run_cleanup_def controller_unsubscribe_def
          split: option.splits)
  next
    case (Emit c s)
    then show ?thesis by (simp add: step_def emit_def)
  next
    case (Act k)
    with assms(2) show ?thesis by simp
  qed
  then show "count_list (trace (step commit i b)) e = count_list (trace b) e"
    and "next_cid b \<le> next_cid (step commit i b)" by simp_all
qed

lemma count_run_automatic:
  assumes "is_bridge commit" and "list_all automatic inputs"
    and "event_cid e < next_cid b" and "\<And>c. e \<noteq> Unsubscribe c"
  shows "count_list (trace (run commit inputs b)) e = count_list (trace b) e"
  using assms(2,3)
proof (induction inputs arbitrary: b)
  case Nil
  then show ?case by (simp add: run_Nil)
next
  case (Cons i inputs)
  from Cons.prems have a: "automatic i" and l: "list_all automatic inputs" by simp_all
  note st = count_step_automatic [OF assms(1) a Cons.prems(2) assms(4)]
  from st(2) Cons.prems(2) have "event_cid e < next_cid (step commit i b)" by simp
  from Cons.IH [OF l this] st(1) show ?case by (simp add: run_Cons)
qed

lemma count_fresh:
  assumes "bridge_inv b" and "next_cid b \<le> event_cid e"
  shows "count_list (trace b) e = 0"
proof -
  from assms have "e \<notin> set (trace b)" by (auto simp: bridge_inv_def)
  then show ?thesis by (simp add: count_list_0_iff)
qed

lemma count_useEffect_new:
  assumes "bridge_inv b" and "effect_deps b \<noteq> Some deps"
  shows "count_list (trace (useEffect (bridge_effect k config ident auto) deps b))
           (Invoke (next_cid b) r) = (if auto = Some r then 1 else 0)"
    and "count_list (trace (useEffect (bridge_effect k config ident auto) deps b))
           (Construct (next_cid b) k config ident) = 1"
    and "next_cid (useEffect (bridge_effect k config ident auto) deps b) = Suc (next_cid b)"
  using assms(2) count_fresh [OF assms(1), of "Invoke (next_cid b) r"]
    count_fresh [OF assms(1), of "Construct (next_cid b) k config ident"]
  by (auto simp: useEffect_def bridge_effect_def run_cleanup_def controller_unsubscribe_def
      split: option.splits)

lemma automatic_read:
  assumes "is_bridge commit" and "bridge_inv b" and "\<not> unmounted b"
    and "commit options = useEffect (bridge_effect k config ident auto) deps"
    and "effect_deps b \<noteq> Some deps" and "list_all automatic later"
  shows "count_list (trace (run commit (Render options # later) b)) (Invoke (next_cid b) r) =
           (if auto = Some r then 1 else 0)"
    and "count_list (trace (run commit (Render options # later) b))
           (Construct (next_cid b) k config ident) = 1"
proof -
  let ?b1 = "step commit (Render options) b"
  have b1: "?b1 = useEffect (bridge_effect k config ident auto) deps b"
    using assms(3,4) by (simp add: step_def)
  note new = count_useEffect_new [OF assms(2,5), of k config ident auto]
  have lt: "event_cid (Invoke (next_cid b) r) < next_cid ?b1"
    "event_cid (Construct (next_cid b) k config ident) < next_cid ?b1"
    by (simp_all add: b1 new(3))
  show "count_list (trace (run commit (Render options # later) b)) (Invoke (next_cid b) r) =
           (if auto = Some r then 1 else 0)"
    using count_run_automatic [OF assms(1,6) lt(1)] new(1) [of r] by (simp add: run_Cons b1)
  show "count_list (trace (run commit (Render options # later) b))
           (Construct (next_cid b) k config ident) = 1"
    using count_run_automatic [OF assms(1,6) lt(2)] new(2) by (simp add: run_Cons b1)
qed

lemma useReactions_automatic_read:
  assumes "\<not> unmounted (useReactions_instance resolveConfig inputs)"
    and "effect_deps (useReactions_instance resolveConfig inputs) \<noteq> Some (useReactions_deps options)"
    and "list_all automatic later"
  shows "count_list (trace (useReactions_instance resolveConfig (inputs @ Render options # later)))
      (Construct (next_cid (useReactions_instance resolveConfig inputs)) ReactionsController (resolveConfig options) (Some (contentId options))) = 1"
    and "count_list (trace (useReactions_instance resolveConfig (inputs @ Render options # later)))
      (Invoke (next_cid (useReactions_instance resolveConfig inputs)) ReactionsController_fetch) =
      (if autoFetch options = Some False then 0 else 1)"
  using automatic_read(2) [OF useReactions_commit_bridge useReactions_instance_inv assms(1) useReactions_commit_shape assms(2,3)]
    automatic_read(1) [OF useReactions_commit_bridge useReactions_instance_inv assms(1) useReactions_commit_shape assms(2,3),
      where r = ReactionsController_fetch]
  by (simp_all add: useReactions_instance_def run_append)

lemma useComments_automatic_read:
  assumes "\<not> unmounted (useComments_instance resolveConfig inputs)"
    and "effect_deps (useComments_instance resolveConfig inputs) \<noteq> Some (useComments_deps options)"
    and "list_all automatic later"
  shows "count_list (trace (useComments_instance resolveConfig (inputs @ Render options # later)))
      (Construct (next_cid (useComments_instance resolveConfig inputs)) CommentsController (resolveConfig options) (Some (contentId options))) = 1"
    and "count_list (trace (useComments_instance resolveConfig (inputs @ Render options # later)))
      (Invoke (next_cid (useComments_instance resolveConfig inputs)) CommentsController_fetch) =
      (if autoFetch options = Some False then 0 else 1)"
  using automatic_read(2) [OF useComments_commit_bridge useComments_instance_inv assms(1) useComments_commit_shape assms(2,3)]
    automatic_read(1) [OF useComments_commit_bridge useComments_instance_inv assms(1) useComments_commit_shape assms(2,3),
      where r = CommentsController_fetch]
  by (simp_all add: useComments_instance_def run_append)

lemma useViews_automatic_read:
  assumes "\<not> unmounted (useViews_instance resolveConfig first_options inputs)"
    and "effect_deps (useViews_instance resolveConfig first_options inputs) \<noteq> Some (useViews_deps options)"
    and "list_all automatic later"
  shows "count_list (trace (useViews_instance resolveConfig first_options (inputs @ Render options # later)))
      (Construct (next_cid (useViews_instance resolveConfig first_options inputs)) ViewCountsController (resolveConfig options) (Some (pageId options))) = 1"
    and "count_list (trace (useViews_instance resolveConfig first_options (inputs @ Render options # later)))
      (Invoke (next_cid (useViews_instance resolveConfig first_options inputs)) ViewCountsController_record) =
      (if autoRecord options = Some False then 0 else 1)"
  using automatic_read(2) [OF useViews_commit_bridge useViews_instance_inv assms(1) useViews_commit_shape assms(2,3)]
    automatic_read(1) [OF useViews_commit_bridge useViews_instance_inv assms(1) useViews_commit_shape assms(2,3),
      where r = ViewCountsController_record]
  by (simp_all add: useViews_instance_def run_append)

lemma usePoll_automatic_read:
  assumes "\<not> unmounted (usePoll_instance resolveConfig inputs)"
    and "effect_deps (usePoll_instance resolveConfig inputs) \<noteq> Some (usePoll_deps options)"
    and "list_all automatic later"
  shows "count_list (trace (usePoll_instance resolveConfig (inputs @ Render options # later)))
      (Construct (next_cid (usePoll_instance resolveConfig inputs)) PollController (resolveConfig options) (Some (slug options))) = 1"
    and "count_list (trace (usePoll_instance resolveConfig (inputs @ Render options # later)))
      (Invoke (next_cid (usePoll_instance resolveConfig inputs)) PollController_fetch) =
      (if autoFetch options = Some False then 0 else 1)"
  using automatic_read(2) [OF usePoll_commit_bridge usePoll_instance_inv assms(1) usePoll_commit_shape assms(2,3)]
    automatic_read(1) [OF usePoll_commit_bridge usePoll_instance_inv assms(1) usePoll_commit_shape assms(2,3),
      where r = PollController_fetch]
  by (simp_all add: usePoll_instance_def run_append)

lemma useAnnouncements_automatic_read:
  assumes "\<not> unmounted (useAnnouncements_instance resolveConfig inputs)"
    and "effect_deps (useAnnouncements_instance resolveConfig inputs) \<noteq> Some (useAnnouncements_deps options)"
    and "list_all automatic later"
  shows "count_list (trace (useAnnouncements_instance resolveConfig (inputs @ Render options # later)))
      (Construct (next_cid (useAnnouncements_instance resolveConfig inputs)) AnnouncementsController (resolveConfig options) None) = 1"
    and "count_list (trace (useAnnouncements_instance resolveConfig (inputs @ Render options # later)))
      (Invoke (next_cid (useAnnouncements_instance resolveConfig inputs)) AnnouncementsController_fetch) =
      (if autoFetch options = Some False then 0 else 1)"
  using automatic_read(2) [OF useAnnouncements_commit_bridge useAnnouncements_instance_inv assms(1) useAnnouncements_commit_shape assms(2,3)]
    automatic_read(1) [OF useAnnouncements_commit_bridge useAnnouncements_instance_inv assms(1) useAnnouncements_commit_shape assms(2,3),
      where r = AnnouncementsController_fetch]
  by (simp_all add: useAnnouncements_instance_def run_append)

text \<open>
  Claim C3. For each read-oriented hook (useReactions, useComments, useViews,
  usePoll, useAnnouncements), take any render that constructs a controller (the
  first one, or one whose configuration tuple differs from the previous render)
  and any later inputs that are not calls of the consumer. The controller is
  constructed exactly once, and its initial read (\<^verbatim>\<open>fetch\<close>, or \<^verbatim>\<open>record\<close> for
  useViews) is called exactly once when the option \<^verbatim>\<open>autoFetch\<close> (\<^verbatim>\<open>autoRecord\<close>)
  is absent or true, and never when it is false.
\<close>

theorem automatic_read_once_per_construction:
  assumes "\<not> unmounted (useReactions_instance rc_reactions inputs_reactions)"
    and "effect_deps (useReactions_instance rc_reactions inputs_reactions) \<noteq> Some (useReactions_deps options_reactions)"
    and "list_all automatic later_reactions"
    and "\<not> unmounted (useComments_instance rc_comments inputs_comments)"
    and "effect_deps (useComments_instance rc_comments inputs_comments) \<noteq> Some (useComments_deps options_comments)"
    and "list_all automatic later_comments"
    and "\<not> unmounted (useViews_instance rc_views first_options inputs_views)"
    and "effect_deps (useViews_instance rc_views first_options inputs_views) \<noteq> Some (useViews_deps options_views)"
    and "list_all automatic later_views"
    and "\<not> unmounted (usePoll_instance rc_poll inputs_poll)"
    and "effect_deps (usePoll_instance rc_poll inputs_poll) \<noteq> Some (usePoll_deps options_poll)"
    and "list_all automatic later_poll"
    and "\<not> unmounted (useAnnouncements_instance rc_announcements inputs_announcements)"
    and "effect_deps (useAnnouncements_instance rc_announcements inputs_announcements) \<noteq> Some (useAnnouncements_deps options_announcements)"
    and "list_all automatic later_announcements"
  shows
    "count_list (trace (useReactions_instance rc_reactions (inputs_reactions @ Render options_reactions # later_reactions)))
         (Construct (next_cid (useReactions_instance rc_reactions inputs_reactions)) ReactionsController (rc_reactions options_reactions) (Some (contentId options_reactions))) = 1 \<and>
     count_list (trace (useReactions_instance rc_reactions (inputs_reactions @ Render options_reactions # later_reactions)))
         (Invoke (next_cid (useReactions_instance rc_reactions inputs_reactions)) ReactionsController_fetch) =
         (if autoFetch options_reactions = Some False then 0 else 1) \<and>
     count_list (trace (useComments_instance rc_comments (inputs_comments @ Render options_comments # later_comments)))
         (Construct (next_cid (useComments_instance rc_comments inputs_comments)) CommentsController (rc_comments options_comments) (Some (contentId options_comments))) = 1 \<and>
     count_list (trace (useComments_instance rc_comments (inputs_comments @ Render options_comments # later_comments)))
         (Invoke (next_cid (useComments_instance rc_comments inputs_comments)) CommentsController_fetch) =
         (if autoFetch options_comments = Some False then 0 else 1) \<and>
     count_list (trace (useViews_instance rc_views first_options (inputs_views @ Render options_views # later_views)))
         (Construct (next_cid (useViews_instance rc_views first_options inputs_views)) ViewCountsController (rc_views options_views) (Some (pageId options_views))) = 1 \<and>
     count_list (trace (useViews_instance rc_views first_options (inputs_views @ Render options_views # later_views)))
         (Invoke (next_cid (useViews_instance rc_views first_options inputs_views)) ViewCountsController_record) =
         (if autoRecord options_views = Some False then 0 else 1) \<and>
     count_list (trace (usePoll_instance rc_poll (inputs_poll @ Render options_poll # later_poll)))
         (Construct (next_cid (usePoll_instance rc_poll inputs_poll)) PollController (rc_poll options_poll) (Some (slug options_poll))) = 1 \<and>
     count_list (trace (usePoll_instance rc_poll (inputs_poll @ Render options_poll # later_poll)))
         (Invoke (next_cid (usePoll_instance rc_poll inputs_poll)) PollController_fetch) =
         (if autoFetch options_poll = Some False then 0 else 1) \<and>
     count_list (trace (useAnnouncements_instance rc_announcements (inputs_announcements @ Render options_announcements # later_announcements)))
         (Construct (next_cid (useAnnouncements_instance rc_announcements inputs_announcements)) AnnouncementsController (rc_announcements options_announcements) None) = 1 \<and>
     count_list (trace (useAnnouncements_instance rc_announcements (inputs_announcements @ Render options_announcements # later_announcements)))
         (Invoke (next_cid (useAnnouncements_instance rc_announcements inputs_announcements)) AnnouncementsController_fetch) =
         (if autoFetch options_announcements = Some False then 0 else 1)"
  by (intro conjI
      useReactions_automatic_read [OF assms(1) assms(2) assms(3)]
      useComments_automatic_read [OF assms(4) assms(5) assms(6)]
      useViews_automatic_read [OF assms(7) assms(8) assms(9)]
      usePoll_automatic_read [OF assms(10) assms(11) assms(12)]
      useAnnouncements_automatic_read [OF assms(13) assms(14) assms(15)])

theorem automatic_read_once_per_construction_witness:
  "\<not> unmounted (useReactions_instance (\<lambda>options. ()) []) \<and>
   effect_deps (useReactions_instance (\<lambda>options. ()) []) \<noteq> Some (useReactions_deps \<lparr>siteKey = Some ''key'', endpoint = None, autoFetch = None, contentId = ''my-post''\<rparr>) \<and>
   list_all automatic [Emit 0 \<lparr>status = status_success, error = None, counts = [''like'' \<mapsto> 3], userReactions = [''like'']\<rparr>, Render \<lparr>siteKey = Some ''key'', endpoint = None, autoFetch = None, contentId = ''my-post''\<rparr>, Unmount] \<and>
   \<not> unmounted (useComments_instance (\<lambda>options. ()) []) \<and>
   effect_deps (useComments_instance (\<lambda>options. ()) []) \<noteq> Some (useComments_deps \<lparr>siteKey = Some ''key'', endpoint = None, autoFetch = Some True, contentId = ''my-post''\<rparr>) \<and>
   list_all automatic [Emit 0 \<lparr>status = status_loading, error = None, comments = []\<rparr>, Render \<lparr>siteKey = Some ''key'', endpoint = None, autoFetch = Some True, contentId = ''my-post''\<rparr>, Unmount] \<and>
   \<not> unmounted (useViews_instance (\<lambda>options. ()) \<lparr>siteKey = Some ''key'', endpoint = None, pageId = ''/blog'', autoRecord = None\<rparr> []) \<and>
   effect_deps (useViews_instance (\<lambda>options. ()) \<lparr>siteKey = Some ''key'', endpoint = None, pageId = ''/blog'', autoRecord = None\<rparr> []) \<noteq> Some (useViews_deps \<lparr>siteKey = Some ''key'', endpoint = None, pageId = ''/blog'', autoRecord = Some False\<rparr>) \<and>
   list_all automatic [Emit 0 \<lparr>status = status_success, error = None, views = 10, uniqueVisitors = 4, ViewCountsState.pageId = ''/blog''\<rparr>, Render \<lparr>siteKey = Some ''key'', endpoint = None, pageId = ''/blog'', autoRecord = None\<rparr>, Unmount] \<and>
   \<not> unmounted (usePoll_instance (\<lambda>options. ()) []) \<and>
   effect_deps (usePoll_instance (\<lambda>options. ()) []) \<noteq> Some (usePoll_deps \<lparr>siteKey = Some ''key'', endpoint = None, autoFetch = Some False, slug = ''favorite''\<rparr>) \<and>
   list_all automatic [Emit 0 \<lparr>status = status_error, error = Some ''not found'', poll = None\<rparr>, Render \<lparr>siteKey = Some ''key'', endpoint = None, autoFetch = Some False, slug = ''favorite''\<rparr>, Unmount] \<and>
   \<not> unmounted (useAnnouncements_instance (\<lambda>options. ()) []) \<and>
   effect_deps (useAnnouncements_instance (\<lambda>options. ()) []) \<noteq> Some (useAnnouncements_deps \<lparr>siteKey = Some ''key'', endpoint = None, autoFetch = None\<rparr>) \<and>
   list_all automatic [Emit 0 \<lparr>status = status_success, error = None, announcements = [], dismissed = {3}\<rparr>, Render \<lparr>siteKey = Some ''key'', endpoint = None, autoFetch = None\<rparr>, Unmount] \<and>
   next_cid (useReactions_instance (\<lambda>options. ()) []) = 0 \<and>
   count_list (trace (useReactions_instance (\<lambda>options. ()) ([] @ Render \<lparr>siteKey = Some ''key'', endpoint = None, autoFetch = None, contentId = ''my-post''\<rparr> # [Emit 0 \<lparr>status = status_success, error = None, counts = [''like'' \<mapsto> 3], userReactions = [''like'']\<rparr>, Render \<lparr>siteKey = Some ''key'', endpoint = None, autoFetch = None, contentId = ''my-post''\<rparr>, Unmount])))
     (Construct (next_cid (useReactions_instance (\<lambda>options. ()) [])) ReactionsController ((\<lambda>options. ()) \<lparr>siteKey = Some ''key'', endpoint = None, autoFetch = None, contentId = ''my-post''\<rparr>) (Some (contentId \<lparr>siteKey = Some ''key'', endpoint = None, autoFetch = None, contentId = ''my-post''\<rparr>))) = 1 \<and>
   count_list (trace (useReactions_instance (\<lambda>options. ()) ([] @ Render \<lparr>siteKey = Some ''key'', endpoint = None, autoFetch = None, contentId = ''my-post''\<rparr> # [Emit 0 \<lparr>status = status_success, error = None, counts = [''like'' \<mapsto> 3], userReactions = [''like'']\<rparr>, Render \<lparr>siteKey = Some ''key'', endpoint = None, autoFetch = None, contentId = ''my-post''\<rparr>, Unmount])))
     (Invoke (next_cid (useReactions_instance (\<lambda>options. ()) [])) ReactionsController_fetch) =
     (if autoFetch \<lparr>siteKey = Some ''key'', endpoint = None, autoFetch = None, contentId = ''my-post''\<rparr> = Some False then 0 else 1) \<and>
   next_cid (useComments_instance (\<lambda>options. ()) []) = 0 \<and>
   count_list (trace (useComments_instance (\<lambda>options. ()) ([] @ Render \<lparr>siteKey = Some ''key'', endpoint = None, autoFetch = Some True, contentId = ''my-post''\<rparr> # [Emit 0 \<lparr>status = status_loading, error = None, comments = []\<rparr>, Render \<lparr>siteKey = Some ''key'', endpoint = None, autoFetch = Some True, contentId = ''my-post''\<rparr>, Unmount])))
     (Construct (next_cid (useComments_instance (\<lambda>options. ()) [])) CommentsController ((\<lambda>options. ()) \<lparr>siteKey = Some ''key'', endpoint = None, autoFetch = Some True, contentId = ''my-post''\<rparr>) (Some (contentId \<lparr>siteKey = Some ''key'', endpoint = None, autoFetch = Some True, contentId = ''my-post''\<rparr>))) = 1 \<and>
   count_list (trace (useComments_instance (\<lambda>options. ()) ([] @ Render \<lparr>siteKey = Some ''key'', endpoint = None, autoFetch = Some True, contentId = ''my-post''\<rparr> # [Emit 0 \<lparr>status = status_loading, error = None, comments = []\<rparr>, Render \<lparr>siteKey = Some ''key'', endpoint = None, autoFetch = Some True, contentId = ''my-post''\<rparr>, Unmount])))
     (Invoke (next_cid (useComments_instance (\<lambda>options. ()) [])) CommentsController_fetch) =
     (if autoFetch \<lparr>siteKey = Some ''key'', endpoint = None, autoFetch = Some True, contentId = ''my-post''\<rparr> = Some False then 0 else 1) \<and>
   next_cid (useViews_instance (\<lambda>options. ()) \<lparr>siteKey = Some ''key'', endpoint = None, pageId = ''/blog'', autoRecord = None\<rparr> []) = 0 \<and>
   count_list (trace (useViews_instance (\<lambda>options. ()) \<lparr>siteKey = Some ''key'', endpoint = None, pageId = ''/blog'', autoRecord = None\<rparr> ([] @ Render \<lparr>siteKey = Some ''key'', endpoint = None, pageId = ''/blog'', autoRecord = Some False\<rparr> # [Emit 0 \<lparr>status = status_success, error = None, views = 10, uniqueVisitors = 4, ViewCountsState.pageId = ''/blog''\<rparr>, Render \<lparr>siteKey = Some ''key'', endpoint = None, pageId = ''/blog'', autoRecord = None\<rparr>, Unmount])))
     (Construct (next_cid (useViews_instance (\<lambda>options. ()) \<lparr>siteKey = Some ''key'', endpoint = None, pageId = ''/blog'', autoRecord = None\<rparr> [])) ViewCountsController ((\<lambda>options. ()) \<lparr>siteKey = Some ''key'', endpoint = None, pageId = ''/blog'', autoRecord = Some False\<rparr>) (Some (pageId \<lparr>siteKey = Some ''key'', endpoint = None, pageId = ''/blog'', autoRecord = Some False\<rparr>))) = 1 \<and>
   count_list (trace (useViews_instance (\<lambda>options. ()) \<lparr>siteKey = Some ''key'', endpoint = None, pageId = ''/blog'', autoRecord = None\<rparr> ([] @ Render \<lparr>siteKey = Some ''key'', endpoint = None, pageId = ''/blog'', autoRecord = Some False\<rparr> # [Emit 0 \<lparr>status = status_success, error = None, views = 10, uniqueVisitors = 4, ViewCountsState.pageId = ''/blog''\<rparr>, Render \<lparr>siteKey = Some ''key'', endpoint = None, pageId = ''/blog'', autoRecord = None\<rparr>, Unmount])))
     (Invoke (next_cid (useViews_instance (\<lambda>options. ()) \<lparr>siteKey = Some ''key'', endpoint = None, pageId = ''/blog'', autoRecord = None\<rparr> [])) ViewCountsController_record) =
     (if autoRecord \<lparr>siteKey = Some ''key'', endpoint = None, pageId = ''/blog'', autoRecord = Some False\<rparr> = Some False then 0 else 1) \<and>
   next_cid (usePoll_instance (\<lambda>options. ()) []) = 0 \<and>
   count_list (trace (usePoll_instance (\<lambda>options. ()) ([] @ Render \<lparr>siteKey = Some ''key'', endpoint = None, autoFetch = Some False, slug = ''favorite''\<rparr> # [Emit 0 \<lparr>status = status_error, error = Some ''not found'', poll = None\<rparr>, Render \<lparr>siteKey = Some ''key'', endpoint = None, autoFetch = Some False, slug = ''favorite''\<rparr>, Unmount])))
     (Construct (next_cid (usePoll_instance (\<lambda>options. ()) [])) PollController ((\<lambda>options. ()) \<lparr>siteKey = Some ''key'', endpoint = None, autoFetch = Some False, slug = ''favorite''\<rparr>) (Some (slug \<lparr>siteKey = Some ''key'', endpoint = None, autoFetch = Some False, slug = ''favorite''\<rparr>))) = 1 \<and>
   count_list (trace (usePoll_instance (\<lambda>options. ()) ([] @ Render \<lparr>siteKey = Some ''key'', endpoint = None, autoFetch = Some False, slug = ''favorite''\<rparr> # [Emit 0 \<lparr>status = status_error, error = Some ''not found'', poll = None\<rparr>, Render \<lparr>siteKey = Some ''key'', endpoint = None, autoFetch = Some False, slug = ''favorite''\<rparr>, Unmount])))
     (Invoke (next_cid (usePoll_instance (\<lambda>options. ()) [])) PollController_fetch) =
     (if autoFetch \<lparr>siteKey = Some ''key'', endpoint = None, autoFetch = Some False, slug = ''favorite''\<rparr> = Some False then 0 else 1) \<and>
   next_cid (useAnnouncements_instance (\<lambda>options. ()) []) = 0 \<and>
   count_list (trace (useAnnouncements_instance (\<lambda>options. ()) ([] @ Render \<lparr>siteKey = Some ''key'', endpoint = None, autoFetch = None\<rparr> # [Emit 0 \<lparr>status = status_success, error = None, announcements = [], dismissed = {3}\<rparr>, Render \<lparr>siteKey = Some ''key'', endpoint = None, autoFetch = None\<rparr>, Unmount])))
     (Construct (next_cid (useAnnouncements_instance (\<lambda>options. ()) [])) AnnouncementsController ((\<lambda>options. ()) \<lparr>siteKey = Some ''key'', endpoint = None, autoFetch = None\<rparr>) None) = 1 \<and>
   count_list (trace (useAnnouncements_instance (\<lambda>options. ()) ([] @ Render \<lparr>siteKey = Some ''key'', endpoint = None, autoFetch = None\<rparr> # [Emit 0 \<lparr>status = status_success, error = None, announcements = [], dismissed = {3}\<rparr>, Render \<lparr>siteKey = Some ''key'', endpoint = None, autoFetch = None\<rparr>, Unmount])))
     (Invoke (next_cid (useAnnouncements_instance (\<lambda>options. ()) [])) AnnouncementsController_fetch) =
     (if autoFetch \<lparr>siteKey = Some ''key'', endpoint = None, autoFetch = None\<rparr> = Some False then 0 else 1)"
proof -
  have h1: "\<not> unmounted (useReactions_instance (\<lambda>options. ()) [])"
    by (simp add: eval_defs)
  have h2: "effect_deps (useReactions_instance (\<lambda>options. ()) []) \<noteq> Some (useReactions_deps \<lparr>siteKey = Some ''key'', endpoint = None, autoFetch = None, contentId = ''my-post''\<rparr>)"
    by (simp add: eval_defs)
  have h3: "list_all automatic [Emit 0 \<lparr>status = status_success, error = None, counts = [''like'' \<mapsto> 3], userReactions = [''like'']\<rparr>, Render \<lparr>siteKey = Some ''key'', endpoint = None, autoFetch = None, contentId = ''my-post''\<rparr>, Unmount]"
    by (simp add: eval_defs)
  have h4: "\<not> unmounted (useComments_instance (\<lambda>options. ()) [])"
    by (simp add: eval_defs)
  have h5: "effect_deps (useComments_instance (\<lambda>options. ()) []) \<noteq> Some (useComments_deps \<lparr>siteKey = Some ''key'', endpoint = None, autoFetch = Some True, contentId = ''my-post''\<rparr>)"
    by (simp add: eval_defs)
  have h6: "list_all automatic [Emit 0 \<lparr>status = status_loading, error = None, comments = []\<rparr>, Render \<lparr>siteKey = Some ''key'', endpoint = None, autoFetch = Some True, contentId = ''my-post''\<rparr>, Unmount]"
    by (simp add: eval_defs)
  have h7: "\<not> unmounted (useViews_instance (\<lambda>options. ()) \<lparr>siteKey = Some ''key'', endpoint = None, pageId = ''/blog'', autoRecord = None\<rparr> [])"
    by (simp add: eval_defs)
  have h8: "effect_deps (useViews_instance (\<lambda>options. ()) \<lparr>siteKey = Some ''key'', endpoint = None, pageId = ''/blog'', autoRecord = None\<rparr> []) \<noteq> Some (useViews_deps \<lparr>siteKey = Some ''key'', endpoint = None, pageId = ''/blog'', autoRecord = Some False\<rparr>)"
    by (simp add: eval_defs)
  have h9: "list_all automatic [Emit 0 \<lparr>status = status_success, error = None, views = 10, uniqueVisitors = 4, ViewCountsState.pageId = ''/blog''\<rparr>, Render \<lparr>siteKey = Some ''key'', endpoint = None, pageId = ''/blog'', autoRecord = None\<rparr>, Unmount]"
    by (simp add: eval_defs)
  have h10: "\<not> unmounted (usePoll_instance (\<lambda>options. ()) [])"
    by (simp add: eval_defs)
  have h11: "effect_deps (usePoll_instance (\<lambda>options. ()) []) \<noteq> Some (usePoll_deps \<lparr>siteKey = Some ''key'', endpoint = None, autoFetch = Some False, slug = ''favorite''\<rparr>)"
    by (simp add: eval_defs)
  have h12: "list_all automatic [Emit 0 \<lparr>status = status_error, error = Some ''not found'', poll = None\<rparr>, Render \<lparr>siteKey = Some ''key'', endpoint = None, autoFetch = Some False, slug = ''favorite''\<rparr>, Unmount]"
    by (simp add: eval_defs)
  have h13: "\<not> unmounted (useAnnouncements_instance (\<lambda>options. ()) [])"
    by (simp add: eval_defs)
  have h14: "effect_deps (useAnnouncements_instance (\<lambda>options. ()) []) \<noteq> Some (useAnnouncements_deps \<lparr>siteKey = Some ''key'', endpoint = None, autoFetch = None\<rparr>)"
    by (simp add: eval_defs)
  have h15: "list_all automatic [Emit 0 \<lparr>status = status_success, error = None, announcements = [], dismissed = {3}\<rparr>, Render \<lparr>siteKey = Some ''key'', endpoint = None, autoFetch = None\<rparr>, Unmount]"
    by (simp add: eval_defs)
  have e0: "next_cid (useReactions_instance (\<lambda>options. ()) []) = 0"
    by (simp add: eval_defs)
  have e1: "next_cid (useComments_instance (\<lambda>options. ()) []) = 0"
    by (simp add: eval_defs)
  have e2: "next_cid (useViews_instance (\<lambda>options. ()) \<lparr>siteKey = Some ''key'', endpoint = None, pageId = ''/blog'', autoRecord = None\<rparr> []) = 0"
    by (simp add: eval_defs)
  have e3: "next_cid (usePoll_instance (\<lambda>options. ()) []) = 0"
    by (simp add: eval_defs)
  have e4: "next_cid (useAnnouncements_instance (\<lambda>options. ()) []) = 0"
    by (simp add: eval_defs)
  note t = automatic_read_once_per_construction
      [OF h1 h2 h3 h4 h5 h6 h7 h8 h9 h10 h11 h12 h13 h14 h15]
  have a0: "count_list (trace (useReactions_instance (\<lambda>options. ()) ([] @ Render \<lparr>siteKey = Some ''key'', endpoint = None, autoFetch = None, contentId = ''my-post''\<rparr> # [Emit 0 \<lparr>status = status_success, error = None, counts = [''like'' \<mapsto> 3], userReactions = [''like'']\<rparr>, Render \<lparr>siteKey = Some ''key'', endpoint = None, autoFetch = None, contentId = ''my-post''\<rparr>, Unmount])))
     (Construct (next_cid (useReactions_instance (\<lambda>options. ()) [])) ReactionsController ((\<lambda>options. ()) \<lparr>siteKey = Some ''key'', endpoint = None, autoFetch = None, contentId = ''my-post''\<rparr>) (Some (contentId \<lparr>siteKey = Some ''key'', endpoint = None, autoFetch = None, contentId = ''my-post''\<rparr>))) = 1"
    using t by blast
  have b0: "count_list (trace (useReactions_instance (\<lambda>options. ()) ([] @ Render \<lparr>siteKey = Some ''key'', endpoint = None, autoFetch = None, contentId = ''my-post''\<rparr> # [Emit 0 \<lparr>status = status_success, error = None, counts = [''like'' \<mapsto> 3], userReactions = [''like'']\<rparr>, Render \<lparr>siteKey = Some ''key'', endpoint = None, autoFetch = None, contentId = ''my-post''\<rparr>, Unmount])))
     (Invoke (next_cid (useReactions_instance (\<lambda>options. ()) [])) ReactionsController_fetch) =
     (if autoFetch \<lparr>siteKey = Some ''key'', endpoint = None, autoFetch = None, contentId = ''my-post''\<rparr> = Some False then 0 else 1)"
    using t by blast
  have a1: "count_list (trace (useComments_instance (\<lambda>options. ()) ([] @ Render \<lparr>siteKey = Some ''key'', endpoint = None, autoFetch = Some True, contentId = ''my-post''\<rparr> # [Emit 0 \<lparr>status = status_loading, error = None, comments = []\<rparr>, Render \<lparr>siteKey = Some ''key'', endpoint = None, autoFetch = Some True, contentId = ''my-post''\<rparr>, Unmount])))
     (Construct (next_cid (useComments_instance (\<lambda>options. ()) [])) CommentsController ((\<lambda>options. ()) \<lparr>siteKey = Some ''key'', endpoint = None, autoFetch = Some True, contentId = ''my-post''\<rparr>) (Some (contentId \<lparr>siteKey = Some ''key'', endpoint = None, autoFetch = Some True, contentId = ''my-post''\<rparr>))) = 1"
    using t by blast
  have b1: "count_list (trace (useComments_instance (\<lambda>options. ()) ([] @ Render \<lparr>siteKey = Some ''key'', endpoint = None, autoFetch = Some True, contentId = ''my-post''\<rparr> # [Emit 0 \<lparr>status = status_loading, error = None, comments = []\<rparr>, Render \<lparr>siteKey = Some ''key'', endpoint = None, autoFetch = Some True, contentId = ''my-post''\<rparr>, Unmount])))
     (Invoke (next_cid (useComments_instance (\<lambda>options. ()) [])) CommentsController_fetch) =
     (if autoFetch \<lparr>siteKey = Some ''key'', endpoint = None, autoFetch = Some True, contentId = ''my-post''\<rparr> = Some False then 0 else 1)"
    using t by blast
  have a2: "count_list (trace (useViews_instance (\<lambda>options. ()) \<lparr>siteKey = Some ''key'', endpoint = None, pageId = ''/blog'', autoRecord = None\<rparr> ([] @ Render \<lparr>siteKey = Some ''key'', endpoint = None, pageId = ''/blog'', autoRecord = Some False\<rparr> # [Emit 0 \<lparr>status = status_success, error = None, views = 10, uniqueVisitors = 4, ViewCountsState.pageId = ''/blog''\<rparr>, Render \<lparr>siteKey = Some ''key'', endpoint = None, pageId = ''/blog'', autoRecord = None\<rparr>, Unmount])))
     (Construct (next_cid (useViews_instance (\<lambda>options. ()) \<lparr>siteKey = Some ''key'', endpoint = None, pageId = ''/blog'', autoRecord = None\<rparr> [])) ViewCountsController ((\<lambda>options. ()) \<lparr>siteKey = Some ''key'', endpoint = None, pageId = ''/blog'', autoRecord = Some False\<rparr>) (Some (pageId \<lparr>siteKey = Some ''key'', endpoint = None, pageId = ''/blog'', autoRecord = Some False\<rparr>))) = 1"
    using t by blast
  have b2: "count_list (trace (useViews_instance (\<lambda>options. ()) \<lparr>siteKey = Some ''key'', endpoint = None, pageId = ''/blog'', autoRecord = None\<rparr> ([] @ Render \<lparr>siteKey = Some ''key'', endpoint = None, pageId = ''/blog'', autoRecord = Some False\<rparr> # [Emit 0 \<lparr>status = status_success, error = None, views = 10, uniqueVisitors = 4, ViewCountsState.pageId = ''/blog''\<rparr>, Render \<lparr>siteKey = Some ''key'', endpoint = None, pageId = ''/blog'', autoRecord = None\<rparr>, Unmount])))
     (Invoke (next_cid (useViews_instance (\<lambda>options. ()) \<lparr>siteKey = Some ''key'', endpoint = None, pageId = ''/blog'', autoRecord = None\<rparr> [])) ViewCountsController_record) =
     (if autoRecord \<lparr>siteKey = Some ''key'', endpoint = None, pageId = ''/blog'', autoRecord = Some False\<rparr> = Some False then 0 else 1)"
    using t by blast
  have a3: "count_list (trace (usePoll_instance (\<lambda>options. ()) ([] @ Render \<lparr>siteKey = Some ''key'', endpoint = None, autoFetch = Some False, slug = ''favorite''\<rparr> # [Emit 0 \<lparr>status = status_error, error = Some ''not found'', poll = None\<rparr>, Render \<lparr>siteKey = Some ''key'', endpoint = None, autoFetch = Some False, slug = ''favorite''\<rparr>, Unmount])))
     (Construct (next_cid (usePoll_instance (\<lambda>options. ()) [])) PollController ((\<lambda>options. ()) \<lparr>siteKey = Some ''key'', endpoint = None, autoFetch = Some False, slug = ''favorite''\<rparr>) (Some (slug \<lparr>siteKey = Some ''key'', endpoint = None, autoFetch = Some False, slug = ''favorite''\<rparr>))) = 1"
    using t by blast
  have b3: "count_list (trace (usePoll_instance (\<lambda>options. ()) ([] @ Render \<lparr>siteKey = Some ''key'', endpoint = None, autoFetch = Some False, slug = ''favorite''\<rparr> # [Emit 0 \<lparr>status = status_error, error = Some ''not found'', poll = None\<rparr>, Render \<lparr>siteKey = Some ''key'', endpoint = None, autoFetch = Some False, slug = ''favorite''\<rparr>, Unmount])))
     (Invoke (next_cid (usePoll_instance (\<lambda>options. ()) [])) PollController_fetch) =
     (if autoFetch \<lparr>siteKey = Some ''key'', endpoint = None, autoFetch = Some False, slug = ''favorite''\<rparr> = Some False then 0 else 1)"
    using t by blast
  have a4: "count_list (trace (useAnnouncements_instance (\<lambda>options. ()) ([] @ Render \<lparr>siteKey = Some ''key'', endpoint = None, autoFetch = None\<rparr> # [Emit 0 \<lparr>status = status_success, error = None, announcements = [], dismissed = {3}\<rparr>, Render \<lparr>siteKey = Some ''key'', endpoint = None, autoFetch = None\<rparr>, Unmount])))
     (Construct (next_cid (useAnnouncements_instance (\<lambda>options. ()) [])) AnnouncementsController ((\<lambda>options. ()) \<lparr>siteKey = Some ''key'', endpoint = None, autoFetch = None\<rparr>) None) = 1"
    using t by blast
  have b4: "count_list (trace (useAnnouncements_instance (\<lambda>options. ()) ([] @ Render \<lparr>siteKey = Some ''key'', endpoint = None, autoFetch = None\<rparr> # [Emit 0 \<lparr>status = status_success, error = None, announcements = [], dismissed = {3}\<rparr>, Render \<lparr>siteKey = Some ''key'', endpoint = None, autoFetch = None\<rparr>, Unmount])))
     (Invoke (next_cid (useAnnouncements_instance (\<lambda>options. ()) [])) AnnouncementsController_fetch) =
     (if autoFetch \<lparr>siteKey = Some ''key'', endpoint = None, autoFetch = None\<rparr> = Some False then 0 else 1)"
    using t by blast
  show ?thesis
    by (intro conjI h1 h2 h3 h4 h5 h6 h7 h8 h9 h10 h11 h12 h13 h14 h15 e0 a0 b0 e1 a1 b1 e2 a2 b2 e3 a3 b3 e4 a4 b4)
qed

end
